(* ===== verification/Prelude.thy ===== *)
theory Prelude
  imports Main "HOL-Library.Sublist"
begin

text \<open>
  Shared vocabulary of the development: the JavaScript error values every
  component can raise, the result type of fallible operations, and the
  runtime helpers the TypeScript sources use everywhere (template-literal
  rendering of integers, \<open>Array.prototype.join\<close>, and the left-to-right
  \<open>Array.prototype.map\<close> of a function that may throw).  The lemmas here
  are the generic facts on these helpers that the component theories use
  through the \<open>js_simps\<close> collection.
\<close>

named_theorems js_simps "characteristic equations of the JavaScript runtime helpers"

section \<open>Errors and results\<close>

text \<open>
  A thrown JavaScript value.  \<open>Error m\<close> is \<^verbatim>\<open>new Error(m)\<close>;
  \<open>TypeError m\<close> is a runtime type error the engine raises (reading a
  property of \<^verbatim>\<open>null\<close>, calling a non-function, destructuring a
  non-iterable), carrying the engine's message; \<open>CustomError c m\<close> is
  \<^verbatim>\<open>new CustomError(c, m)\<close> of services/exception.service.ts, an \<^verbatim>\<open>Error\<close>
  with an HTTP status code (its optional \<^verbatim>\<open>status\<close> field is never passed
  by the callers).
\<close>

datatype js_error = Error string | TypeError string | CustomError nat string

text \<open>\<^verbatim>\<open>err.message\<close>.\<close>

fun message_of :: "js_error \<Rightarrow> string" where
  "message_of (Error m) = m"
| "message_of (TypeError m) = m"
| "message_of (CustomError c m) = m"

type_synonym 'a result = "js_error + 'a"

text \<open>The single-quote character, as a one-character string.\<close>

abbreviation sq :: string where
  "sq \<equiv> [CHR 0x27]"

text \<open>
  Sequencing two steps of which the first may throw: the second runs on the
  value of the first, an exception of the first escapes.
\<close>

definition rbind :: "'a result \<Rightarrow> ('a \<Rightarrow> 'b result) \<Rightarrow> 'b result" where
  "rbind m f = (case m of Inl e \<Rightarrow> Inl e | Inr x \<Rightarrow> f x)"

lemma rbind_Inr [simp, js_simps]: "rbind (Inr x) f = f x"
  by (simp add: rbind_def)

lemma rbind_Inl [simp, js_simps]: "rbind (Inl e) f = Inl e"
  by (simp add: rbind_def)

lemma rbind_eq_Inr: "rbind m f = Inr y \<longleftrightarrow> (\<exists>x. m = Inr x \<and> f x = Inr y)"
  by (cases m) auto

section \<open>Mapping a throwing function over an array\<close>

text \<open>
  \<^verbatim>\<open>xs.map(f)\<close> where \<open>f\<close> may throw: the first exception (from the left)
  escapes, later elements are never visited.  As \<open>f\<close> is pure here, this is
  mapping first and then taking the first error.
\<close>

fun sequence :: "('e + 'a) list \<Rightarrow> 'e + 'a list" where
  "sequence [] = Inr []"
| "sequence (Inl e # _) = Inl e"
| "sequence (Inr x # rs) = (case sequence rs of Inl e \<Rightarrow> Inl e | Inr xs \<Rightarrow> Inr (x # xs))"

lemma sequence_map_Inr [simp, js_simps]: "sequence (map Inr xs) = Inr xs"
  by (induction xs) auto

lemma sequence_eq_Inr: "sequence rs = Inr xs \<longleftrightarrow> rs = map Inr xs"
proof (induction rs arbitrary: xs)
  case (Cons r rs)
  show ?case
  proof (cases r)
    case (Inl e)
    then show ?thesis by auto
  next
    case (Inr x)
    with Cons.IH show ?thesis
      by (cases xs) (auto split: sum.splits)
  qed
qed auto

lemma sequence_map_ok:
  assumes "\<And>x. x \<in> set xs \<Longrightarrow> f x = Inr (g x)"
  shows "sequence (map f xs) = Inr (map g xs)"
  unfolding sequence_eq_Inr using assms by simp

lemma sequence_first_Inl [simp]: "sequence (map Inr xs @ Inl e # rs) = Inl e"
  by (induction xs) auto

lemma sequence_eq_Inl:
  "sequence rs = Inl e \<longleftrightarrow> (\<exists>ys zs. rs = map Inr ys @ Inl e # zs)"
proof (induction rs rule: sequence.induct)
  case (2 e' rs)
  show ?case
  proof
    assume "sequence (Inl e' # rs) = Inl e"
    then show "\<exists>ys zs. Inl e' # rs = map Inr ys @ Inl e # zs"
      by (intro exI [of _ "[]"] exI [of _ rs]) simp
  next
    assume "\<exists>ys zs. Inl e' # rs = map Inr ys @ Inl e # zs"
    then obtain ys zs where "Inl e' # rs = map Inr ys @ Inl e # zs" by blast
    then show "sequence (Inl e' # rs) = Inl e" by (cases ys) auto
  qed
next
  case (3 x rs)
  show ?case
  proof
    assume "sequence (Inr x # rs) = Inl e"
    then have "sequence rs = Inl e" by (simp split: sum.splits)
    with "3" obtain ys zs where "rs = map Inr ys @ Inl e # zs" by blast
    then show "\<exists>ys zs. Inr x # rs = map Inr ys @ Inl e # zs"
      by (intro exI [of _ "x # ys"]) simp
  next
    assume "\<exists>ys zs. Inr x # rs = map Inr ys @ Inl e # zs"
    then obtain ys zs where eq: "Inr x # rs = map Inr ys @ Inl e # zs" by blast
    then obtain ys' where "ys = x # ys'" and "rs = map Inr ys' @ Inl e # zs"
      by (cases ys) auto
    with "3" show "sequence (Inr x # rs) = Inl e" by auto
  qed
qed simp

text \<open>The characterisation used by the components: the first failing element decides.\<close>

lemma sequence_map_first_error:
  "sequence (map f xs) = Inl e \<longleftrightarrow>
     (\<exists>ys x zs vs. xs = ys @ x # zs \<and> map f ys = map Inr vs \<and> f x = Inl e)"
proof
  assume "sequence (map f xs) = Inl e"
  then obtain ys zs where eq: "map f xs = map Inr ys @ Inl e # zs"
    by (auto simp: sequence_eq_Inl)
  then obtain us x ws where "xs = us @ x # ws" "map f us = map Inr ys" "f x = Inl e"
    by (auto simp: map_eq_append_conv)
  then show "\<exists>ys x zs vs. xs = ys @ x # zs \<and> map f ys = map Inr vs \<and> f x = Inl e"
    by blast
next
  assume "\<exists>ys x zs vs. xs = ys @ x # zs \<and> map f ys = map Inr vs \<and> f x = Inl e"
  then obtain ys x zs vs where "xs = ys @ x # zs" "map f ys = map Inr vs" "f x = Inl e"
    by blast
  then have "map f xs = map Inr vs @ Inl e # map f zs" by simp
  then show "sequence (map f xs) = Inl e"
    unfolding sequence_eq_Inl by blast
qed

section \<open>Array.prototype.join on strings\<close>

fun join :: "string \<Rightarrow> string list \<Rightarrow> string" where
  "join sep [] = []"
| "join sep [x] = x"
| "join sep (x # y # ys) = x @ sep @ join sep (y # ys)"

lemma join_Cons [js_simps]:
  "join sep (x # xs) = (if xs = [] then x else x @ sep @ join sep xs)"
  by (cases xs) auto

lemma join_append_single:
  "xs \<noteq> [] \<Longrightarrow> join sep (xs @ [y]) = join sep xs @ sep @ y"
  by (induction sep xs rule: join.induct) auto

lemma length_join:
  "length (join sep xs) = sum_list (map length xs) + (length xs - 1) * length sep"
  by (induction sep xs rule: join.induct) auto

section \<open>Decimal rendering of integers\<close>

text \<open>
  \<^verbatim>\<open>n.toString()\<close> and \<^verbatim>\<open>${n}\<close> for a JavaScript number holding an
  integer: decimal digits, a leading minus sign for negatives, no leading
  zeros.  (Non-integral numbers and exponent notation are not modelled: the
  model's JSON numbers are integers.)
\<close>

definition digit_char :: "nat \<Rightarrow> char" where
  "digit_char d = char_of (48 + d)"

fun show_nat :: "nat \<Rightarrow> string" where
  "show_nat n = (if n < 10 then [digit_char n] else show_nat (n div 10) @ [digit_char (n mod 10)])"

declare show_nat.simps [simp del]

lemma digit_char_simps [simp, js_simps]:
  "digit_char 0 = CHR ''0''" "digit_char (Suc 0) = CHR ''1''" "digit_char 1 = CHR ''1''" "digit_char 2 = CHR ''2''"
  "digit_char 3 = CHR ''3''" "digit_char 4 = CHR ''4''" "digit_char 5 = CHR ''5''"
  "digit_char 6 = CHR ''6''" "digit_char 7 = CHR ''7''" "digit_char 8 = CHR ''8''"
  "digit_char 9 = CHR ''9''"
  by code_simp+

definition show_int :: "int \<Rightarrow> string" where
  "show_int i = (if i < 0 then CHR ''-'' # show_nat (nat (- i)) else show_nat (nat i))"

definition is_digit :: "char \<Rightarrow> bool" where
  "is_digit c \<longleftrightarrow> (48::nat) \<le> of_char c \<and> of_char c \<le> (57::nat)"

lemma show_nat_small [js_simps]: "n < 10 \<Longrightarrow> show_nat n = [digit_char n]"
  by (simp add: show_nat.simps)

lemma show_nat_big [js_simps]:
  "\<not> n < 10 \<Longrightarrow> show_nat n = show_nat (n div 10) @ [digit_char (n mod 10)]"
  by (simp add: show_nat.simps)

lemma show_nat_not_Nil [simp]: "show_nat n \<noteq> []"
  by (cases "n < 10") (simp_all add: show_nat_small show_nat_big)

lemma is_digit_digit_char [simp]: "d < 10 \<Longrightarrow> is_digit (digit_char d)"
  by (simp add: is_digit_def digit_char_def)

lemma show_nat_digits: "\<forall>c \<in> set (show_nat n). is_digit c"
proof (induction n rule: show_nat.induct)
  case (1 n)
  then show ?case
    by (cases "n < 10") (simp_all add: show_nat_small show_nat_big)
qed

section \<open>Searching lists\<close>

text \<open>
  \<^verbatim>\<open>find\<close> over an index range is the least index satisfying the
  predicate.  A pattern without a border (no proper prefix that is also a
  suffix) cannot occur across the boundary of a string and a following copy
  of itself: the first occurrence in \<open>a @ p @ r\<close> is at \<open>length a\<close>
  exactly when \<open>p\<close> does not occur in \<open>a\<close>.  This is what the fenced-block
  search of the prompt service needs.
\<close>

definition no_border :: "'a list \<Rightarrow> bool" where
  "no_border p \<longleftrightarrow> list_all (\<lambda>m. drop m p \<noteq> take (length p - m) p) [1..<length p]"

lemma find_upt_Some:
  "find P [0..<m] = Some i \<longleftrightarrow> i < m \<and> P i \<and> (\<forall>k<i. \<not> P k)"
proof
  assume "find P [0..<m] = Some i"
  then obtain n where n: "n < m" "P ([0..<m] ! n)" "i = [0..<m] ! n" "\<forall>j<n. \<not> P ([0..<m] ! j)"
    by (auto simp: find_Some_iff)
  then show "i < m \<and> P i \<and> (\<forall>k<i. \<not> P k)" by auto
next
  assume "i < m \<and> P i \<and> (\<forall>k<i. \<not> P k)"
  then show "find P [0..<m] = Some i"
    unfolding find_Some_iff by (intro exI [of _ i]) auto
qed

lemma list_ex_upt: "P k \<Longrightarrow> k < m \<Longrightarrow> list_ex P [0..<m]"
  unfolding list_ex_iff by (intro bexI [of _ k]) auto

lemma find_upt_None: "find P [0..<m] = None \<longleftrightarrow> (\<forall>k<m. \<not> P k)"
  by (auto simp: find_None_iff)

lemma prefix_take: "prefix p ys \<longleftrightarrow> take (length p) ys = p"
  by (metis append_take_drop_id prefix_def append_eq_conv_conj)

lemma no_occurrence_before:
  assumes "no_border p" "p \<noteq> []"
  shows "(\<forall>k<length a. \<not> prefix p (drop k (a @ p @ r))) \<longleftrightarrow> \<not> sublist p a"
proof
  assume none: "\<forall>k<length a. \<not> prefix p (drop k (a @ p @ r))"
  show "\<not> sublist p a"
  proof
    assume "sublist p a"
    then obtain u v where a: "a = u @ p @ v" by (auto simp: sublist_def)
    have "prefix p (drop (length u) (a @ p @ r))" by (simp add: a)
    moreover have "length u < length a" using assms(2) by (simp add: a)
    ultimately show False using none by blast
  qed
next
  assume ns: "\<not> sublist p a"
  show "\<forall>k<length a. \<not> prefix p (drop k (a @ p @ r))"
  proof (intro allI impI notI)
    fix k assume k: "k < length a" and pre: "prefix p (drop k (a @ p @ r))"
    show False
    proof (cases "k + length p \<le> length a")
      case True
      have "drop k (a @ p @ r) = drop k a @ p @ r" using k by simp
      then have "prefix p (drop k a) \<or> (\<exists>us. p = drop k a @ us \<and> prefix us (p @ r))"
        using pre by (simp add: prefix_append)
      then have "prefix p (drop k a)"
        using True k by auto
      then obtain v where "drop k a = p @ v" by (auto simp: prefix_def)
      then have "a = take k a @ p @ v" by (metis append_take_drop_id)
      then show False using ns by (metis sublist_appendI)
    next
      case False
      define m where "m = length a - k"
      have m: "m \<in> {1..<length p}" unfolding m_def using k False by auto
      define u where "u = drop k a"
      have u: "length u = m" by (simp add: u_def m_def)
      have "drop k (a @ p @ r) = u @ p @ r" using k by (simp add: u_def)
      then have "take (length p) (u @ p @ r) = p" using pre by (simp add: prefix_take)
      moreover have "take (length p) (u @ p @ r) = u @ take (length p - m) p"
        using m u by simp
      ultimately have eq: "p = u @ take (length p - m) p" by simp
      have "drop m p = drop m (u @ take (length p - m) p)"
        using eq by (rule arg_cong)
      then have "drop m p = take (length p - m) p" using u by simp
      then show False using assms(1) m by (auto simp: no_border_def list_all_iff)
    qed
  qed
qed

end
