(* ===== verification/Json.thy ===== *)
theory Json
  imports Prelude
begin

text \<open>
  JSON values as the Express handlers receive them (\<^verbatim>\<open>req.body\<close> after
  \<^verbatim>\<open>bodyParser.json()\<close>), and the parts of the JavaScript runtime the
  handlers apply to them: property reads, the \<^verbatim>\<open>in\<close> operator,
  \<^verbatim>\<open>Object.keys\<close>, the \<^verbatim>\<open>length\<close> property, array destructuring, and
  conversion to a string by a template literal or \<^verbatim>\<open>toString()\<close>.  This is
  the untyped input the filter compiler inspects by duck typing.

  An object is the association list of its own properties in JavaScript
  enumeration order (as \<^verbatim>\<open>JSON.parse\<close> creates them); its keys are
  distinct (\<open>json_wf\<close>).  Numbers are integers.
\<close>

datatype jval =
    JNull
  | JBool bool
  | JNum int
  | JStr string
  | JArr "jval list"
  | JObj "(string \<times> jval) list"

fun json_wf :: "jval \<Rightarrow> bool" where
  "json_wf (JArr xs) = (\<forall>x \<in> set xs. json_wf x)"
| "json_wf (JObj kvs) = (distinct (map fst kvs) \<and> (\<forall>kv \<in> set kvs. json_wf (snd kv)))"
| "json_wf _ = True"

section \<open>Conversion to a string\<close>

text \<open>
  \<^verbatim>\<open>String(v)\<close>, which is what \<^verbatim>\<open>${v}\<close> in a template literal and
  \<^verbatim>\<open>v.toString()\<close> compute: arrays join their elements with commas (null
  elements rendering empty), plain objects render as \<^verbatim>\<open>[object Object]\<close>.
\<close>

fun js_to_string :: "jval \<Rightarrow> string" where
  "js_to_string JNull = ''null''"
| "js_to_string (JBool b) = (if b then ''true'' else ''false'')"
| "js_to_string (JNum n) = show_int n"
| "js_to_string (JStr s) = s"
| "js_to_string (JArr xs) = join '','' (map (\<lambda>x. if x = JNull then [] else js_to_string x) xs)"
| "js_to_string (JObj kvs) = ''[object Object]''"

text \<open>
  \<open>js_to_string\<close> is the text of a value whose conversion succeeds.  The
  conversion \<^verbatim>\<open>ToPrimitive\<close> calls the object's \<^verbatim>\<open>toString\<close> and then
  its \<^verbatim>\<open>valueOf\<close>; a JSON object with an own \<^verbatim>\<open>toString\<close> key
  shadows the callable one of \<^verbatim>\<open>Object.prototype\<close> with a value that
  cannot be called, and \<^verbatim>\<open>valueOf\<close> returns the object itself, so the
  conversion throws.  An array converts its elements one by one
  (\<^verbatim>\<open>join\<close>), so it throws when one of them does.  The hint (string for
  a template, default for \<^verbatim>\<open>+\<close>) makes no difference for JSON values.
\<close>

fun js_convertible :: "jval \<Rightarrow> bool" where
  "js_convertible (JObj kvs) = (''toString'' \<notin> set (map fst kvs))"
| "js_convertible (JArr xs) = (\<forall>x \<in> set xs. js_convertible x)"
| "js_convertible _ = True"

definition convert_error :: js_error where
  "convert_error = TypeError ''Cannot convert object to primitive value''"

text \<open>\<^verbatim>\<open>String(v)\<close>, \<^verbatim>\<open>${v}\<close> and \<^verbatim>\<open>s + v\<close>: the text, or the exception.\<close>

definition js_string :: "jval \<Rightarrow> string result" where
  "js_string v = (if js_convertible v then Inr (js_to_string v) else Inl convert_error)"

text \<open>A possibly undefined value in a template literal.\<close>

definition js_template :: "jval option \<Rightarrow> string result" where
  "js_template v = (case v of None \<Rightarrow> Inr ''undefined'' | Some x \<Rightarrow> js_string x)"

text \<open>
  \<^verbatim>\<open>x.toString()\<close> for the variable named \<open>x\<close>: a method call, so
  \<^verbatim>\<open>null\<close> throws, and so does an own \<^verbatim>\<open>toString\<close> property (not a
  function); an array's \<^verbatim>\<open>toString\<close> converts its elements.
\<close>

definition js_toString :: "string \<Rightarrow> jval \<Rightarrow> string result" where
  "js_toString x v = (case v of
     JNull \<Rightarrow> Inl (TypeError ''Cannot read properties of null (reading 'toString')'')
   | JObj kvs \<Rightarrow> if ''toString'' \<in> set (map fst kvs) then Inl (TypeError (x @ ''.toString is not a function''))
                else Inr (js_to_string v)
   | _ \<Rightarrow> js_string v)"

text \<open>Truthiness, as \<^verbatim>\<open>if (v)\<close> tests it.\<close>

fun js_truthy :: "jval \<Rightarrow> bool" where
  "js_truthy JNull = False"
| "js_truthy (JBool b) = b"
| "js_truthy (JNum n) = (n \<noteq> 0)"
| "js_truthy (JStr s) = (s \<noteq> [])"
| "js_truthy (JArr xs) = True"
| "js_truthy (JObj kvs) = True"

text \<open>Truthiness of a property read, \<^verbatim>\<open>undefined\<close> being falsy.\<close>

definition js_truthy_opt :: "jval option \<Rightarrow> bool" where
  "js_truthy_opt v = (case v of None \<Rightarrow> False | Some x \<Rightarrow> js_truthy x)"

section \<open>Properties\<close>

text \<open>
  \<^verbatim>\<open>k in v\<close>: own properties only, for the property names the sources ask
  about (\<^verbatim>\<open>and\<close>, \<^verbatim>\<open>or\<close>), which no built-in prototype carries.  On a
  primitive the operator throws.
\<close>

definition js_in :: "string \<Rightarrow> jval \<Rightarrow> bool result" where
  "js_in k v = (case v of
     JObj kvs \<Rightarrow> Inr (k \<in> set (map fst kvs))
   | JArr xs \<Rightarrow> Inr (k = ''length'' \<or> k \<in> set (map show_nat [0..<length xs]))
   | _ \<Rightarrow> Inl (TypeError (''Cannot use 'in' operator to search for '' @ sq @ k @ sq @ '' in '' @ js_to_string v)))"

text \<open>
  Reading \<^verbatim>\<open>v.k\<close> (or \<^verbatim>\<open>v[k]\<close>): \<open>None\<close> is \<^verbatim>\<open>undefined\<close>; reading from
  \<^verbatim>\<open>null\<close> throws.  Arrays and strings answer indices and \<^verbatim>\<open>length\<close>.
\<close>

definition index_of :: "string \<Rightarrow> nat \<Rightarrow> nat option" where
  "index_of k n = find (\<lambda>i. show_nat i = k) [0..<n]"

definition js_get :: "jval \<Rightarrow> string \<Rightarrow> jval option result" where
  "js_get v k = (case v of
     JNull \<Rightarrow> Inl (TypeError (''Cannot read properties of null (reading '' @ sq @ k @ sq @ '')''))
   | JObj kvs \<Rightarrow> Inr (map_of kvs k)
   | JArr xs \<Rightarrow> Inr (if k = ''length'' then Some (JNum (int (length xs)))
                     else map_option (\<lambda>i. xs ! i) (index_of k (length xs)))
   | JStr s \<Rightarrow> Inr (if k = ''length'' then Some (JNum (int (length s)))
                     else map_option (\<lambda>i. JStr [s ! i]) (index_of k (length s)))
   | _ \<Rightarrow> Inr None)"

text \<open>\<^verbatim>\<open>Object.keys(v)\<close> for a value that is not null.\<close>

definition js_keys :: "jval \<Rightarrow> string list" where
  "js_keys v = (case v of
     JObj kvs \<Rightarrow> map fst kvs
   | JArr xs \<Rightarrow> map show_nat [0..<length xs]
   | JStr s \<Rightarrow> map show_nat [0..<length s]
   | _ \<Rightarrow> [])"

text \<open>
  \<^verbatim>\<open>const [a, b, ...] = v\<close>: the iteration protocol.  Arrays yield their
  elements, strings their characters; anything else is not iterable.
\<close>

definition js_iter :: "string \<Rightarrow> jval \<Rightarrow> jval list result" where
  "js_iter name v = (case v of
     JArr xs \<Rightarrow> Inr xs
   | JStr s \<Rightarrow> Inr (map (\<lambda>c. JStr [c]) s)
   | _ \<Rightarrow> Inl (TypeError (name @ '' is not iterable'')))"

text \<open>
  \<^verbatim>\<open>const {k} = v\<close> reads the property; destructuring \<^verbatim>\<open>null\<close>
  throws with the text of the destructured expression.
\<close>

definition js_destructure :: "string \<Rightarrow> jval \<Rightarrow> string \<Rightarrow> jval option result" where
  "js_destructure what v k = (if v = JNull
     then Inl (TypeError (''Cannot destructure property '' @ sq @ k @ sq @ '' of '' @ sq @ what @ sq @ '' as it is null.''))
     else js_get v k)"

section \<open>Serialisation\<close>

text \<open>
  \<^verbatim>\<open>JSON.stringify(v)\<close>: no whitespace, keys in enumeration order.  In a
  string the quote, the backslash and the control characters are escaped
  (\<^verbatim>\<open>\b \f \n \r \t\<close> by name, the others as \<^verbatim>\<open>\u00xx\<close> in lower-case
  hex); every other character is copied.  A character here is a UTF-16
  code unit below 256, so no surrogate arises.
\<close>

abbreviation bslash :: char where "bslash \<equiv> CHR 0x5C"
abbreviation dquote :: char where "dquote \<equiv> CHR 0x22"

definition hex_digit :: "nat \<Rightarrow> char" where
  "hex_digit d = (if d < 10 then digit_char d else char_of (87 + d))"

definition json_escape_char :: "char \<Rightarrow> string" where
  "json_escape_char c =
     (if c = dquote then [bslash, dquote]
      else if c = bslash then [bslash, bslash]
      else if c = CHR 0x08 then [bslash, CHR ''b'']
      else if c = CHR 0x0C then [bslash, CHR ''f'']
      else if c = CHR 0x0A then [bslash, CHR ''n'']
      else if c = CHR 0x0D then [bslash, CHR ''r'']
      else if c = CHR 0x09 then [bslash, CHR ''t'']
      else if of_char c < (32::nat)
        then [bslash, CHR ''u'', CHR ''0'', CHR ''0'', hex_digit (of_char c div 16), hex_digit (of_char c mod 16)]
      else [c])"

definition json_quote :: "string \<Rightarrow> string" where
  "json_quote s = dquote # concat (map json_escape_char s) @ [dquote]"

fun json_stringify :: "jval \<Rightarrow> string" where
  "json_stringify JNull = ''null''"
| "json_stringify (JBool b) = (if b then ''true'' else ''false'')"
| "json_stringify (JNum n) = show_int n"
| "json_stringify (JStr s) = json_quote s"
| "json_stringify (JArr xs) = ''['' @ join '','' (map json_stringify xs) @ '']''"
| "json_stringify (JObj kvs) =
     ''{'' @ join '','' (map (\<lambda>(k, v). json_quote k @ '':'' @ json_stringify v) kvs) @ ''}''"

section \<open>Lemmas\<close>

lemma size_map_of_less:
  "map_of kvs k = Some v \<Longrightarrow> size v < size (JObj kvs)"
proof (induction kvs)
  case (Cons kv kvs)
  then show ?case by (cases kv) (auto split: if_splits)
qed simp

lemma size_arr_elem: "x \<in> set xs \<Longrightarrow> size x < size (JArr xs)"
  by (induction xs) auto

lemma index_of_Some: "index_of k n = Some i \<Longrightarrow> i < n \<and> show_nat i = k"
  by (auto simp: index_of_def find_Some_iff)

lemma index_of_non_numeric:
  assumes "\<exists>c \<in> set k. \<not> is_digit c"
  shows "index_of k n = None"
proof -
  have "\<forall>i. show_nat i \<noteq> k"
    using assms show_nat_digits by metis
  then show ?thesis by (simp add: index_of_def find_None_iff)
qed

lemma index_of_var [js_simps]: "index_of ''var'' n = None"
  by (rule index_of_non_numeric) (simp add: is_digit_def)

lemma js_get_obj [js_simps]: "js_get (JObj kvs) k = Inr (map_of kvs k)"
  by (simp add: js_get_def)

lemma js_destructure_obj [js_simps]: "js_destructure w (JObj kvs) k = Inr (map_of kvs k)"
  by (simp add: js_destructure_def js_simps)

lemma js_in_obj [js_simps]: "js_in k (JObj kvs) = Inr (k \<in> set (map fst kvs))"
  by (simp add: js_in_def)

lemma js_keys_obj [js_simps]: "js_keys (JObj kvs) = map fst kvs"
  by (simp add: js_keys_def)

lemma js_iter_arr [js_simps]: "js_iter n (JArr xs) = Inr xs"
  by (simp add: js_iter_def)

lemma js_template_Some [js_simps]: "js_template (Some v) = js_string v"
  by (simp add: js_template_def)

lemma js_template_None [js_simps]: "js_template None = Inr ''undefined''"
  by (simp add: js_template_def)

lemma js_string_JStr [simp, js_simps]: "js_string (JStr s) = Inr s"
  by (simp add: js_string_def)

lemma js_string_JNum [simp, js_simps]: "js_string (JNum n) = Inr (show_int n)"
  by (simp add: js_string_def)

lemma js_string_convertible [js_simps]: "js_convertible v \<Longrightarrow> js_string v = Inr (js_to_string v)"
  by (simp add: js_string_def)

lemma js_string_Inr_iff: "js_string v = Inr s \<longleftrightarrow> js_convertible v \<and> s = js_to_string v"
  by (auto simp: js_string_def)

lemma js_string_Inl_iff: "js_string v = Inl e \<longleftrightarrow> \<not> js_convertible v \<and> e = convert_error"
  by (auto simp: js_string_def)

lemma js_string_obj_toString:
  "''toString'' \<in> set (map fst kvs) \<Longrightarrow> js_string (JObj kvs) = Inl convert_error"
  by (simp add: js_string_def)

lemma js_toString_JNum [simp, js_simps]: "js_toString x (JNum n) = Inr (show_int n)"
  by (simp add: js_toString_def)

lemma js_toString_JBool [simp, js_simps]: "js_toString x (JBool b) = Inr (if b then ''true'' else ''false'')"
  by (simp add: js_toString_def js_string_def)

lemma map_of_distinct_first:
  "distinct (map fst kvs) \<Longrightarrow> (k, v) \<in> set kvs \<Longrightarrow> map_of kvs k = Some v"
  by (rule map_of_is_SomeI)

end
