(* ===== verification/FilterCompiler.thy ===== *)
theory FilterCompiler
  imports Json
begin

text \<open>
  The filter compiler: \<^verbatim>\<open>QueryService.buildQuery\<close>
  (src/middleware/services/query.service.ts), which turns the JSON body of a
  query request into the text of a SQL \<^verbatim>\<open>WHERE\<close> clause.  It inspects its
  untyped input by duck typing: an object with an \<^verbatim>\<open>and\<close> (else \<^verbatim>\<open>or\<close>)
  property is a conjunction (disjunction) of the array it holds; any other
  value is a comparison named by its first key.  The model follows each
  property read, each \<^verbatim>\<open>in\<close> test and each destructuring of the source, so
  that every exception the code can raise is a value of the model.

  Next to it stands the abstract specification of the compiler (the typed
  filter expressions of the specification and their rendering \<open>compile\<close>)
  with the refinement theorem that \<open>buildQuery\<close>, applied to the JSON
  encoding of a typed expression, returns exactly \<open>compile\<close> of it.
\<close>

section \<open>The compiler\<close>

text \<open>The six operator keys the code recognises (lines 27--34; note \<^verbatim>\<open>==\<close>, not \<^verbatim>\<open>=\<close>).\<close>

definition is_comparison_operator :: "string \<Rightarrow> bool" where
  "is_comparison_operator k \<longleftrightarrow>
     k = ''!='' \<or> k = ''<'' \<or> k = ''<='' \<or> k = ''>'' \<or> k = ''>='' \<or> k = ''==''"

text \<open>
  \<^verbatim>\<open>(${conditions})\<close> of the mapped children joined by the separator
  (lines 15--18 and 20--23); the first child that throws aborts the map.
  Only an array has \<^verbatim>\<open>map\<close>: any other value of the property throws.
\<close>

definition junction :: "string \<Rightarrow> string result list \<Rightarrow> string result" where
  "junction sep rs = rbind (sequence rs) (\<lambda>cs. Inr (''('' @ join sep cs @ '')''))"

definition not_mappable :: "string \<Rightarrow> jval option \<Rightarrow> js_error" where
  "not_mappable k v = (case v of
     Some JNull \<Rightarrow> TypeError (''Cannot read properties of null (reading '' @ sq @ ''map'' @ sq @ '')'')
   | _ \<Rightarrow> TypeError (''query.'' @ k @ ''.map is not a function''))"

text \<open>
  A two-operand comparison \<^verbatim>\<open>[variable, value]\<close> (lines 40--44): a string
  value is single-quoted, anything else goes through \<^verbatim>\<open>toString()\<close>.
\<close>

definition quoted_value :: "jval \<Rightarrow> string result" where
  "quoted_value v = (case v of JStr s \<Rightarrow> Inr (sq @ s @ sq) | _ \<Rightarrow> js_toString ''value'' v)"

text \<open>
  The bounds of a three-operand comparison (lines 48--51): a string is used
  as it is, anything else goes through \<^verbatim>\<open>toString()\<close> of the variable
  \<open>x\<close> (\<^verbatim>\<open>value1\<close> or \<^verbatim>\<open>value2\<close>).
\<close>

definition plain_value :: "string \<Rightarrow> jval \<Rightarrow> string result" where
  "plain_value x v = (case v of JStr s \<Rightarrow> Inr s | _ \<Rightarrow> js_toString x v)"

text \<open>
  The comparison text is built after the operand values, so
  \<^verbatim>\<open>${varName}\<close> is converted last (an object name without own
  \<^verbatim>\<open>toString\<close> prints \<^verbatim>\<open>[object Object]\<close>, one with it throws).
\<close>

definition cmp2 :: "string \<Rightarrow> jval list \<Rightarrow> string result" where
  "cmp2 op xs =
     rbind (js_get (xs ! 0) ''var'') (\<lambda>varName.
     rbind (quoted_value (xs ! 1)) (\<lambda>cv.
     rbind (js_template varName) (\<lambda>vn.
       Inr (vn @ '' '' @ op @ '' '' @ cv))))"

definition cmp3 :: "string \<Rightarrow> jval list \<Rightarrow> string result" where
  "cmp3 op xs =
     rbind (js_get (xs ! 1) ''var'') (\<lambda>varName.
     rbind (plain_value ''value1'' (xs ! 0)) (\<lambda>cv1.
     rbind (plain_value ''value2'' (xs ! 2)) (\<lambda>cv2.
     rbind (js_template varName) (\<lambda>vn.
       Inr (vn @ '' '' @ op @ '' '' @ cv1 @ '' AND '' @
            vn @ '' '' @ op @ '' '' @ cv2)))))"

text \<open>
  The comparison branch (lines 25--60): the operator is the first key; its
  operands are read, their \<^verbatim>\<open>length\<close> decides the form, and the operands
  are destructured.
\<close>

definition build_comparison :: "jval \<Rightarrow> string result" where
  "build_comparison q =
     (let operator = (case js_keys q of [] \<Rightarrow> None | k # _ \<Rightarrow> Some k) in
      case operator of
        Some op \<Rightarrow>
          (if is_comparison_operator op then
             rbind (js_get q op) (\<lambda>operands.
             case operands of
               None \<Rightarrow> Inl (TypeError (''Cannot read properties of undefined (reading '' @ sq @ ''length'' @ sq @ '')''))
             | Some ops \<Rightarrow>
                 rbind (js_get ops ''length'') (\<lambda>len.
                 if len = Some (JNum 2) then rbind (js_iter ''operands'' ops) (cmp2 op)
                 else if len = Some (JNum 3) then rbind (js_iter ''operands'' ops) (cmp3 op)
                 else Inl (Error (''Invalid number of operands for operator '' @ op))))
           else Inl (Error (''Unsupported operator '' @ op)))
      | None \<Rightarrow> Inl (Error ''Unsupported operator undefined''))"

text \<open>A property read that yields an array yields a smaller value: the termination argument.\<close>

lemma js_get_arr_size:
  assumes "js_get q k = Inr (Some (JArr ops))" and "x \<in> set ops"
  shows "size x < size q"
proof (cases q)
  case (JObj kvs)
  with assms have "map_of kvs k = Some (JArr ops)" by (simp add: js_get_def)
  then have "size (JArr ops) < size (JObj kvs)" by (rule size_map_of_less)
  then have "size (JArr ops) < size q" using JObj by simp
  moreover from assms(2) have "size x < size (JArr ops)" by (rule size_arr_elem)
  ultimately show ?thesis by simp
next
  case (JArr xs)
  with assms obtain i where "index_of k (length xs) = Some i" "xs ! i = JArr ops"
    by (auto simp: js_get_def split: if_splits)
  then have "JArr ops \<in> set xs" by (metis index_of_Some nth_mem)
  then have "size (JArr ops) < size (JArr xs)" by (rule size_arr_elem)
  then have "size (JArr ops) < size q" using JArr by simp
  moreover from assms(2) have "size x < size (JArr ops)" by (rule size_arr_elem)
  ultimately show ?thesis by simp
qed (use assms in \<open>auto simp: js_get_def split: if_splits\<close>)

text \<open>\<^verbatim>\<open>buildQuery\<close> itself (lines 13--62).\<close>

function buildQuery :: "jval \<Rightarrow> string result" where
  "buildQuery q =
     (case js_in ''and'' q of
        Inl e \<Rightarrow> Inl e
      | Inr True \<Rightarrow>
          (case js_get q ''and'' of
             Inr (Some (JArr ops)) \<Rightarrow> junction '' AND '' (map buildQuery ops)
           | Inr v \<Rightarrow> Inl (not_mappable ''and'' v)
           | Inl e \<Rightarrow> Inl e)
      | Inr False \<Rightarrow>
          (case js_in ''or'' q of
             Inl e \<Rightarrow> Inl e
           | Inr True \<Rightarrow>
               (case js_get q ''or'' of
                  Inr (Some (JArr ops)) \<Rightarrow> junction '' OR '' (map buildQuery ops)
                | Inr v \<Rightarrow> Inl (not_mappable ''or'' v)
                | Inl e \<Rightarrow> Inl e)
           | Inr False \<Rightarrow> build_comparison q))"
  by pat_completeness auto

termination
  by (relation "measure size") (auto dest: js_get_arr_size)

declare buildQuery.simps [simp del]

section \<open>Characteristic equations of the compiler on objects\<close>

text \<open>
  The three branches of \<open>buildQuery\<close> on an object: a present \<^verbatim>\<open>and\<close>
  decides (whatever else the object holds), then a present \<^verbatim>\<open>or\<close>, else
  the comparison.
\<close>

lemma buildQuery_and:
  assumes "map_of kvs ''and'' = Some (JArr ops)"
  shows "buildQuery (JObj kvs) = junction '' AND '' (map buildQuery ops)"
proof -
  from assms have "''and'' \<in> set (map fst kvs)"
    by (force dest: map_of_SomeD)
  with assms show ?thesis by (subst buildQuery.simps) (simp add: js_simps)
qed

lemma buildQuery_or:
  assumes "''and'' \<notin> set (map fst kvs)" and "map_of kvs ''or'' = Some (JArr ops)"
  shows "buildQuery (JObj kvs) = junction '' OR '' (map buildQuery ops)"
proof -
  from assms(2) have "''or'' \<in> set (map fst kvs)"
    by (force dest: map_of_SomeD)
  with assms show ?thesis by (subst buildQuery.simps) (simp add: js_simps)
qed

lemma buildQuery_leaf:
  assumes "''and'' \<notin> set (map fst kvs)" and "''or'' \<notin> set (map fst kvs)"
  shows "buildQuery (JObj kvs) = build_comparison (JObj kvs)"
  using assms by (subst buildQuery.simps) (simp add: js_simps)

lemma buildQuery_comparison:
  assumes "is_comparison_operator k"
    and "''and'' \<notin> set (map fst rest)" and "''or'' \<notin> set (map fst rest)"
  shows "buildQuery (JObj ((k, v) # rest)) = build_comparison (JObj ((k, v) # rest))"
proof -
  from assms(1) have "k \<noteq> ''and''" "k \<noteq> ''or''"
    by (auto simp: is_comparison_operator_def)
  with assms(2,3) show ?thesis by (intro buildQuery_leaf) auto
qed

text \<open>The comparison branch on an object whose first key is \<open>k\<close>.\<close>

lemma build_comparison_first_key:
  "build_comparison (JObj ((k, v) # rest)) =
     (if is_comparison_operator k then
        rbind (js_get v ''length'') (\<lambda>len.
          if len = Some (JNum 2) then rbind (js_iter ''operands'' v) (cmp2 k)
          else if len = Some (JNum 3) then rbind (js_iter ''operands'' v) (cmp3 k)
          else Inl (Error (''Invalid number of operands for operator '' @ k)))
      else Inl (Error (''Unsupported operator '' @ k)))"
  by (simp add: build_comparison_def js_simps)

lemma js_get_arr_length [js_simps]: "js_get (JArr xs) ''length'' = Inr (Some (JNum (int (length xs))))"
  by (simp add: js_get_def)

lemma is_comparison_operator_not_junction:
  "is_comparison_operator k \<Longrightarrow> k \<noteq> ''and'' \<and> k \<noteq> ''or''"
  by (auto simp: is_comparison_operator_def)

section \<open>The specification: typed filter expressions\<close>

text \<open>
  The filter expressions of the specification (section 3 of spec.md) as a
  datatype: conjunctions and disjunctions of sub-filters, two-operand
  comparisons \<open>variable op value\<close> and three-operand range comparisons
  \<open>value op variable op value\<close>, over the six operators the code accepts.
  \<open>compile\<close> is the rendering the specification describes (section 4.1);
  \<open>encode\<close> is the JSON wire format of section 6.
\<close>

datatype cmp_op = OpNe | OpLt | OpLe | OpGt | OpGe | OpEq

fun op_str :: "cmp_op \<Rightarrow> string" where
  "op_str OpNe = ''!=''"
| "op_str OpLt = ''<''"
| "op_str OpLe = ''<=''"
| "op_str OpGt = ''>''"
| "op_str OpGe = ''>=''"
| "op_str OpEq = ''==''"

datatype scalar = SStr string | SNum int

datatype filter =
    FAnd "filter list"
  | FOr "filter list"
  | FCmp cmp_op string scalar
  | FRange cmp_op scalar string scalar

fun render_quoted :: "scalar \<Rightarrow> string" where
  "render_quoted (SStr s) = sq @ s @ sq"
| "render_quoted (SNum n) = show_int n"

fun render_plain :: "scalar \<Rightarrow> string" where
  "render_plain (SStr s) = s"
| "render_plain (SNum n) = show_int n"

fun compile :: "filter \<Rightarrow> string" where
  "compile (FAnd fs) = ''('' @ join '' AND '' (map compile fs) @ '')''"
| "compile (FOr fs) = ''('' @ join '' OR '' (map compile fs) @ '')''"
| "compile (FCmp op x v) = x @ '' '' @ op_str op @ '' '' @ render_quoted v"
| "compile (FRange op v1 x v2) =
     x @ '' '' @ op_str op @ '' '' @ render_plain v1 @ '' AND '' @
     x @ '' '' @ op_str op @ '' '' @ render_plain v2"

fun scalar_json :: "scalar \<Rightarrow> jval" where
  "scalar_json (SStr s) = JStr s"
| "scalar_json (SNum n) = JNum n"

fun encode :: "filter \<Rightarrow> jval" where
  "encode (FAnd fs) = JObj [(''and'', JArr (map encode fs))]"
| "encode (FOr fs) = JObj [(''or'', JArr (map encode fs))]"
| "encode (FCmp op x v) = JObj [(op_str op, JArr [JObj [(''var'', JStr x)], scalar_json v])]"
| "encode (FRange op v1 x v2) =
     JObj [(op_str op, JArr [scalar_json v1, JObj [(''var'', JStr x)], scalar_json v2])]"

section \<open>The declared input type (types.ts)\<close>

text \<open>
  The TypeScript type of the compiler's input (src/middleware/util/types.ts):
  \<^verbatim>\<open>QueryOperation\<close> is a union of three object types, one holding
  comparison keys (among \<^verbatim>\<open>= != < <= > >=\<close>) that map to a pair
  \<^verbatim>\<open>[QueryVariable, string | number]\<close>, one with an optional \<^verbatim>\<open>and\<close>
  and one with an optional \<^verbatim>\<open>or\<close> holding arrays of operations.  A JSON
  value has the type when it is exactly one member of the union, with no
  keys beyond the member's (the reading TypeScript's excess-property check
  gives to object literals).
\<close>

definition ts_comparison_operator :: "string \<Rightarrow> bool" where
  "ts_comparison_operator k \<longleftrightarrow>
     k = ''='' \<or> k = ''!='' \<or> k = ''<'' \<or> k = ''<='' \<or> k = ''>'' \<or> k = ''>=''"

definition is_query_variable :: "jval \<Rightarrow> bool" where
  "is_query_variable v = (case v of
     JObj kvs \<Rightarrow> map fst kvs = [''var''] \<and> (case map_of kvs ''var'' of Some (JStr s) \<Rightarrow> True | _ \<Rightarrow> False)
   | _ \<Rightarrow> False)"

definition is_operand :: "jval \<Rightarrow> bool" where
  "is_operand v = (case v of JStr s \<Rightarrow> True | JNum n \<Rightarrow> True | _ \<Rightarrow> False)"

definition is_operand_pair :: "jval \<Rightarrow> bool" where
  "is_operand_pair v = (case v of JArr [x, y] \<Rightarrow> is_query_variable x \<and> is_operand y | _ \<Rightarrow> False)"

fun is_query_operation :: "jval \<Rightarrow> bool" where
  "is_query_operation (JObj kvs) =
     (distinct (map fst kvs) \<and>
      (list_all (\<lambda>kv. ts_comparison_operator (fst kv) \<and> is_operand_pair (snd kv)) kvs \<or>
       (case kvs of
          [(k, JArr xs)] \<Rightarrow> (k = ''and'' \<or> k = ''or'') \<and> list_all is_query_operation xs
        | _ \<Rightarrow> False)))"
| "is_query_operation _ = False"

lemma op_str_operator [simp]: "is_comparison_operator (op_str op)"
  by (cases op) (simp_all add: is_comparison_operator_def)

lemma op_str_not_junction [simp]:
  "op_str op \<noteq> ''and''" "op_str op \<noteq> ''or''" "''and'' \<noteq> op_str op" "''or'' \<noteq> op_str op"
  by (cases op; simp)+

lemma quoted_value_scalar [simp]: "quoted_value (scalar_json v) = Inr (render_quoted v)"
  by (cases v) (simp_all add: quoted_value_def js_toString_def)

lemma plain_value_scalar [simp]: "plain_value x (scalar_json v) = Inr (render_plain v)"
  by (cases v) (simp_all add: plain_value_def js_toString_def)

section \<open>Properties of the compiler\<close>

text \<open>
  C1 (refinement).  The compiler implements the specification: on the JSON
  encoding of every well-typed filter expression, \<open>buildQuery\<close> returns
  exactly the rendering the specification prescribes -- conjunctions and
  disjunctions joined by \<^verbatim>\<open> AND \<close> / \<^verbatim>\<open> OR \<close> inside one pair of
  parentheses, two-operand comparisons with quoted strings, range
  comparisons with the operator applied to both bounds.
\<close>

theorem buildQuery_encode: "buildQuery (encode f) = Inr (compile f)"
proof (induction f)
  case (FAnd fs)
  then have "sequence (map (buildQuery \<circ> encode) fs) = Inr (map compile fs)"
    by (intro sequence_map_ok) simp
  then show ?case by (simp add: buildQuery_and junction_def)
next
  case (FOr fs)
  then have "sequence (map (buildQuery \<circ> encode) fs) = Inr (map compile fs)"
    by (intro sequence_map_ok) simp
  then show ?case by (simp add: buildQuery_or junction_def)
next
  case (FCmp op x v)
  show ?case
    by (simp add: buildQuery_leaf build_comparison_first_key js_simps cmp2_def)
next
  case (FRange op v1 x v2)
  show ?case
    by (simp add: buildQuery_leaf build_comparison_first_key js_simps cmp3_def)
qed

text \<open>
  C5 (error).  A node that is neither a conjunction nor a disjunction and
  whose first key is not one of the six recognised operators is rejected
  with \<^verbatim>\<open>Unsupported operator <key>\<close>.  This includes \<^verbatim>\<open>=\<close>, which the
  specification and the type \<^verbatim>\<open>ComparisonOperator\<close> list as an operator.
\<close>

lemma buildQuery_unsupported_operator:
  assumes "''and'' \<notin> set (map fst ((k, v) # rest))" and "''or'' \<notin> set (map fst ((k, v) # rest))"
    and "\<not> is_comparison_operator k"
  shows "buildQuery (JObj ((k, v) # rest)) = Inl (Error (''Unsupported operator '' @ k))"
  using assms by (simp add: buildQuery_leaf build_comparison_first_key)

lemma buildQuery_unsupported_operator_witness:
  "buildQuery (JObj [(''='', JArr [JObj [(''var'', JStr ''x'')], JNum 1])]) =
     Inl (Error ''Unsupported operator ='')"
  using buildQuery_unsupported_operator [of "''=''" "JArr [JObj [(''var'', JStr ''x'')], JNum 1]" "[]"]
  by (simp add: is_comparison_operator_def)

text \<open>
  C6 (error).  A recognised operator whose operand array has neither two
  nor three elements is rejected with
  \<^verbatim>\<open>Invalid number of operands for operator <op>\<close>.
\<close>

lemma buildQuery_operand_count:
  assumes "''and'' \<notin> set (map fst rest)" and "''or'' \<notin> set (map fst rest)"
    and "is_comparison_operator k" and "length xs \<noteq> 2" and "length xs \<noteq> 3"
  shows "buildQuery (JObj ((k, JArr xs) # rest)) =
           Inl (Error (''Invalid number of operands for operator '' @ k))"
  using assms by (simp add: buildQuery_comparison build_comparison_first_key js_simps)

lemma buildQuery_operand_count_witness:
  "buildQuery (JObj [(''<'', JArr [JObj [(''var'', JStr ''x'')]])]) =
     Inl (Error ''Invalid number of operands for operator <'')"
  using buildQuery_operand_count [of "[]" "''<''" "[JObj [(''var'', JStr ''x'')]]"]
  by (simp add: is_comparison_operator_def)

text \<open>
  C7 (error).  No partial output: when a child of a conjunction fails, the
  whole compilation fails with the error of the first failing child (the
  children before it compiled, the ones after it are never visited).
\<close>

lemma buildQuery_first_error:
  assumes "map_of kvs ''and'' = Some (JArr (ys @ x # zs))"
    and "map buildQuery ys = map Inr ss" and "buildQuery x = Inl e"
  shows "buildQuery (JObj kvs) = Inl e"
proof -
  have "sequence (map buildQuery (ys @ x # zs)) = Inl e"
    using assms(2,3) by simp
  with assms(1) show ?thesis by (simp add: buildQuery_and junction_def)
qed

lemma buildQuery_first_error_witness:
  "buildQuery (JObj [(''and'', JArr [JObj [(''<'', JArr [JObj [(''var'', JStr ''x'')], JNum 1])],
                                     JObj [(''~='', JArr [])], JObj []])]) =
     Inl (Error ''Unsupported operator ~='')"
proof -
  have ok: "map buildQuery [JObj [(''<'', JArr [JObj [(''var'', JStr ''x'')], JNum 1])]] = map Inr [''x < 1'']"
    by (simp add: buildQuery_comparison build_comparison_first_key js_simps cmp2_def
        quoted_value_def js_toString_def show_int_def is_comparison_operator_def)
  have bad: "buildQuery (JObj [(''~='', JArr [])]) = Inl (Error ''Unsupported operator ~='')"
    by (simp add: buildQuery_leaf build_comparison_first_key is_comparison_operator_def)
  show ?thesis
    using buildQuery_first_error [of "[(''and'', JArr [JObj [(''<'', JArr [JObj [(''var'', JStr ''x'')], JNum 1])],
                                     JObj [(''~='', JArr [])], JObj []])]"
        "[JObj [(''<'', JArr [JObj [(''var'', JStr ''x'')], JNum 1])]]" "JObj [(''~='', JArr [])]"
        "[JObj []]", OF _ ok bad]
    by simp
qed

text \<open>
  The two worked examples of the specification (with the
  equality operator spelled \<^verbatim>\<open>==\<close>, as the code spells it).
\<close>

lemma buildQuery_spec_examples:
  "buildQuery (JObj [(''and'', JArr [JObj [(''=='', JArr [JObj [(''var'', JStr ''status'')], JStr ''active''])],
                                     JObj [(''>'', JArr [JObj [(''var'', JStr ''age'')], JNum 18])]])])
     = Inr ''(status == 'active' AND age > 18)'' \<and>
   buildQuery (JObj [(''or'', JArr [JObj [(''<'', JArr [JObj [(''var'', JStr ''x'')], JNum 5])],
                                    JObj [(''>='', JArr [JObj [(''var'', JStr ''x'')], JNum 10])]])])
     = Inr ''(x < 5 OR x >= 10)''"
  by (simp add: buildQuery_and buildQuery_or junction_def buildQuery_comparison
      build_comparison_first_key js_simps cmp2_def quoted_value_def js_toString_def
      show_int_def is_comparison_operator_def)

text \<open>
  C27 (functional).  In a three-operand range comparison, string bounds are
  spliced into the SQL unquoted, unlike the value of a two-operand
  comparison: the bound text becomes SQL syntax.
\<close>

lemma buildQuery_range_unquoted:
  assumes "is_comparison_operator k"
  shows "buildQuery (JObj [(k, JArr [JStr a, JObj [(''var'', JStr x)], JStr b])]) =
     Inr (x @ '' '' @ k @ '' '' @ a @ '' AND '' @ x @ '' '' @ k @ '' '' @ b)"
  using assms
  by (simp add: buildQuery_comparison build_comparison_first_key js_simps cmp3_def plain_value_def)

lemma buildQuery_range_unquoted_witness:
  "buildQuery (JObj [(''>='', JArr [JStr ''0 OR 1=1'', JObj [(''var'', JStr ''age'')], JStr ''9''])]) =
     Inr ''age >= 0 OR 1=1 AND age >= 9''"
  using buildQuery_range_unquoted [of "''>=''" "''0 OR 1=1''" "''age''" "''9''"]
  by (simp add: is_comparison_operator_def)

text \<open>
  A present \<^verbatim>\<open>and\<close> property decides the node: the
  result is that of the node holding only the \<^verbatim>\<open>and\<close> property, whatever
  else (an \<^verbatim>\<open>or\<close>, an operator) the object holds.
\<close>

lemma buildQuery_and_precedence:
  assumes "map_of kvs ''and'' = Some v"
  shows "buildQuery (JObj kvs) = buildQuery (JObj [(''and'', v)])"
proof -
  from assms have "''and'' \<in> set (map fst kvs)" by (force dest: map_of_SomeD)
  with assms show ?thesis
    by (subst (1 2) buildQuery.simps) (simp add: js_simps)
qed

lemma buildQuery_and_precedence_witness:
  "buildQuery (JObj [(''or'', JArr [JObj []]), (''and'', JArr [])]) =
     buildQuery (JObj [(''and'', JArr [])])"
  using buildQuery_and_precedence [of "[(''or'', JArr [JObj []]), (''and'', JArr [])]" "JArr []"]
  by simp

text \<open>
  C32 (functional).  An empty conjunction compiles to the text \<^verbatim>\<open>()\<close>,
  which is not a SQL expression: the code does not reject empty operand
  lists.
\<close>

lemma buildQuery_empty_and:
  assumes "map_of kvs ''and'' = Some (JArr [])"
  shows "buildQuery (JObj kvs) = Inr ''()''"
  using assms by (simp add: buildQuery_and junction_def)

lemma buildQuery_empty_and_witness: "buildQuery (JObj [(''and'', JArr [])]) = Inr ''()''"
  using buildQuery_empty_and [of "[(''and'', JArr [])]"] by simp

text \<open>
  A node that is a primitive (null, a boolean, a number or a
  string) makes the first \<^verbatim>\<open>"and" in query\<close> test throw a TypeError.
\<close>

lemma buildQuery_primitive:
  assumes "case q of JObj _ \<Rightarrow> False | JArr _ \<Rightarrow> False | _ \<Rightarrow> True"
  shows "buildQuery q =
     Inl (TypeError (''Cannot use 'in' operator to search for '' @ sq @ ''and'' @ sq @ '' in '' @ js_to_string q))"
  using assms by (subst buildQuery.simps) (simp add: js_in_def split: jval.splits)

lemma buildQuery_primitive_witness:
  "buildQuery (JNum 5) = Inl (TypeError (''Cannot use 'in' operator to search for '' @ sq @ ''and'' @ sq @ '' in 5''))"
  using buildQuery_primitive [of "JNum 5"] by (simp add: show_int_def js_simps)

text \<open>
  C33 (functional).  The operands are not validated: a two-character
  string in place of the operand array has \<^verbatim>\<open>length\<close> 2 and is
  destructured into its characters, so it compiles (to a comparison of the
  variable named \<^verbatim>\<open>undefined\<close>) instead of failing.
\<close>

lemma buildQuery_string_operands:
  assumes "is_comparison_operator k"
  shows "buildQuery (JObj [(k, JStr [a, b])]) = Inr (''undefined '' @ k @ '' '' @ sq @ [b] @ sq)"
  using assms
  by (simp add: buildQuery_comparison build_comparison_first_key js_get_def js_iter_def cmp2_def
      index_of_var quoted_value_def js_template_def)

lemma buildQuery_string_operands_witness:
  "buildQuery (JObj [(''<'', JStr ''ab'')]) = Inr (''undefined < '' @ sq @ ''b'' @ sq)"
  using buildQuery_string_operands [of "''<''" "CHR ''a''" "CHR ''b''"]
  by (simp add: is_comparison_operator_def)

text \<open>
  C14 (error).  Outside the declared type, the conversions of a
  two-operand comparison throw: an operand value that is an object with an
  own \<^verbatim>\<open>toString\<close> key makes \<^verbatim>\<open>value.toString()\<close> throw
  \<^verbatim>\<open>value.toString is not a function\<close>, and a variable name that is such
  an object makes \<^verbatim>\<open>${varName}\<close> throw \<^verbatim>\<open>Cannot convert object to
  primitive value\<close>.
\<close>

lemma buildQuery_unconvertible_operands:
  assumes "''and'' \<notin> set (map fst rest)" and "''or'' \<notin> set (map fst rest)"
    and "is_comparison_operator k" and "''toString'' \<in> set (map fst vkvs)"
  shows "buildQuery (JObj ((k, JArr [JObj xkvs, JObj vkvs]) # rest)) =
           Inl (TypeError ''value.toString is not a function'') \<and>
         buildQuery (JObj ((k, JArr [JObj [(''var'', JObj vkvs)], JStr s]) # rest)) =
           Inl (TypeError ''Cannot convert object to primitive value'')"
  using assms
  by (simp add: buildQuery_comparison build_comparison_first_key js_simps js_iter_def cmp2_def
      quoted_value_def js_toString_def js_string_obj_toString convert_error_def)

lemma buildQuery_unconvertible_operands_witness:
  "buildQuery (JObj [(''<'', JArr [JObj [(''var'', JStr ''x'')], JObj [(''toString'', JNum 1)]])]) =
     Inl (TypeError ''value.toString is not a function'') \<and>
   buildQuery (JObj [(''<'', JArr [JObj [(''var'', JObj [(''toString'', JNum 1)])], JStr ''a''])]) =
     Inl (TypeError ''Cannot convert object to primitive value'')"
  using buildQuery_unconvertible_operands [of "[]" "''<''" "[(''toString'', JNum 1)]" "[(''var'', JStr ''x'')]" "''a''"]
  by (simp add: is_comparison_operator_def)

section \<open>Type safety\<close>

lemma junction_Inl: "junction sep rs = Inl e \<Longrightarrow> Inl e \<in> set rs"
  by (auto simp: junction_def rbind_def sequence_eq_Inl split: sum.splits)

lemma case_JStr_iff: "(case v of JStr s \<Rightarrow> True | _ \<Rightarrow> False) \<longleftrightarrow> (\<exists>s. v = JStr s)"
  by (cases v) auto

lemma is_query_variable_D:
  assumes "is_query_variable x"
  shows "\<exists>kx s. x = JObj kx \<and> map_of kx ''var'' = Some (JStr s)"
proof (cases x)
  case (JObj kx)
  with assms have "case map_of kx ''var'' of Some (JStr s) \<Rightarrow> True | _ \<Rightarrow> False"
    by (simp add: is_query_variable_def)
  with JObj show ?thesis by (cases "map_of kx ''var''") (auto simp: case_JStr_iff)
qed (use assms in \<open>simp_all add: is_query_variable_def\<close>)

lemma is_operand_pair_D:
  "is_operand_pair v \<Longrightarrow> \<exists>x y. v = JArr [x, y] \<and> is_query_variable x \<and> is_operand y"
  unfolding is_operand_pair_def by (auto split: jval.splits list.splits)

lemma single_junction_D:
  "(case kvs of [(k, JArr xs)] \<Rightarrow> P k xs | _ \<Rightarrow> False) \<Longrightarrow> \<exists>k xs. kvs = [(k, JArr xs)] \<and> P k xs"
  by (cases kvs; cases "hd kvs"; cases "snd (hd kvs)"; cases "tl kvs") auto

lemma is_query_operation_junction:
  assumes "is_query_operation (JObj kvs)" and "k \<in> set (map fst kvs)" and "k = ''and'' \<or> k = ''or''"
  shows "\<exists>xs. kvs = [(k, JArr xs)] \<and> list_all is_query_operation xs"
proof -
  from assms(2) obtain v where "(k, v) \<in> set kvs" by auto
  have "\<not> list_all (\<lambda>kv. ts_comparison_operator (fst kv) \<and> is_operand_pair (snd kv)) kvs"
  proof
    assume "list_all (\<lambda>kv. ts_comparison_operator (fst kv) \<and> is_operand_pair (snd kv)) kvs"
    with \<open>(k, v) \<in> set kvs\<close> have "ts_comparison_operator k" by (auto simp: list_all_iff)
    with assms(3) show False by (auto simp: ts_comparison_operator_def)
  qed
  with assms(1) have "case kvs of [(k, JArr xs)] \<Rightarrow> (k = ''and'' \<or> k = ''or'') \<and> list_all is_query_operation xs
                       | _ \<Rightarrow> False" by simp
  from single_junction_D [OF this] assms(2) show ?thesis by auto
qed

lemma build_comparison_typed:
  assumes "list_all (\<lambda>kv. ts_comparison_operator (fst kv) \<and> is_operand_pair (snd kv)) kvs"
  shows "build_comparison (JObj kvs) \<noteq> Inl (TypeError m)"
proof (cases kvs)
  case Nil
  then show ?thesis by (simp add: build_comparison_def js_simps)
next
  case (Cons kv rest)
  obtain k v where kv: "kv = (k, v)" by fastforce
  from assms Cons kv have "is_operand_pair v" by simp
  then obtain x y where v: "v = JArr [x, y]" and x: "is_query_variable x" and y: "is_operand y"
    by (blast dest: is_operand_pair_D)
  from is_query_variable_D [OF x] obtain kx s where "x = JObj kx" "map_of kx ''var'' = Some (JStr s)"
    by blast
  moreover from y obtain s' n where "y = JStr s' \<or> y = JNum n"
    by (auto simp: is_operand_def split: jval.splits)
  ultimately show ?thesis using Cons kv v
    by (auto simp: build_comparison_def js_simps cmp2_def quoted_value_def
        js_iter_def split: jval.splits)
qed

text \<open>
  C12 (type).  A value of the declared type \<^verbatim>\<open>QueryOperation\<close> never makes
  \<^verbatim>\<open>buildQuery\<close> throw a runtime \<^verbatim>\<open>TypeError\<close>: the only failures left are
  the compiler's own \<^verbatim>\<open>Error\<close>s (the operator \<^verbatim>\<open>=\<close>, which the type
  allows and the code rejects, and the empty object).
\<close>

lemma buildQuery_typed_no_TypeError:
  "is_query_operation q \<Longrightarrow> buildQuery q \<noteq> Inl (TypeError m)"
proof (induction q rule: buildQuery.induct)
  case (1 q)
  then obtain kvs where q: "q = JObj kvs" by (cases q) auto
  show ?case
  proof (cases "''and'' \<in> set (map fst kvs) \<or> ''or'' \<in> set (map fst kvs)")
    case True
    then obtain k where k: "k = ''and'' \<or> k = ''or''" and kin: "k \<in> set (map fst kvs)" by blast
    from is_query_operation_junction [OF "1.prems" [unfolded q] kin k]
    obtain xs where kvs: "kvs = [(k, JArr xs)]" and xs: "list_all is_query_operation xs" by blast
    show ?thesis
    proof
      assume bq: "buildQuery q = Inl (TypeError m)"
      show False
      proof (cases "k = ''and''")
        case True
        with bq have "junction '' AND '' (map buildQuery xs) = Inl (TypeError m)"
          by (simp add: q kvs buildQuery_and)
        then have "Inl (TypeError m) \<in> set (map buildQuery xs)" by (rule junction_Inl)
        then obtain x where "x \<in> set xs" "buildQuery x = Inl (TypeError m)" by auto
        moreover have "buildQuery x \<noteq> Inl (TypeError m)"
          using \<open>x \<in> set xs\<close> xs True by (intro "1.IH"(1)) (auto simp: q kvs js_simps list_all_iff)
        ultimately show False by simp
      next
        case False
        with k have "k = ''or''" by simp
        with bq have "junction '' OR '' (map buildQuery xs) = Inl (TypeError m)"
          by (simp add: q kvs buildQuery_or)
        then have "Inl (TypeError m) \<in> set (map buildQuery xs)" by (rule junction_Inl)
        then obtain x where "x \<in> set xs" "buildQuery x = Inl (TypeError m)" by auto
        moreover have "buildQuery x \<noteq> Inl (TypeError m)"
          using \<open>x \<in> set xs\<close> xs \<open>k = ''or''\<close> by (intro "1.IH"(2)) (auto simp: q kvs js_simps list_all_iff)
        ultimately show False by simp
      qed
    qed
  next
    case False
    have "\<not> (case kvs of [(k, JArr xs)] \<Rightarrow> (k = ''and'' \<or> k = ''or'') \<and> list_all is_query_operation xs
               | _ \<Rightarrow> False)"
      using False by (auto dest: single_junction_D)
    with "1.prems" q have "list_all (\<lambda>kv. ts_comparison_operator (fst kv) \<and> is_operand_pair (snd kv)) kvs"
      by simp
    then have "build_comparison (JObj kvs) \<noteq> Inl (TypeError m)" by (rule build_comparison_typed)
    with False show ?thesis by (simp add: q buildQuery_leaf)
  qed
qed

lemma buildQuery_typed_no_TypeError_witness:
  "buildQuery (JObj [(''='', JArr [JObj [(''var'', JStr ''x'')], JNum 1])]) \<noteq> Inl (TypeError ''m'')"
proof -
  have "is_query_operation (JObj [(''='', JArr [JObj [(''var'', JStr ''x'')], JNum 1])])"
    by (simp add: ts_comparison_operator_def is_operand_pair_def is_query_variable_def is_operand_def)
  then show ?thesis by (rule buildQuery_typed_no_TypeError)
qed

end
