(* ===== verification/QueryService.thy ===== *)
theory QueryService
  imports FilterCompiler
begin

text \<open>
  The SQL-building methods of \<^verbatim>\<open>QueryService\<close>
  (src/middleware/services/query.service.ts, lines 64--230): \<^verbatim>\<open>queryData\<close>
  compiles the request body with \<open>buildQuery\<close> and appends it as a
  \<^verbatim>\<open>WHERE\<close> clause; eight report methods send fixed queries, some with a
  date range.  Each method posts \<^verbatim>\<open>{query}\<close> to the data manager and
  returns \<^verbatim>\<open>resp.data\<close>; any exception becomes
  \<^verbatim>\<open>CustomError(500, err.message)\<close>.

  The process environment is a record (an unset variable is \<open>None\<close>, which
  a template literal renders as \<^verbatim>\<open>undefined\<close>).  The HTTP client is an
  oracle \<open>http_post\<close>: given the URL and the JSON body it returns the
  response data or the message of the rejected promise.  Query parameters
  arrive as strings (the controllers render an absent one as
  \<^verbatim>\<open>undefined\<close>).
\<close>

record env =
  bucket_name :: "string option"
  customer_id :: "string option"
  dm_query_endpoint :: "string option"
  dm_table_endpoint :: "string option"
  dm_execute_endpoint :: "string option"
  openai_key :: "string option"
  model_name :: "string option"

definition env_text :: "string option \<Rightarrow> string" where
  "env_text v = (case v of None \<Rightarrow> ''undefined'' | Some s \<Rightarrow> s)"

abbreviation bucket_text :: "env \<Rightarrow> string" where
  "bucket_text env \<equiv> env_text (bucket_name env)"

type_synonym http_post = "string option \<Rightarrow> jval \<Rightarrow> string + jval"

text \<open>An environment used by the witnesses below.\<close>

definition example_env :: env where
  "example_env = \<lparr>bucket_name = Some ''s3://bucket'', customer_id = None,
     dm_query_endpoint = Some ''http://dm/query'', dm_table_endpoint = None, dm_execute_endpoint = None,
     openai_key = Some ''sk-test'', model_name = None\<rparr>"

section \<open>Posting a query\<close>

text \<open>
  \<^verbatim>\<open>axios.post(DATA_MANAGER_QUERY_ENDPOINT, {query})\<close>, returning
  \<^verbatim>\<open>resp.data\<close>, with the catch block of every method.
\<close>

definition run_query :: "env \<Rightarrow> http_post \<Rightarrow> string \<Rightarrow> jval result" where
  "run_query env post q =
     (case post (dm_query_endpoint env) (JObj [(''query'', JStr q)]) of
        Inl m \<Rightarrow> Inl (CustomError 500 m)
      | Inr d \<Rightarrow> Inr d)"

section \<open>queryData\<close>

definition query_data_sql :: "env \<Rightarrow> string \<Rightarrow> string \<Rightarrow> string" where
  "query_data_sql env tableName whereClause =
     ''SELECT * FROM READ_PARQUET('' @ sq @ bucket_text env @
     ''/main/cust_id=cust_68c2410d-8d6c-49a9-aa3f-a467f7c6da7e/table_name='' @ tableName @
     ''/**/*.parquet'' @ sq @ '', union_by_name=True)  WHERE '' @ whereClause"

definition queryData :: "env \<Rightarrow> http_post \<Rightarrow> jval \<Rightarrow> string \<Rightarrow> jval result" where
  "queryData env post body tableName =
     (case buildQuery body of
        Inl e \<Rightarrow> Inl (CustomError 500 (message_of e))
      | Inr whereClause \<Rightarrow> run_query env post (query_data_sql env tableName whereClause))"

section \<open>The report queries\<close>

definition unique_counts_sql :: "env \<Rightarrow> string" where
  "unique_counts_sql env =
     ''SELECT COUNT(DISTINCT _data->>'' @ sq @ ''sid'' @ sq @
     '') AS unique_sessions \<newline>      FROM READ_PARQUET('' @ sq @ bucket_text env @
     ''/main/cust_id=cust_68c2410d-8d6c-49a9-aa3f-a467f7c6da7e/table_name=visits_datamgr_format/**/*.parquet'' @
     sq @ '', union_by_name=True)''"

definition queryUniqueCounts :: "env \<Rightarrow> http_post \<Rightarrow> jval result" where
  "queryUniqueCounts env post = run_query env post (unique_counts_sql env)"

text \<open>
  The next two queries are written in double quotes, not backquotes, so
  \<^verbatim>\<open>${process.env.BUCKET_NAME}\<close> is not interpolated: the text is
  constant.
\<close>

definition session_month_sql :: "string" where
  "session_month_sql =
     ''SELECT _data->>'' @ sq @ ''sessionSource'' @ sq @ '' AS session_source, _data->>'' @
     sq @ ''yearMonth'' @ sq @ '' AS year_month, COUNT(DISTINCT _data->>'' @ sq @ ''sid'' @
     sq @ '') AS unique_sessions FROM READ_PARQUET('' @ sq @
     ''${process.env.BUCKET_NAME}/main/cust_id=cust_68c2410d-8d6c-49a9-aa3f-a467f7c6da7e/table_name=visits_datamgr_format/**/*.parquet'' @
     sq @
     '', union_by_name=True)  GROUP BY session_source, year_month  ORDER BY session_source, year_month''"

definition querySessionBrokenDownByMonth :: "env \<Rightarrow> http_post \<Rightarrow> jval result" where
  "querySessionBrokenDownByMonth env post = run_query env post session_month_sql"

definition session_day_sql :: "string" where
  "session_day_sql =
     ''SELECT _data->>'' @ sq @ ''sessionSource'' @ sq @ '' AS session_source, _data->>'' @
     sq @ ''date'' @ sq @ '' AS date, COUNT(DISTINCT _data->>'' @ sq @ ''sid'' @ sq @
     '') AS unique_sessions FROM READ_PARQUET('' @ sq @
     ''${process.env.BUCKET_NAME}/main/cust_id=cust_68c2410d-8d6c-49a9-aa3f-a467f7c6da7e/table_name=visits_datamgr_format/**/*.parquet'' @
     sq @ '', union_by_name=True) GROUP BY session_source, date ORDER BY session_source, date''"

definition querySessionBrokenDownByDay :: "env \<Rightarrow> http_post \<Rightarrow> jval result" where
  "querySessionBrokenDownByDay env post = run_query env post session_day_sql"

definition ad_stats_sql :: "env \<Rightarrow> string \<Rightarrow> string \<Rightarrow> string" where
  "ad_stats_sql env startDate endDate =
     ''SELECT source->>'' @ sq @ ''dataSource'' @ sq @ '' AS ad_source,SUM(CAST(metrics->>'' @
     sq @ ''cost'' @ sq @ '' AS DOUBLE)) AS total_spend FROM READ_PARQUET('' @ sq @
     bucket_text env @
     ''/main/cust_id=cust_68c2410d-8d6c-49a9-aa3f-a467f7c6da7e/table_name=adreport_datamgr_format/**/*.parquet'' @
     sq @ '', union_by_name=True) WHERE (source->>'' @ sq @ ''dataSource'' @ sq @ '' IN ('' @
     sq @ ''google'' @ sq @ '', '' @ sq @ ''meta'' @ sq @ '', '' @ sq @ ''linkedin'' @ sq @
     ''))  AND (date_time->>'' @ sq @ ''date'' @ sq @ '')::date BETWEEN '' @ sq @ startDate @
     sq @ '' AND '' @ sq @ endDate @ sq @ '' GROUP BY ad_source ORDER BY ad_source ''"

definition queryGetAdStatsByTime :: "env \<Rightarrow> http_post \<Rightarrow> string \<Rightarrow> string \<Rightarrow> jval result" where
  "queryGetAdStatsByTime env post startDate endDate =
     run_query env post (ad_stats_sql env startDate endDate)"

definition impression_stats_sql :: "env \<Rightarrow> string \<Rightarrow> string \<Rightarrow> string" where
  "impression_stats_sql env startDate endDate =
     ''\<newline>  SELECT SUM(CAST(metrics->>'' @ sq @ ''impressions'' @ sq @
     '' AS bigint)) AS total\<newline>  FROM READ_PARQUET('' @ sq @ bucket_text env @
     ''/main/cust_id=cust_68c2410d-8d6c-49a9-aa3f-a467f7c6da7e/table_name=adreport_datamgr_format/**/*.parquet'' @
     sq @ '', union_by_name=True)\<newline>   WHERE (date_time->>'' @ sq @ ''date'' @ sq @
     '')::date BETWEEN '' @ sq @ startDate @ sq @ '' AND '' @ sq @ endDate @ sq"

definition queryGetImpressionStatsByTime ::
  "env \<Rightarrow> http_post \<Rightarrow> string \<Rightarrow> string \<Rightarrow> string \<Rightarrow> jval result" where
  "queryGetImpressionStatsByTime env post table_name startDate endDate =
     run_query env post (impression_stats_sql env startDate endDate)"

definition total_rao_sql :: "env \<Rightarrow> string \<Rightarrow> string \<Rightarrow> string" where
  "total_rao_sql env startDate endDate =
     ''WITH revenue_sum AS (SELECT SUM(CAST(_data->>'' @ sq @ ''total'' @ sq @
     '' AS DOUBLE)) AS total_revenue \<newline>      FROM READ_PARQUET('' @ sq @
     bucket_text env @
     ''/main/cust_id=cust_68c2410d-8d6c-49a9-aa3f-a467f7c6da7e/table_name=transactions_datamgr_format/**/*.parquet'' @
     sq @
     '',\<newline>       union_by_name=True)), \<newline>      adspend_sum AS\<newline>       (SELECT SUM(CAST(metrics->>'' @
     sq @ ''cost'' @ sq @
     '' AS DOUBLE)) AS total_adspend FROM\<newline>        READ_PARQUET('' @ sq @
     bucket_text env @
     ''/main/cust_id=cust_68c2410d-8d6c-49a9-aa3f-a467f7c6da7e/table_name=adreport_datamgr_format/**/*.parquet'' @
     sq @ '', union_by_name=True) \<newline>       WHERE (date_time->>'' @ sq @ ''date'' @
     sq @ '')::date BETWEEN '' @ sq @ startDate @ sq @ '' AND '' @ sq @ endDate @ sq @
     '') SELECT revenue_sum.total_revenue / adspend_sum.total_adspend AS total_roas FROM revenue_sum, adspend_sum ''"

definition queryGetTotalRAO :: "env \<Rightarrow> http_post \<Rightarrow> string \<Rightarrow> string \<Rightarrow> jval result" where
  "queryGetTotalRAO env post startDate endDate =
     run_query env post (total_rao_sql env startDate endDate)"

definition cpc_sql :: "env \<Rightarrow> string \<Rightarrow> string \<Rightarrow> string" where
  "cpc_sql env startDate endDate =
     ''WITH clicks_sum AS (SELECT SUM(CAST(metrics->>'' @ sq @ ''clicks'' @ sq @
     '' AS INTEGER)) AS total_clicks FROM \<newline>      READ_PARQUET('' @ sq @
     bucket_text env @
     ''/main/cust_id=cust_68c2410d-8d6c-49a9-aa3f-a467f7c6da7e/table_name=adreport_datamgr_format/**/*.parquet'' @
     sq @ '', union_by_name=True)\<newline>       WHERE (date_time->>'' @ sq @ ''date'' @ sq @
     '')::date BETWEEN '' @ sq @ startDate @ sq @ '' AND '' @ sq @ endDate @ sq @
     ''), impressions_sum AS (SELECT SUM(CAST(metrics->>'' @ sq @ ''impressions'' @ sq @
     '' AS INTEGER)) AS total_impressions \<newline>       FROM READ_PARQUET('' @ sq @
     bucket_text env @
     ''/main/cust_id=cust_68c2410d-8d6c-49a9-aa3f-a467f7c6da7e/table_name=adreport_datamgr_format/**/*.parquet'' @
     sq @ '', union_by_name=True)\<newline>        WHERE (date_time->>'' @ sq @ ''date'' @
     sq @ '')::date BETWEEN '' @ sq @ startDate @ sq @ '' AND '' @ sq @ endDate @ sq @
     '') SELECT clicks_sum.total_clicks / impressions_sum.total_impressions AS cpc_rate FROM clicks_sum, impressions_sum''"

definition queryGetCPC :: "env \<Rightarrow> http_post \<Rightarrow> string \<Rightarrow> string \<Rightarrow> jval result" where
  "queryGetCPC env post startDate endDate = run_query env post (cpc_sql env startDate endDate)"

definition donut_chart_sql :: "env \<Rightarrow> string" where
  "donut_chart_sql env =
     ''WITH total_revenue_cte AS (SELECT SUM(CAST(_data ->> '' @ sq @ ''total'' @ sq @
     '' AS decimal)) AS total_revenue \<newline>      FROM READ_PARQUET('' @ sq @
     bucket_text env @
     ''/main/cust_id=cust_68c2410d-8d6c-49a9-aa3f-a467f7c6da7e/table_name=transactions_datamgr_format/**/*.parquet'' @
     sq @
     '',\<newline>       union_by_name = True)), revenue_by_source AS(SELECT TRIM(BOTH '' @
     sq @ [CHR 0x22] @ sq @ '' FROM JSON_EXTRACT(_data, '' @ sq @ ''$.campaign.source'' @ sq @
     '')) AS source, SUM(CAST(_data ->> '' @ sq @ ''total'' @ sq @
     '' AS decimal))\<newline>        AS revenue FROM READ_PARQUET('' @ sq @ bucket_text env @
     ''/main/cust_id=cust_68c2410d-8d6c-49a9-aa3f-a467f7c6da7e/table_name=transactions_datamgr_format/**/*.parquet'' @
     sq @ '', \<newline>        union_by_name = True) WHERE JSON_EXTRACT(_data, '' @ sq @
     ''$.campaign.source'' @ sq @
     '') IS NOT NULL GROUP BY source) SELECT r.source, r.revenue, t.total_revenue\<newline>        FROM revenue_by_source r CROSS JOIN total_revenue_cte t''"

definition queryDonutChart :: "env \<Rightarrow> http_post \<Rightarrow> jval result" where
  "queryDonutChart env post = run_query env post (donut_chart_sql env)"

definition pie_chart_sql :: "env \<Rightarrow> string \<Rightarrow> string \<Rightarrow> string" where
  "pie_chart_sql env startDate endDate =
     '' SELECT\<newline>     (source ->> '' @ sq @ ''dataSource'' @ sq @
     '') AS source,\<newline>        SUM(CAST(metrics ->> '' @ sq @ ''cost'' @ sq @
     '' AS DECIMAL)) AS total_ad_spend\<newline>      FROM\<newline>      READ_PARQUET('' @
     sq @ bucket_text env @
     ''/main/cust_id=cust_68c2410d-8d6c-49a9-aa3f-a467f7c6da7e/table_name=adreport_datamgr_format/**/*.parquet'' @
     sq @ '', union_by_name = True)\<newline>      WHERE\<newline>        (date_time ->> '' @
     sq @ ''date'' @ sq @ '')::date BETWEEN '' @ sq @ startDate @ sq @ '' AND '' @ sq @
     endDate @ sq @ '' \<newline>GROUP BY\<newline>      source''"

definition queryGetPieChart :: "env \<Rightarrow> http_post \<Rightarrow> string \<Rightarrow> string \<Rightarrow> jval result" where
  "queryGetPieChart env post startDate endDate =
     run_query env post (pie_chart_sql env startDate endDate)"

section \<open>Properties\<close>

text \<open>
  C18 (functional).  A successful \<^verbatim>\<open>queryData\<close> compiled the body to a
  clause \<open>w\<close> and posted \<^verbatim>\<open>{"query": ...}\<close> with exactly the text
  \<^verbatim>\<open>SELECT * FROM READ_PARQUET('<bucket>/main/cust_id=.../table_name=<table>/**/*.parquet',
  union_by_name=True)  WHERE <w>\<close> to the data manager's query endpoint;
  its result is the data manager's answer.
\<close>

lemma queryData_success:
  assumes "queryData env post body tableName = Inr d"
  shows "\<exists>w. buildQuery body = Inr w \<and>
     post (dm_query_endpoint env)
       (JObj [(''query'', JStr (''SELECT * FROM READ_PARQUET('' @ sq @ env_text (bucket_name env) @
          ''/main/cust_id=cust_68c2410d-8d6c-49a9-aa3f-a467f7c6da7e/table_name='' @ tableName @
          ''/**/*.parquet'' @ sq @ '', union_by_name=True)  WHERE '' @ w))]) = Inr d"
  using assms by (auto simp: queryData_def run_query_def query_data_sql_def split: sum.splits)

lemma queryData_success_witness:
  "\<exists>w. buildQuery (JObj [(''<'', JArr [JObj [(''var'', JStr ''x'')], JNum 1])]) = Inr w \<and>
     (\<lambda>u b. Inr (JArr [])) (dm_query_endpoint example_env)
       (JObj [(''query'', JStr (''SELECT * FROM READ_PARQUET('' @ sq @ env_text (bucket_name example_env) @
          ''/main/cust_id=cust_68c2410d-8d6c-49a9-aa3f-a467f7c6da7e/table_name='' @ ''visits'' @
          ''/**/*.parquet'' @ sq @ '', union_by_name=True)  WHERE '' @ w))]) = Inr (JArr [])"
proof -
  have "queryData example_env (\<lambda>u b. Inr (JArr [])) (JObj [(''<'', JArr [JObj [(''var'', JStr ''x'')], JNum 1])]) ''visits'' = Inr (JArr [])"
    by (simp add: queryData_def run_query_def buildQuery_comparison build_comparison_first_key js_simps cmp2_def
        quoted_value_def show_int_def is_comparison_operator_def)
  from queryData_success [OF this] show ?thesis by simp
qed

text \<open>
  C19 (error).  When the body does not compile, \<^verbatim>\<open>queryData\<close> fails with
  \<^verbatim>\<open>CustomError(500, message)\<close> of the compiler's error, whatever the data
  manager would answer: no query is sent.
\<close>

lemma queryData_compile_error:
  assumes "buildQuery body = Inl e"
  shows "queryData env post body tableName = Inl (CustomError 500 (message_of e))"
  using assms by (simp add: queryData_def)

lemma queryData_compile_error_witness:
  "queryData example_env (\<lambda>u b. Inr JNull) (JObj []) ''t'' = Inl (CustomError 500 ''Unsupported operator undefined'')"
proof -
  have "buildQuery (JObj []) = Inl (Error ''Unsupported operator undefined'')"
    by (simp add: buildQuery_leaf build_comparison_def js_simps)
  then show ?thesis using queryData_compile_error by fastforce
qed

text \<open>
  C34 (functional).  The by-month and by-day session reports post one fixed
  text for every environment: it reads from the path whose bucket is the
  literal \<^verbatim>\<open>${process.env.BUCKET_NAME}\<close> (the strings are not
  template literals), so \<^verbatim>\<open>BUCKET_NAME\<close> is never consulted, unlike in
  every other report.
\<close>

lemma session_queries_ignore_bucket:
  "\<exists>p1 s1 p2 s2. \<forall>env post.
     querySessionBrokenDownByMonth env post =
       run_query env post (p1 @ ''READ_PARQUET('' @ sq @ ''${process.env.BUCKET_NAME}/main/'' @ s1) \<and>
     querySessionBrokenDownByDay env post =
       run_query env post (p2 @ ''READ_PARQUET('' @ sq @ ''${process.env.BUCKET_NAME}/main/'' @ s2)"
proof (intro exI allI conjI)
  fix env post
  show "querySessionBrokenDownByMonth env post = run_query env post
    ((''SELECT _data->>'' @ sq @ ''sessionSource'' @ sq @ '' AS session_source, _data->>'' @
     sq @ ''yearMonth'' @ sq @ '' AS year_month, COUNT(DISTINCT _data->>'' @ sq @ ''sid'' @
     sq @ '') AS unique_sessions FROM '') @ ''READ_PARQUET('' @ sq @ ''${process.env.BUCKET_NAME}/main/'' @
    (''cust_id=cust_68c2410d-8d6c-49a9-aa3f-a467f7c6da7e/table_name=visits_datamgr_format/**/*.parquet'' @
     sq @ '', union_by_name=True)  GROUP BY session_source, year_month  ORDER BY session_source, year_month''))"
    by (simp add: querySessionBrokenDownByMonth_def session_month_sql_def)
  show "querySessionBrokenDownByDay env post = run_query env post
    ((''SELECT _data->>'' @ sq @ ''sessionSource'' @ sq @ '' AS session_source, _data->>'' @
     sq @ ''date'' @ sq @ '' AS date, COUNT(DISTINCT _data->>'' @ sq @ ''sid'' @ sq @
     '') AS unique_sessions FROM '') @ ''READ_PARQUET('' @ sq @ ''${process.env.BUCKET_NAME}/main/'' @
    (''cust_id=cust_68c2410d-8d6c-49a9-aa3f-a467f7c6da7e/table_name=visits_datamgr_format/**/*.parquet'' @
     sq @ '', union_by_name=True) GROUP BY session_source, date ORDER BY session_source, date''))"
    by (simp add: querySessionBrokenDownByDay_def session_day_sql_def)
qed

text \<open>
  C35 (functional).  \<^verbatim>\<open>queryGetImpressionStatsByTime\<close> ignores its
  \<^verbatim>\<open>table_name\<close> argument: the query always reads the ad-report table.
\<close>

lemma impression_ignores_table_name:
  "queryGetImpressionStatsByTime env post t1 startDate endDate =
   queryGetImpressionStatsByTime env post t2 startDate endDate"
  by (simp add: queryGetImpressionStatsByTime_def)

end
