(* ===== verification/SavedQueries.thy ===== *)
theory SavedQueries
  imports Prelude
begin

text \<open>
  The saved-query store of src/middleware/util/databasePg.ts: the Postgres
  table \<^verbatim>\<open>saved_queries(id SERIAL PRIMARY KEY, customer_id, prompt_id,
  query_text, prompt)\<close> reached through a connection pool, and the four
  functions \<^verbatim>\<open>insertSavedQuery\<close>, \<^verbatim>\<open>getSavedQueryById\<close>,
  \<^verbatim>\<open>getSavedQueries\<close> and \<^verbatim>\<open>createTable\<close>.

  The database is an explicit state: the table (absent until
  \<^verbatim>\<open>createTable\<close> has run, else its rows in insertion order and the next
  value of its \<^verbatim>\<open>SERIAL\<close> sequence) and the state of the server connection
  (\<open>Some e\<close>: \<^verbatim>\<open>pool.connect()\<close> rejects with \<open>e\<close>).  Each operation
  returns its result and the new state.  A rejected connection or a failed
  statement is an \<open>Inl\<close> carrying the \<^verbatim>\<open>CustomError\<close> the code throws,
  with the message it builds.  A \<^verbatim>\<open>SELECT\<close> without \<^verbatim>\<open>ORDER BY\<close> is
  modelled as returning rows in insertion order (what a sequential scan of
  an insert-only table returns).
\<close>

section \<open>State\<close>

text \<open>
  A driver error: its \<^verbatim>\<open>name\<close> and \<^verbatim>\<open>message\<close>.  \<^verbatim>\<open>${err}\<close> renders it
  as \<open>name: message\<close>.
\<close>

datatype db_error = DbError string string

fun db_error_string :: "db_error \<Rightarrow> string" where
  "db_error_string (DbError n m) = n @ '': '' @ m"

fun db_error_message :: "db_error \<Rightarrow> string" where
  "db_error_message (DbError n m) = m"

text \<open>What Postgres answers to a statement on the table before it exists.\<close>

text \<open>
  The \<^verbatim>\<open>SERIAL\<close> column is a 32-bit \<^verbatim>\<open>integer\<close> fed by the sequence
  \<^verbatim>\<open>saved_queries_id_seq\<close>, whose largest value is \<open>serial_max\<close>; once it
  is reached, \<^verbatim>\<open>nextval\<close> fails and so does every insertion.
\<close>

definition serial_max :: nat where
  "serial_max = 2147483647"

definition sequence_exhausted :: db_error where
  "sequence_exhausted = DbError ''error''
     (''nextval: reached maximum value of sequence '' @ [CHR 0x22] @ ''saved_queries_id_seq'' @ [CHR 0x22] @
      '' (2147483647)'')"

text \<open>
  The columns \<^verbatim>\<open>customer_id\<close> and \<^verbatim>\<open>prompt_id\<close> are
  \<^verbatim>\<open>VARCHAR(255)\<close> (lines 108--109): a longer value is rejected when the
  row is formed, after the \<^verbatim>\<open>id\<close> default (the first column) has
  drawn its sequence value, which is not given back.  A text parameter
  holding the character NUL is rejected when the statement's parameters
  are bound, before it runs.
\<close>

definition varchar_max :: nat where
  "varchar_max = 255"

definition pg_text_ok :: "string \<Rightarrow> bool" where
  "pg_text_ok s = (CHR 0x00 \<notin> set s)"

definition nul_error :: db_error where
  "nul_error = DbError ''error'' (''invalid byte sequence for encoding '' @ [CHR 0x22] @ ''UTF8'' @ [CHR 0x22] @ '': 0x00'')"

definition too_long_error :: db_error where
  "too_long_error = DbError ''error'' ''value too long for type character varying(255)''"

text \<open>The arguments an insertion accepts.\<close>

definition insert_args_ok :: "string \<Rightarrow> string \<Rightarrow> string \<Rightarrow> string \<Rightarrow> bool" where
  "insert_args_ok c p q pr \<longleftrightarrow>
     list_all pg_text_ok [c, p, q, pr] \<and> length c \<le> varchar_max \<and> length p \<le> varchar_max"

definition no_table_error :: db_error where
  "no_table_error = DbError ''error'' (''relation '' @ [CHR 0x22] @ ''saved_queries'' @ [CHR 0x22] @ '' does not exist'')"

record saved_row =
  row_id :: nat
  row_customer_id :: string
  row_prompt_id :: string
  row_query_text :: string
  row_prompt :: string

record saved_table =
  rows :: "saved_row list"
  serial :: nat

record pg_state =
  table :: "saved_table option"
  conn_error :: "db_error option"

definition pg_init :: pg_state where
  "pg_init = \<lparr>table = None, conn_error = None\<rparr>"

section \<open>Operations\<close>

text \<open>
  \<^verbatim>\<open>insertSavedQuery\<close> (lines 15--44): one \<^verbatim>\<open>INSERT ... RETURNING *\<close>,
  the id drawn from the sequence.  The server checks, in order: the
  relation exists (parsing), no parameter holds NUL (binding), the
  sequence has a value left, the two \<^verbatim>\<open>VARCHAR(255)\<close> columns fit.
\<close>

definition insertSavedQuery ::
  "string \<Rightarrow> string \<Rightarrow> string \<Rightarrow> string \<Rightarrow> pg_state \<Rightarrow> saved_row result \<times> pg_state" where
  "insertSavedQuery customerId promptId queryText prompt s =
     (let fail = (\<lambda>e s'. (Inl (CustomError 500 (''Error inserting saved query: '' @ db_error_string e)), s')) in
      case conn_error s of
        Some e \<Rightarrow> fail e s
      | None \<Rightarrow>
          (case table s of
             None \<Rightarrow> fail no_table_error s
           | Some t \<Rightarrow>
               if \<not> list_all pg_text_ok [customerId, promptId, queryText, prompt] then fail nul_error s
               else if serial_max < serial t then fail sequence_exhausted s
               else if varchar_max < length customerId \<or> varchar_max < length promptId
               then fail too_long_error (s\<lparr>table := Some (t\<lparr>serial := Suc (serial t)\<rparr>)\<rparr>)
               else
                 (let row = \<lparr>row_id = serial t, row_customer_id = customerId, row_prompt_id = promptId,
                             row_query_text = queryText, row_prompt = prompt\<rparr>
                  in (Inr row, s\<lparr>table := Some \<lparr>rows = rows t @ [row], serial = Suc (serial t)\<rparr>\<rparr>))))"

text \<open>
  \<^verbatim>\<open>getSavedQueryById\<close> (lines 45--79): the first row with the prompt id,
  or \<^verbatim>\<open>null\<close>; an id holding NUL is rejected like an insertion's.  A failing statement throws a \<^verbatim>\<open>CustomError\<close> inside the
  outer \<^verbatim>\<open>try\<close>, whose \<^verbatim>\<open>catch\<close> wraps its message a second time.
\<close>

definition getSavedQueryById :: "string \<Rightarrow> pg_state \<Rightarrow> string option result" where
  "getSavedQueryById promptId s =
     (case conn_error s of
        Some e \<Rightarrow> Inl (CustomError 500 (''Error executing query '' @ db_error_message e))
      | None \<Rightarrow>
          (case table s of
             None \<Rightarrow> Inl (CustomError 500 (''Error executing query '' @
                       ''Error executing query '' @ db_error_message no_table_error))
           | Some t \<Rightarrow>
               if \<not> pg_text_ok promptId
               then Inl (CustomError 500 (''Error executing query '' @
                       ''Error executing query '' @ db_error_message nul_error))
               else Inr (map_option row_query_text (find (\<lambda>r. row_prompt_id r = promptId) (rows t)))))"

text \<open>\<^verbatim>\<open>getSavedQueries\<close> (lines 81--101): \<^verbatim>\<open>prompt_id, prompt\<close> of every row.\<close>

definition getSavedQueries :: "pg_state \<Rightarrow> (string \<times> string) list result" where
  "getSavedQueries s =
     (let fail = (\<lambda>e. Inl (CustomError 500 (''Error getting saved queries: '' @ db_error_string e))) in
      case conn_error s of
        Some e \<Rightarrow> fail e
      | None \<Rightarrow>
          (case table s of
             None \<Rightarrow> fail no_table_error
           | Some t \<Rightarrow> Inr (map (\<lambda>r. (row_prompt_id r, row_prompt r)) (rows t))))"

text \<open>\<^verbatim>\<open>createTable\<close> (lines 103--128): \<^verbatim>\<open>CREATE TABLE IF NOT EXISTS\<close>.\<close>

definition createTable :: "pg_state \<Rightarrow> unit result \<times> pg_state" where
  "createTable s =
     (case conn_error s of
        Some e \<Rightarrow> (Inl (CustomError 500 (''Error creating table: '' @ db_error_string e)), s)
      | None \<Rightarrow>
          (Inr (), s\<lparr>table := Some (case table s of
                                     None \<Rightarrow> \<lparr>rows = [], serial = 1\<rparr>
                                   | Some t \<Rightarrow> t)\<rparr>))"

text \<open>The table a successful \<^verbatim>\<open>createTable\<close> leaves.\<close>

definition created_table :: "pg_state \<Rightarrow> saved_table" where
  "created_table s = (case table s of None \<Rightarrow> \<lparr>rows = [], serial = 1\<rparr> | Some t \<Rightarrow> t)"

section \<open>Runs of the store\<close>

text \<open>
  The steps that change the store: the two writing operations, and the
  environment taking the database server down or bringing it back.
\<close>

inductive pg_step :: "pg_state \<Rightarrow> pg_state \<Rightarrow> bool" where
  create: "pg_step s (snd (createTable s))"
| insert: "pg_step s (snd (insertSavedQuery c p q pr s))"
| conn_down: "pg_step s (s\<lparr>conn_error := Some e\<rparr>)"
| conn_up: "pg_step s (s\<lparr>conn_error := None\<rparr>)"

inductive pg_reachable :: "pg_state \<Rightarrow> bool" where
  init: "pg_reachable pg_init"
| step: "pg_reachable s \<Longrightarrow> pg_step s s' \<Longrightarrow> pg_reachable s'"

section \<open>Invariant and abstraction\<close>

text \<open>
  The table invariant: ids are positive, strictly increasing in insertion
  order, and below the next serial value, which never passes the first
  value the sequence cannot hand out.
\<close>

definition table_inv :: "saved_table \<Rightarrow> bool" where
  "table_inv t \<longleftrightarrow>
     0 < serial t \<and> serial t \<le> Suc serial_max \<and> sorted_wrt (<) (map row_id (rows t)) \<and>
     (\<forall>r \<in> set (rows t). 0 < row_id r \<and> row_id r < serial t)"

definition pg_inv :: "pg_state \<Rightarrow> bool" where
  "pg_inv s \<longleftrightarrow> (case table s of None \<Rightarrow> True | Some t \<Rightarrow> table_inv t)"

text \<open>
  The abstract store: prompt ids to query texts, the first row of an id
  deciding (what \<open>getSavedQueryById\<close> reads).
\<close>

definition store_of :: "saved_table \<Rightarrow> string \<rightharpoonup> string" where
  "store_of t = map_of (map (\<lambda>r. (row_prompt_id r, row_query_text r)) (rows t))"

text \<open>The specified insertion: an id already present keeps its text.\<close>

definition store_insert :: "(string \<rightharpoonup> string) \<Rightarrow> string \<Rightarrow> string \<Rightarrow> (string \<rightharpoonup> string)" where
  "store_insert m p q = (if p \<in> dom m then m else m(p \<mapsto> q))"

section \<open>Properties of the store\<close>

text \<open>The argument checks, for evaluating them on concrete values.\<close>

lemmas pg_checks = insert_args_ok_def pg_text_ok_def varchar_max_def

lemma table_inv_append:
  assumes "table_inv t" and "serial t \<le> serial_max"
  shows "table_inv \<lparr>rows = rows t @ [\<lparr>row_id = serial t, row_customer_id = c, row_prompt_id = p,
                      row_query_text = q, row_prompt = pr\<rparr>], serial = Suc (serial t)\<rparr>"
  using assms by (auto simp: table_inv_def sorted_wrt_append)

lemma table_inv_skip:
  "table_inv t \<Longrightarrow> serial t \<le> serial_max \<Longrightarrow> table_inv (t\<lparr>serial := Suc (serial t)\<rparr>)"
  by (fastforce simp: table_inv_def)

lemma table_inv_empty: "table_inv \<lparr>rows = [], serial = 1\<rparr>"
  by (simp add: table_inv_def)

lemma createTable_ok:
  "conn_error s = None \<Longrightarrow> createTable s = (Inr (), s\<lparr>table := Some (created_table s)\<rparr>)"
  by (simp add: createTable_def created_table_def)

lemma insertSavedQuery_ok:
  "conn_error s = None \<Longrightarrow> table s = Some t \<Longrightarrow> serial t \<le> serial_max \<Longrightarrow> insert_args_ok c p q pr \<Longrightarrow>
   insertSavedQuery c p q pr s =
     (Inr \<lparr>row_id = serial t, row_customer_id = c, row_prompt_id = p, row_query_text = q, row_prompt = pr\<rparr>,
      s\<lparr>table := Some \<lparr>rows = rows t @ [\<lparr>row_id = serial t, row_customer_id = c, row_prompt_id = p,
                      row_query_text = q, row_prompt = pr\<rparr>], serial = Suc (serial t)\<rparr>\<rparr>)"
  by (simp add: insertSavedQuery_def insert_args_ok_def Let_def)

lemma insertSavedQuery_cases:
  "insertSavedQuery c p q pr s = (r, s') \<Longrightarrow>
     (s' = s \<and> (\<exists>e. r = Inl e)) \<or>
     (\<exists>t. table s = Some t \<and> serial t \<le> serial_max \<and> (\<exists>e. r = Inl e) \<and>
        s' = s\<lparr>table := Some (t\<lparr>serial := Suc (serial t)\<rparr>)\<rparr>) \<or>
     (\<exists>t. conn_error s = None \<and> table s = Some t \<and> serial t \<le> serial_max \<and> insert_args_ok c p q pr \<and>
        r = Inr \<lparr>row_id = serial t, row_customer_id = c, row_prompt_id = p, row_query_text = q, row_prompt = pr\<rparr> \<and>
        s' = s\<lparr>table := Some \<lparr>rows = rows t @ [\<lparr>row_id = serial t, row_customer_id = c, row_prompt_id = p,
                      row_query_text = q, row_prompt = pr\<rparr>], serial = Suc (serial t)\<rparr>\<rparr>)"
  by (auto simp: insertSavedQuery_def insert_args_ok_def Let_def not_le split: option.splits if_splits)

lemma pg_step_inv: "pg_step s s' \<Longrightarrow> pg_inv s \<Longrightarrow> pg_inv s'"
proof (induction rule: pg_step.induct)
  case (create s)
  then show ?case
    by (auto simp: createTable_def pg_inv_def table_inv_def split: option.splits)
next
  case (insert s c p q pr)
  obtain r s' where rs: "insertSavedQuery c p q pr s = (r, s')" by fastforce
  from insertSavedQuery_cases [OF rs] insert show ?case
    by (auto simp: rs pg_inv_def intro: table_inv_append table_inv_skip)
qed (simp_all add: pg_inv_def)

lemma pg_reachable_inv: "pg_reachable s \<Longrightarrow> pg_inv s"
proof (induction rule: pg_reachable.induct)
  case init
  then show ?case by (simp add: pg_inv_def pg_init_def)
next
  case (step s s')
  then show ?case by (blast intro: pg_step_inv)
qed

text \<open>
  C2 (safety).  In every reachable state of the store (any interleaving of table
  creation, insertions and connection failures from the initial, empty
  database), the ids of the saved rows are pairwise distinct: the
  \<^verbatim>\<open>SERIAL PRIMARY KEY\<close> is never violated.
\<close>

theorem saved_ids_unique:
  assumes "pg_reachable s" and "table s = Some t"
  shows "distinct (map row_id (rows t))"
proof -
  from pg_reachable_inv [OF assms(1)] assms(2) have "table_inv t" by (simp add: pg_inv_def)
  then have "sorted_wrt (<) (map row_id (rows t))" by (simp add: table_inv_def)
  then show ?thesis by (rule strict_sorted_iff [THEN iffD1, THEN conjunct2])
qed

lemma saved_ids_unique_witness:
  "distinct (map row_id [\<lparr>row_id = 1, row_customer_id = ''c1'', row_prompt_id = ''p1'', row_query_text = ''q1'', row_prompt = ''r1''\<rparr>,
                         \<lparr>row_id = 2, row_customer_id = ''c2'', row_prompt_id = ''p2'', row_query_text = ''q2'', row_prompt = ''r2''\<rparr>])"
proof -
  define s1 where "s1 = snd (createTable pg_init)"
  define s2 where "s2 = snd (insertSavedQuery ''c1'' ''p1'' ''q1'' ''r1'' s1)"
  define s3 where "s3 = snd (insertSavedQuery ''c2'' ''p2'' ''q2'' ''r2'' s2)"
  have r1: "pg_reachable s1" unfolding s1_def by (rule pg_reachable.step [OF pg_reachable.init pg_step.create])
  have r2: "pg_reachable s2" unfolding s2_def by (rule pg_reachable.step [OF r1 pg_step.insert])
  have r3: "pg_reachable s3" unfolding s3_def by (rule pg_reachable.step [OF r2 pg_step.insert])
  have "table s3 = Some \<lparr>rows = [\<lparr>row_id = 1, row_customer_id = ''c1'', row_prompt_id = ''p1'', row_query_text = ''q1'', row_prompt = ''r1''\<rparr>,
                         \<lparr>row_id = 2, row_customer_id = ''c2'', row_prompt_id = ''p2'', row_query_text = ''q2'', row_prompt = ''r2''\<rparr>],
                         serial = 3\<rparr>"
    by (simp add: s3_def s2_def s1_def createTable_def insertSavedQuery_def pg_init_def serial_max_def Let_def pg_checks)
  from saved_ids_unique [OF r3 this] show ?thesis by simp
qed

lemma getSavedQueryById_store:
  "conn_error s = None \<Longrightarrow> table s = Some t \<Longrightarrow> pg_text_ok p \<Longrightarrow> getSavedQueryById p s = Inr (store_of t p)"
proof -
  have "map_option row_query_text (find (\<lambda>r. row_prompt_id r = p) xs) =
        map_of (map (\<lambda>r. (row_prompt_id r, row_query_text r)) xs) p" for xs
    by (induction xs) auto
  then show "conn_error s = None \<Longrightarrow> table s = Some t \<Longrightarrow> pg_text_ok p \<Longrightarrow> getSavedQueryById p s = Inr (store_of t p)"
    by (simp add: getSavedQueryById_def store_of_def)
qed

lemma insertSavedQuery_Inr:
  assumes "insertSavedQuery c p q pr s = (Inr r, s')"
  shows "\<exists>t. conn_error s = None \<and> table s = Some t \<and> conn_error s' = None \<and> insert_args_ok c p q pr \<and>
           row_prompt_id r = p \<and> row_query_text r = q \<and>
           table s' = Some \<lparr>rows = rows t @ [r], serial = Suc (serial t)\<rparr>"
  using insertSavedQuery_cases [OF assms] by auto

lemma store_of_snoc:
  "store_of \<lparr>rows = xs @ [r], serial = n\<rparr> =
     store_insert (store_of \<lparr>rows = xs, serial = m\<rparr>) (row_prompt_id r) (row_query_text r)"
  by (auto simp: store_of_def store_insert_def map_of_append map_add_def fun_eq_iff
      split: option.splits)


lemma insert_get_fresh:
  assumes "insertSavedQuery c p q pr s = (Inr r, s')" and "table s = Some t"
    and "p \<notin> dom (store_of t)"
  shows "getSavedQueryById p s' = Inr (Some q)"
proof -
  from insertSavedQuery_Inr [OF assms(1)] assms(2) have
    c: "conn_error s' = None" and tb: "table s' = Some \<lparr>rows = rows t @ [r], serial = Suc (serial t)\<rparr>"
    and r: "row_prompt_id r = p" "row_query_text r = q" and ok: "pg_text_ok p"
    by (auto simp: insert_args_ok_def)
  have "store_of \<lparr>rows = rows t @ [r], serial = Suc (serial t)\<rparr> p = Some q"
    using store_of_snoc [of "rows t" r "Suc (serial t)" "serial t"] assms(3) r
    by (simp add: store_insert_def store_of_def)
  with c tb ok show ?thesis by (simp add: getSavedQueryById_store)
qed


text \<open>
  \<^verbatim>\<open>CREATE TABLE IF NOT EXISTS\<close> on a connected database whose table
  exists succeeds and changes nothing: saved queries survive every call.
\<close>

lemma createTable_keeps_table:
  "conn_error s = None \<Longrightarrow> table s = Some t \<Longrightarrow> createTable s = (Inr (), s)"
  by (simp add: createTable_def)

lemma createTable_idem: "snd (createTable (snd (createTable s))) = snd (createTable s)"
  by (simp add: createTable_def split: option.splits)

text \<open>
  A failed insertion adds no row; only an over-long id moves the sequence.
\<close>

lemma insert_failure_rows:
  "insertSavedQuery c p q pr s = (Inl e, s') \<Longrightarrow> map_option rows (table s') = map_option rows (table s)"
  using insertSavedQuery_cases [of c p q pr s "Inl e" s'] by auto

text \<open>
  C37 (error).  Reading before the table exists fails with a message wrapped twice,
  \<^verbatim>\<open>Error executing query Error executing query relation ...\<close>: the inner
  \<^verbatim>\<open>CustomError\<close> is caught again by the outer handler.
\<close>

lemma getSavedQueryById_no_table:
  "conn_error s = None \<Longrightarrow> table s = None \<Longrightarrow>
   getSavedQueryById p s = Inl (CustomError 500
     (''Error executing query Error executing query relation '' @ [CHR 0x22] @ ''saved_queries'' @ [CHR 0x22] @ '' does not exist''))"
  by (simp add: getSavedQueryById_def no_table_error_def)



lemma createTable_keeps_table_witness:
  "createTable \<lparr>table = Some \<lparr>rows = [], serial = 1\<rparr>, conn_error = None\<rparr> =
     (Inr (), \<lparr>table = Some \<lparr>rows = [], serial = 1\<rparr>, conn_error = None\<rparr>)"
  using createTable_keeps_table [of "\<lparr>table = Some \<lparr>rows = [], serial = 1\<rparr>, conn_error = None\<rparr>"] by simp

lemma getSavedQueryById_no_table_witness:
  "getSavedQueryById ''p'' pg_init = Inl (CustomError 500
     (''Error executing query Error executing query relation '' @ [CHR 0x22] @ ''saved_queries'' @ [CHR 0x22] @ '' does not exist''))"
  using getSavedQueryById_no_table [of pg_init] by (simp add: pg_init_def)

section \<open>Bounds and progress of the sequence\<close>

lemma pg_step_keeps_exhausted:
  assumes "pg_step s s'" and "table s = Some t" and "serial_max < serial t"
  shows "\<exists>t'. table s' = Some t' \<and> serial t \<le> serial t'"
  using assms
proof (induction rule: pg_step.induct)
  case (insert s c p q pr)
  then show ?case by (auto simp: insertSavedQuery_def Let_def split: option.splits)
qed (auto simp: createTable_def split: option.splits)

lemma sequence_exhausted_forever:
  assumes "pg_step\<^sup>*\<^sup>* s s'" and "table s = Some t" and "serial_max < serial t"
  shows "\<exists>e. fst (insertSavedQuery c p q pr s') = Inl e"
proof -
  from assms have "\<exists>t'. table s' = Some t' \<and> serial t \<le> serial t'"
  proof (induction arbitrary: t rule: rtranclp_induct)
    case base
    then show ?case by auto
  next
    case (step y z)
    then obtain t' where "table y = Some t'" "serial t \<le> serial t'" by blast
    with pg_step_keeps_exhausted [OF step.hyps(2) this(1)] step.prems(2) show ?case by force
  qed
  with assms(3) show ?thesis by (auto simp: insertSavedQuery_def split: option.splits)
qed




end
