(* ===== verification/Logger.thy ===== *)
theory Logger
  imports Json
begin

text \<open>
  The logger of src/middleware/logger.ts: a winston logger at level
  \<^verbatim>\<open>info\<close> whose format adds a timestamp
  (\<^verbatim>\<open>YYYY-MM-DD HH:mm:ss\<close>) and prints
  \<^verbatim>\<open>${timestamp} ${level}: ${message}\<close>, writing to the console and to
  three files: \<^verbatim>\<open>error.log\<close> (level \<^verbatim>\<open>error\<close>),
  \<^verbatim>\<open>combined.log\<close> (the logger's level) and \<^verbatim>\<open>info.log\<close> (level
  \<^verbatim>\<open>info\<close>).

  The library's part is modelled as far as the configuration uses it: the
  npm levels (\<^verbatim>\<open>error\<close> 0 to \<^verbatim>\<open>silly\<close> 6), a transport writing an
  entry when the entry's level is at most the transport's level (or the
  logger's, when the transport has none), and how
  \<^verbatim>\<open>logger.info(msg, ...splat)\<close> builds the message: with no extra
  argument it is \<open>msg\<close>; when the first extra argument is an object (not
  \<^verbatim>\<open>null\<close>) and \<open>msg\<close> has no format token, a truthy
  \<^verbatim>\<open>message\<close> property of it is appended after a space; in every
  other case the extra arguments go to the \<^verbatim>\<open>SPLAT\<close> field, which
  this format never prints; appending a \<^verbatim>\<open>message\<close> that does not
  convert to text throws out of the call, which then writes nothing
  (\<open>log_check\<close>).  The clock is an input (a \<open>datetime\<close>); the
  files are lists of lines.
\<close>

section \<open>Levels and entries\<close>

datatype log_level = LvError | LvWarn | LvInfo | LvHttp | LvVerbose | LvDebug | LvSilly

fun level_name :: "log_level \<Rightarrow> string" where
  "level_name LvError = ''error''"
| "level_name LvWarn = ''warn''"
| "level_name LvInfo = ''info''"
| "level_name LvHttp = ''http''"
| "level_name LvVerbose = ''verbose''"
| "level_name LvDebug = ''debug''"
| "level_name LvSilly = ''silly''"

fun level_rank :: "log_level \<Rightarrow> nat" where
  "level_rank LvError = 0"
| "level_rank LvWarn = 1"
| "level_rank LvInfo = 2"
| "level_rank LvHttp = 3"
| "level_rank LvVerbose = 4"
| "level_rank LvDebug = 5"
| "level_rank LvSilly = 6"

text \<open>An extra argument of a logging call: a JavaScript value, or an
  \<^verbatim>\<open>Error\<close> (a caught exception) with its message.\<close>

datatype log_meta = MetaValue jval | MetaError string

section \<open>The format\<close>

record datetime =
  year :: nat
  month :: nat
  day :: nat
  hour :: nat
  minute :: nat
  second :: nat

text \<open>fecha's \<open>pad\<close>: the decimal digits, left-padded with zeros to the width.\<close>

definition pad :: "nat \<Rightarrow> nat \<Rightarrow> string" where
  "pad w n = replicate (w - length (show_nat n)) (CHR ''0'') @ show_nat n"

text \<open>\<^verbatim>\<open>format.timestamp({format: "YYYY-MM-DD HH:mm:ss"})\<close> (lines 5--7).\<close>

definition format_timestamp :: "datetime \<Rightarrow> string" where
  "format_timestamp t =
     pad 4 (year t) @ ''-'' @ pad 2 (month t) @ ''-'' @ pad 2 (day t) @ '' '' @
     pad 2 (hour t) @ '':'' @ pad 2 (minute t) @ '':'' @ pad 2 (second t)"

text \<open>\<^verbatim>\<open>format.printf\<close> (line 8).\<close>

definition format_line :: "datetime \<Rightarrow> log_level \<Rightarrow> string \<Rightarrow> string" where
  "format_line t lv msg = format_timestamp t @ '' '' @ level_name lv @ '': '' @ msg"

text \<open>A printf-style token (\<^verbatim>\<open>%s\<close>, \<^verbatim>\<open>%d\<close>, \<open>\<dots>\<close>) in the message.\<close>

fun has_token :: "string \<Rightarrow> bool" where
  "has_token (c # d # r) = ((c = CHR ''%'' \<and> d \<in> set ''scdjifoO%'') \<or> has_token (d # r))"
| "has_token _ = False"

text \<open>The \<^verbatim>\<open>message\<close> property of an extra argument that is an object
  (\<open>Some\<close>), or \<open>None\<close> for a primitive or \<^verbatim>\<open>null\<close>.\<close>

fun meta_object :: "log_meta \<Rightarrow> jval option option" where
  "meta_object (MetaError m) = Some (Some (JStr m))"
| "meta_object (MetaValue (JObj kvs)) = Some (map_of kvs ''message'')"
| "meta_object (MetaValue (JArr xs)) = Some None"
| "meta_object (MetaValue _) = None"

definition log_message :: "string \<Rightarrow> log_meta list \<Rightarrow> string" where
  "log_message msg splat =
     (case splat of
        [] \<Rightarrow> msg
      | meta # _ \<Rightarrow>
          (case meta_object meta of
             Some (Some v) \<Rightarrow> if \<not> has_token msg \<and> js_truthy v then msg @ '' '' @ js_to_string v else msg
           | _ \<Rightarrow> msg))"

text \<open>
  Whether building the message throws: the appended \<^verbatim>\<open>message\<close>
  property goes through a template literal (\<^verbatim>\<open>${info.message}
  ${meta.message}\<close>), which throws on a value that does not convert
  (\<open>js_string\<close>).  The exception leaves \<^verbatim>\<open>logger.info\<close> and reaches
  the caller; nothing is written.
\<close>

definition log_check :: "string \<Rightarrow> log_meta list \<Rightarrow> unit result" where
  "log_check msg splat =
     (case splat of
        [] \<Rightarrow> Inr ()
      | meta # _ \<Rightarrow>
          (case meta_object meta of
             Some (Some v) \<Rightarrow> if \<not> has_token msg \<and> js_truthy v then rbind (js_string v) (\<lambda>_. Inr ()) else Inr ()
           | _ \<Rightarrow> Inr ()))"

section \<open>Transports\<close>

datatype transport = Console | LogFile string

definition logger_level :: log_level where
  "logger_level = LvInfo"

text \<open>The transports of lines 11--16, each with its own level if it has one.\<close>

definition transports :: "(transport \<times> log_level option) list" where
  "transports =
     [(Console, None), (LogFile ''error.log'', Some LvError),
      (LogFile ''combined.log'', None), (LogFile ''info.log'', Some LvInfo)]"

definition accepts :: "log_level option \<Rightarrow> log_level \<Rightarrow> bool" where
  "accepts tlev lv = (level_rank lv \<le> level_rank (case tlev of None \<Rightarrow> logger_level | Some l \<Rightarrow> l))"

text \<open>One call \<^verbatim>\<open>logger.<lv>(msg, ...splat)\<close> at time \<open>t\<close>: the line
  each transport writes.\<close>

definition log_write :: "datetime \<Rightarrow> log_level \<Rightarrow> string \<Rightarrow> log_meta list \<Rightarrow> (transport \<times> string) list" where
  "log_write t lv msg splat =
     map (\<lambda>(tr, _). (tr, format_line t lv (log_message msg splat)))
       (filter (\<lambda>(_, tlev). accepts tlev lv) transports)"

text \<open>The output: the lines of each transport, oldest first.\<close>

type_synonym log_output = "transport \<Rightarrow> string list"

definition append_lines :: "(transport \<times> string) list \<Rightarrow> log_output \<Rightarrow> log_output" where
  "append_lines ws out = (\<lambda>tr. out tr @ map snd (filter (\<lambda>w. fst w = tr) ws))"

definition log_call :: "datetime \<Rightarrow> log_level \<Rightarrow> string \<Rightarrow> log_meta list \<Rightarrow> log_output \<Rightarrow> log_output" where
  "log_call t lv msg splat out =
     (case log_check msg splat of Inl e \<Rightarrow> out | Inr u \<Rightarrow> append_lines (log_write t lv msg splat) out)"

inductive log_reachable :: "log_output \<Rightarrow> bool" where
  empty: "log_reachable (\<lambda>_. [])"
| call: "log_reachable out \<Longrightarrow> log_reachable (log_call t lv msg splat out)"

section \<open>Lemmas\<close>

lemma log_write_transport:
  "(tr, l) \<in> set (log_write t lv msg splat) \<longleftrightarrow>
     (\<exists>tlev. (tr, tlev) \<in> set transports \<and> accepts tlev lv) \<and> l = format_line t lv (log_message msg splat)"
  by (auto simp: log_write_def)

lemma log_call_lines:
  "l \<in> set (log_call t lv msg splat out tr) \<Longrightarrow>
     l \<in> set (out tr) \<or> (tr, l) \<in> set (log_write t lv msg splat)"
  by (auto simp: log_call_def append_lines_def image_iff split: sum.splits)

text \<open>
  C22 (invariant).  In every state the logger can reach, each line of
  \<^verbatim>\<open>error.log\<close> is the rendering of an \<^verbatim>\<open>error\<close>-level call: the
  file transport's own level keeps warnings and information out of it.
\<close>

theorem error_log_only_errors:
  assumes "log_reachable out" and "l \<in> set (out (LogFile ''error.log''))"
  shows "\<exists>t m. l = format_line t LvError m"
  using assms
proof (induction arbitrary: l rule: log_reachable.induct)
  case (call out t lv msg splat)
  then consider "l \<in> set (out (LogFile ''error.log''))"
    | "(LogFile ''error.log'', l) \<in> set (log_write t lv msg splat)"
    by (blast dest: log_call_lines)
  then show ?case
  proof cases
    case 2
    then have "lv = LvError"
      by (cases lv) (auto simp: log_write_transport transports_def accepts_def)
    with 2 show ?thesis by (auto simp: log_write_transport)
  qed (use call.IH in blast)
qed simp

text \<open>
  C36 (functional).  \<^verbatim>\<open>logger.info("Query: ", query)\<close> (openai.service.ts
  line 14) writes the line \<^verbatim>\<open><time> info: Query: \<close> to the console,
  \<^verbatim>\<open>combined.log\<close> and \<^verbatim>\<open>info.log\<close>: the query, a string, is a
  splat argument and the format prints no splat, so it never reaches the log.
\<close>

theorem query_not_logged:
  "log_write t LvInfo ''Query: '' [MetaValue (JStr q)] =
     [(Console, format_timestamp t @ '' info: Query: ''),
      (LogFile ''combined.log'', format_timestamp t @ '' info: Query: ''),
      (LogFile ''info.log'', format_timestamp t @ '' info: Query: '')]"
  by (simp add: log_write_def transports_def accepts_def logger_level_def format_line_def log_message_def)

lemma error_log_only_errors_witness:
  "log_call \<lparr>year = 2024, month = 1, day = 2, hour = 3, minute = 4, second = 5\<rparr> LvError
      ''Failed to get completion from OpenAI API'' [MetaError ''timeout''] (\<lambda>_. []) (LogFile ''error.log'') =
     [''2024-01-02 03:04:05 error: Failed to get completion from OpenAI API timeout''] \<and>
   (\<exists>t m. ''2024-01-02 03:04:05 error: Failed to get completion from OpenAI API timeout'' = format_line t LvError m)"
proof -
  let ?t = "\<lparr>year = 2024, month = 1, day = 2, hour = 3, minute = 4, second = 5\<rparr> :: datetime"
  let ?out = "log_call ?t LvError ''Failed to get completion from OpenAI API'' [MetaError ''timeout''] (\<lambda>_. [])"
  have r: "log_reachable ?out" by (intro log_reachable.intros)
  have e: "?out (LogFile ''error.log'') = [''2024-01-02 03:04:05 error: Failed to get completion from OpenAI API timeout'']"
    by (simp add: log_call_def log_check_def append_lines_def log_write_def transports_def accepts_def logger_level_def
        format_line_def format_timestamp_def pad_def log_message_def show_nat.simps)
  show ?thesis
    using error_log_only_errors [OF r, of "''2024-01-02 03:04:05 error: Failed to get completion from OpenAI API timeout''"] e
    by simp
qed

end
