(* ===== verification/Prompt.thy ===== *)
theory Prompt
  imports QueryService SavedQueries Logger "HOL-Library.Sublist"
begin

text \<open>
  Prompt generation and saving in \<^verbatim>\<open>QueryService\<close>
  (src/middleware/services/query.service.ts, lines 231--323) with
  \<^verbatim>\<open>completion\<close> (src/middleware/services/openai.service.ts).
  \<^verbatim>\<open>generatePrompt\<close> reads \<^verbatim>\<open>query\<close>, \<^verbatim>\<open>tableName1\<close> and
  \<^verbatim>\<open>tableName2\<close> from the body, fetches a description of each table from
  the data manager, appends them and the user's question to a fixed
  preamble, asks the chat model, cuts the first fenced SQL block out of the
  answer (\<^verbatim>\<open>extractQuery\<close>) and saves the result with
  \<^verbatim>\<open>insertSavedQuery\<close>.  \<^verbatim>\<open>saveQuery\<close> saves a query directly.

  The outside world is a record of oracles (\<open>services\<close>): the table
  endpoint of the data manager, the chat completion API (given the API key
  and the request body, the content of each returned choice, or a
  rejection) and the sequence of values
  \<^verbatim>\<open>randomUUID()\<close> returns.  The state (\<open>world\<close>) is the database of
  SavedQueries and the number of UUIDs drawn so far.
\<close>

section \<open>The outside world\<close>

record services =
  table_post :: "string option \<Rightarrow> jval \<Rightarrow> string + jval"
  chat :: "string option \<Rightarrow> jval \<Rightarrow> unit + string option list"
  uuid :: "nat \<Rightarrow> string"

record world =
  db :: pg_state
  uuid_count :: nat

definition randomUUID :: "services \<Rightarrow> world \<Rightarrow> string \<times> world" where
  "randomUUID srv w = (uuid srv (uuid_count w), w\<lparr>uuid_count := Suc (uuid_count w)\<rparr>)"

text \<open>
  The request of \<^verbatim>\<open>completion\<close> (openai.service.ts lines 15--25): the
  model is \<^verbatim>\<open>process.env.MODEL_NAME || "gpt-3.5-turbo"\<close>, so an unset
  or empty variable selects the default; the prompt is the one system
  message; at most 1000 tokens at temperature 1.
\<close>

definition default_model :: string where
  "default_model = ''gpt-3.5-turbo''"

definition chat_model :: "env \<Rightarrow> string" where
  "chat_model env = (case model_name env of
                       Some m \<Rightarrow> if m = [] then default_model else m
                     | None \<Rightarrow> default_model)"

definition chat_request :: "env \<Rightarrow> string \<Rightarrow> jval" where
  "chat_request env query =
     JObj [(''model'', JStr (chat_model env)),
           (''messages'', JArr [JObj [(''role'', JStr ''system''), (''content'', JStr query)]]),
           (''max_tokens'', JNum 1000),
           (''temperature'', JNum 1)]"

text \<open>
  \<^verbatim>\<open>completion(query)\<close> (openai.service.ts lines 5--33): the client is
  built with \<^verbatim>\<open>apiKey: process.env.OPENAI_KEY\<close> and the result is the
  content of the first choice (\<^verbatim>\<open>null\<close> is \<open>None\<close>).  A rejected
  request, and an answer without choices (reading \<^verbatim>\<open>message\<close> of
  \<^verbatim>\<open>undefined\<close>), end in the \<^verbatim>\<open>catch\<close>, which throws a fixed
  \<^verbatim>\<open>Error\<close>.
\<close>

definition completion :: "services \<Rightarrow> env \<Rightarrow> string \<Rightarrow> string option result" where
  "completion srv env query =
     (case chat srv (openai_key env) (chat_request env query) of
        Inr (c # cs) \<Rightarrow> Inr c
      | _ \<Rightarrow> Inl (Error ''Failed to get completion from OpenAI API''))"

section \<open>extractQuery\<close>

text \<open>
  \<^verbatim>\<open>data.match(/```sql\n([\s\S]*?)\n```/)\<close> (lines 299--313), by the
  backtracking semantics of the regular expression: the match starts at the
  least position \<open>i\<close> at which the pattern matches at all, and the lazy
  group takes the least length \<open>j\<close> after which the closing fence follows.
  The capture group is the result; no match is \<^verbatim>\<open>null\<close>.  Matching a
  string cannot throw, so the \<^verbatim>\<open>catch\<close> is dead code.
\<close>

definition sql_open :: string where
  "sql_open = ''```sql\<newline>''"

definition sql_close :: string where
  "sql_close = ''\<newline>```''"

definition block_at :: "string \<Rightarrow> nat \<Rightarrow> nat \<Rightarrow> bool" where
  "block_at d i j \<longleftrightarrow> prefix sql_open (drop i d) \<and> prefix sql_close (drop (i + length sql_open + j) d)"

definition extractQuery :: "string \<Rightarrow> string option" where
  "extractQuery d =
     (let ns = [0..<Suc (length d)] in
      case find (\<lambda>i. list_ex (block_at d i) ns) ns of
        None \<Rightarrow> None
      | Some i \<Rightarrow> map_option (\<lambda>j. take j (drop (i + length sql_open) d)) (find (block_at d i) ns))"

section \<open>generatePrompt\<close>

text \<open>The fixed start of the prompt (lines 234--241), verbatim.\<close>

definition prompt_preamble :: string where
  "prompt_preamble =
     ''You are an intelligent assistant designed to help users generate DuckDB '' @
     ''queries for analyzing data stored in Parquet files on AWS S3. Users will '' @
     ''provide\<newline>     specific details about the type of analysis they '' @
     ''want to perform,the columns needed, the dataset, the S3 path, the date '' @
     ''range, any calculations, groupings, and orderings.Use this information '' @
     ''to construct the appropriate DuckDB query.\<newline>    - Use added_date_full '' @
     ''for date calculations and aggregation. not ts.\<newline>    - dont cast '' @
     ''startdate and end date dont cast startdate end date use add_date_full for '' @
     ''date filtering\<newline>    - to go to inside the nested JSON fields, use '' @
     ''JSON_EXTRACT(_data,$'' @
     sq @
     ''.{key1}.{key2}'' @
     sq @
     '') format.\<newline>    - Use JSON_EXTRACT to parse JSON fields and CAST(JSON_EXTRACT(_data,$'' @
     sq @
     ''.{key1}.{key2}'' @
     sq @
     '')  as DOUBLE) format to convert values to decimals.\<newline>    - Provide '' @
     ''only the SQL text without any explanations .\<newline> '' @
     sq"

text \<open>The S3 path of a table as the prompt spells it (lines 260 and 273), for
  the table name's text \<open>ts\<close>.\<close>

definition s3_path :: "env \<Rightarrow> string \<Rightarrow> string" where
  "s3_path env ts =
     ''S3 path:'' @ sq @ ''s3://'' @ bucket_text env @ ''/main/cust_id='' @ env_text (customer_id env) @
     ''/table_name='' @ ts @ ''/**/*.parquet'' @ sq @ '' ''"

text \<open>
  \<^verbatim>\<open>axios.post(DATA_MANAGER_TABLE_ENDPOINT, null, {params: {table_name}})\<close>
  (a rejection is an error with the client's message), then the three
  conversions in the order the code runs them: \<^verbatim>\<open>${res.data}\<close> in the
  log line (259, 272), \<^verbatim>\<open>${tableName}\<close> in the S3 path (260, 273),
  and the line \<open>label ts\<close> followed by \<^verbatim>\<open>${res.data}\<close> (261, 274).
  Any of them throws on a value that does not convert.
\<close>

definition describe_table :: "services \<Rightarrow> env \<Rightarrow> jval \<Rightarrow> (string \<Rightarrow> string) \<Rightarrow> string result" where
  "describe_table srv env t label =
     (case table_post srv (dm_table_endpoint env) t of
        Inl m \<Rightarrow> Inl (Error m)
      | Inr d \<Rightarrow>
          rbind (js_string d) (\<lambda>ds.
          rbind (js_string t) (\<lambda>ts.
            Inr (s3_path env ts @ label ts @ ds))))"

text \<open>
  Lines 246--277: the prompt for a present first table and an optional
  second one, ending with the user's question (\<^verbatim>\<open>filters += query\<close>,
  a conversion too).  Before the first request the code logs
  \<^verbatim>\<open>`Table Name: ${tableName1}`\<close> (line 249), a conversion; before
  the second it logs \<^verbatim>\<open>logger.info("Table Name 2:", tableName2)\<close>
  (line 264), which throws only through the logger's message rule
  (\<open>log_check\<close>).
\<close>

definition build_filters :: "services \<Rightarrow> env \<Rightarrow> jval \<Rightarrow> jval \<Rightarrow> jval option \<Rightarrow> string result" where
  "build_filters srv env query t1 t2 =
     rbind (js_string t1) (\<lambda>_.
     rbind (describe_table srv env t1 (\<lambda>ts. ''use this data set '' @ ts @ '' :'')) (\<lambda>d1.
     rbind (case t2 of
              Some t \<Rightarrow> if js_truthy t
                        then rbind (log_check ''Table Name 2:'' [MetaValue t]) (\<lambda>_.
                               describe_table srv env t (\<lambda>ts. ''use this data set for table '' @ ts @ '':''))
                        else Inr []
            | None \<Rightarrow> Inr []) (\<lambda>d2.
     rbind (js_string query) (\<lambda>qs.
     Inr (prompt_preamble @ d1 @ d2 @ qs)))))"

text \<open>
  Lines 285--293: save the extracted query if it is truthy (a non-empty
  string), else the whole answer; return what was saved.  Both branches draw
  two UUIDs, the customer id first.
\<close>

definition save_answer :: "services \<Rightarrow> string \<Rightarrow> string \<Rightarrow> world \<Rightarrow> string result \<times> world" where
  "save_answer srv filters response w =
     (let (customerId, w1) = randomUUID srv w;
          (promptId, w2) = randomUUID srv w1;
          insert_return = (\<lambda>text.
            (case insertSavedQuery customerId promptId text filters (db w2) of
               (Inl e, s) \<Rightarrow> (Inl e, w2\<lparr>db := s\<rparr>)
             | (Inr row, s) \<Rightarrow> (Inr text, w2\<lparr>db := s\<rparr>)))
      in case extractQuery response of
           Some q \<Rightarrow> if q \<noteq> [] then insert_return q else insert_return response
         | None \<Rightarrow> insert_return response)"

text \<open>The body of the \<^verbatim>\<open>try\<close> block (lines 243--293).\<close>

definition generate_try :: "services \<Rightarrow> env \<Rightarrow> jval \<Rightarrow> world \<Rightarrow> string result \<times> world" where
  "generate_try srv env body w =
     (case rbind (js_destructure ''req.body'' body ''query'') (\<lambda>query.
           rbind (js_destructure ''req.body'' body ''tableName1'') (\<lambda>t1.
           rbind (js_destructure ''req.body'' body ''tableName2'') (\<lambda>t2. Inr (query, t1, t2)))) of
        Inl e \<Rightarrow> (Inl e, w)
      | Inr (query, t1, t2) \<Rightarrow>
          (case query of
             None \<Rightarrow> (Inr ''Please provide a query'', w)
           | Some qv \<Rightarrow>
               if \<not> js_truthy qv then (Inr ''Please provide a query'', w)
               else (case t1 of
                 None \<Rightarrow> (Inr ''Please provide a table name'', w)
               | Some t \<Rightarrow>
                   if \<not> js_truthy t then (Inr ''Please provide a table name'', w)
                   else (case build_filters srv env qv t t2 of
                     Inl e \<Rightarrow> (Inl e, w)
                   | Inr filters \<Rightarrow>
                       (case completion srv env filters of
                          Inl e \<Rightarrow> (Inl e, w)
                        | Inr None \<Rightarrow> (Inr ''No response from OpenAI'', w)
                        | Inr (Some response) \<Rightarrow>
                            if response = [] then (Inr ''No response from OpenAI'', w)
                            else save_answer srv filters response w)))))"

text \<open>
  \<^verbatim>\<open>generatePrompt(req)\<close> (lines 231--298): \<^verbatim>\<open>createTable()\<close> outside the
  \<^verbatim>\<open>try\<close>, then the block, whose errors become
  \<^verbatim>\<open>CustomError(500, error.message)\<close>.
\<close>

definition generatePrompt :: "services \<Rightarrow> env \<Rightarrow> jval \<Rightarrow> world \<Rightarrow> string result \<times> world" where
  "generatePrompt srv env body w =
     (case createTable (db w) of
        (Inl e, s) \<Rightarrow> (Inl e, w\<lparr>db := s\<rparr>)
      | (Inr u, s) \<Rightarrow>
          (case generate_try srv env body (w\<lparr>db := s\<rparr>) of
             (Inl e, w') \<Rightarrow> (Inl (CustomError 500 (message_of e)), w')
           | (Inr x, w') \<Rightarrow> (Inr x, w')))"

section \<open>saveQuery\<close>

text \<open>
  \<^verbatim>\<open>saveQuery(query, query_name)\<close> (lines 315--323): one insertion under
  two fresh UUIDs, the name stored as the prompt; the method returns
  \<^verbatim>\<open>undefined\<close>.
\<close>

definition saveQuery :: "services \<Rightarrow> string \<Rightarrow> string \<Rightarrow> world \<Rightarrow> unit result \<times> world" where
  "saveQuery srv query query_name w =
     (let (customerId, w1) = randomUUID srv w;
          (promptId, w2) = randomUUID srv w1
      in case insertSavedQuery customerId promptId query query_name (db w2) of
           (Inl e, s) \<Rightarrow> (Inl (CustomError 500 (message_of e)), w2\<lparr>db := s\<rparr>)
         | (Inr row, s) \<Rightarrow> (Inr (), w2\<lparr>db := s\<rparr>))"

section \<open>Fixtures\<close>

text \<open>
  A run used by the witnesses: the data manager describes every table by a
  string, the model answers with prose around one fenced block, and
  \<^verbatim>\<open>randomUUID()\<close> returns \<open>uuid-0\<close>, \<open>uuid-1\<close>, and so on.
\<close>

definition demo_answer :: string where
  "demo_answer = ''Here is the query:\<newline>```sql\<newline>SELECT 1\<newline>```\<newline>Done.''"

definition demo_services :: services where
  "demo_services = \<lparr>table_post = (\<lambda>u t. Inr (JStr ''id INT, amount DOUBLE'')),
                     chat = (\<lambda>k p. Inr [Some demo_answer]),
                     uuid = (\<lambda>n. ''uuid-'' @ show_nat n)\<rparr>"

definition demo_world :: world where
  "demo_world = \<lparr>db = pg_init, uuid_count = 0\<rparr>"

definition demo_world_ready :: world where
  "demo_world_ready = \<lparr>db = \<lparr>table = Some \<lparr>rows = [], serial = 1\<rparr>, conn_error = None\<rparr>, uuid_count = 0\<rparr>"

section \<open>Properties of extractQuery\<close>

lemma no_border_open: "no_border sql_open"
  by code_simp

lemma no_border_close: "no_border sql_close"
  by code_simp

lemma block_at_append:
  "block_at (a @ sql_open @ q @ sql_close @ b) (length a) (length q)"
  by (simp add: block_at_def)

lemma block_at_split:
  assumes "block_at d i j"
  shows "d = take i d @ sql_open @ take j (drop (i + length sql_open) d) @ sql_close @
             drop (i + length sql_open + j + length sql_close) d"
    and "i + length sql_open + j + length sql_close \<le> length d"
proof -
  from assms obtain r1 r2 where r1: "drop i d = sql_open @ r1" and r2: "drop (i + length sql_open + j) d = sql_close @ r2"
    by (auto simp: block_at_def prefix_def)
  have "length sql_close \<le> length (drop (i + length sql_open + j) d)" using r2 by simp
  then have len: "i + length sql_open + j + length sql_close \<le> length d"
    by (simp add: sql_close_def)
  show "i + length sql_open + j + length sql_close \<le> length d" by (fact len)
  have "drop (i + length sql_open) d = r1" using r1 by (metis add.commute drop_drop append_eq_conv_conj)
  then have "r1 = take j r1 @ sql_close @ r2"
    using r2 by (metis add.commute drop_drop append_take_drop_id)
  moreover have "d = take i d @ sql_open @ r1" using r1 by (metis append_take_drop_id)
  ultimately show "d = take i d @ sql_open @ take j (drop (i + length sql_open) d) @ sql_close @
             drop (i + length sql_open + j + length sql_close) d"
    using \<open>drop (i + length sql_open) d = r1\<close> r2 by (metis add.commute drop_drop append_eq_conv_conj)
qed


lemma extractQuery_ns:
  "extractQuery d =
     (case find (\<lambda>i. list_ex (block_at d i) [0..<Suc (length d)]) [0..<Suc (length d)] of
        None \<Rightarrow> None
      | Some i \<Rightarrow> map_option (\<lambda>j. take j (drop (i + length sql_open) d))
                    (find (block_at d i) [0..<Suc (length d)]))"
  by (simp only: extractQuery_def Let_def)

text \<open>
  C8 (equivalence).  \<^verbatim>\<open>extractQuery\<close> returns \<open>q\<close> exactly when the
  answer is \<open>a\<close>, the opening fence \<^verbatim>\<open>```sql\<close> and a newline, \<open>q\<close>, a
  newline and the closing fence, then anything, where \<open>a\<close> contains no
  opening fence and \<open>q\<close> no closing one: the first fenced block, up to the
  first closing fence after it.
\<close>

lemma extractQuery_Some_iff:
  "extractQuery d = Some q \<longleftrightarrow>
     (\<exists>a b. d = a @ sql_open @ q @ sql_close @ b \<and> \<not> sublist sql_open a \<and> \<not> sublist sql_close q)"
  (is "?l \<longleftrightarrow> ?r")
proof
  assume ?r
  then obtain a b where d: "d = a @ sql_open @ q @ sql_close @ b"
    and na: "\<not> sublist sql_open a" and nq: "\<not> sublist sql_close q" by blast
  define ns where "ns = [0..<Suc (length d)]"
  have blk: "block_at d (length a) (length q)" using d block_at_append by simp
  have jle: "length q < Suc (length d)" by (simp add: d)
  have first_a: "\<forall>k<length a. \<not> prefix sql_open (drop k d)"
    using no_occurrence_before [OF no_border_open, of a "q @ sql_close @ b"] na d
    by (simp add: sql_open_def)
  have ex_a: "list_ex (block_at d (length a)) ns"
    unfolding ns_def using blk jle by (rule list_ex_upt)
  have none_before: "\<forall>k<length a. \<not> list_ex (block_at d k) ns"
    using first_a by (auto simp: list_ex_iff block_at_def)
  have outer: "find (\<lambda>i. list_ex (block_at d i) ns) ns = Some (length a)"
    using ex_a none_before jle unfolding ns_def find_upt_Some by (simp add: d)
  have drop_d: "drop (length a + length sql_open) d = q @ sql_close @ b" by (simp add: d)
  have first_q: "\<forall>k<length q. \<not> prefix sql_close (drop k (q @ sql_close @ b))"
    using no_occurrence_before [OF no_border_close, of q b] nq by (simp add: sql_close_def)
  have drop_k: "drop (length a + length sql_open + k) d = drop k (q @ sql_close @ b)" for k
    by (simp add: d)
  have "\<forall>k<length q. \<not> block_at d (length a) k"
    using first_q by (simp add: block_at_def drop_k)
  then have inner: "find (block_at d (length a)) ns = Some (length q)"
    using blk jle unfolding ns_def find_upt_Some by simp
  show ?l
    unfolding extractQuery_ns ns_def [symmetric] using outer inner drop_d by simp
next
  assume ?l
  define ns where "ns = [0..<Suc (length d)]"
  obtain i where outer: "find (\<lambda>i. list_ex (block_at d i) ns) ns = Some i"
    using \<open>?l\<close> unfolding extractQuery_ns ns_def [symmetric] by (auto split: option.splits)
  obtain j where inner: "find (block_at d i) ns = Some j" and q: "q = take j (drop (i + length sql_open) d)"
    using \<open>?l\<close> outer unfolding extractQuery_ns ns_def [symmetric] by auto
  from inner have blk: "block_at d i j" and minj: "\<forall>k<j. \<not> block_at d i k"
    unfolding ns_def find_upt_Some by simp_all
  from outer have mini: "\<forall>k<i. \<not> list_ex (block_at d k) ns"
    unfolding ns_def find_upt_Some by simp
  define a where "a = take i d"
  define b where "b = drop (i + length sql_open + j + length sql_close) d"
  have d: "d = a @ sql_open @ q @ sql_close @ b" and len: "i + length sql_open + j + length sql_close \<le> length d"
    using block_at_split [OF blk] by (simp_all add: a_def b_def q)
  have la: "length a = i" and lq: "length q = j" using len by (simp_all add: a_def q)
  have "\<forall>k<length q. \<not> prefix sql_close (drop k (q @ sql_close @ b))"
  proof (intro allI impI notI)
    fix k assume "k < length q" "prefix sql_close (drop k (q @ sql_close @ b))"
    then have "block_at d i k"
      using blk by (simp add: block_at_def d la lq add.assoc [symmetric] flip: drop_drop)
    then show False using minj \<open>k < length q\<close> lq by blast
  qed
  then have nq: "\<not> sublist sql_close q"
    using no_occurrence_before [OF no_border_close, of q b] by (simp add: sql_close_def)
  have "\<forall>k<length a. \<not> prefix sql_open (drop k (a @ sql_open @ q @ sql_close @ b))"
  proof (intro allI impI notI)
    fix k assume k: "k < length a" and pre: "prefix sql_open (drop k (a @ sql_open @ q @ sql_close @ b))"
    have e: "k + length sql_open + (i + j - k) = i + length sql_open + j" using k la by simp
    have "prefix sql_close (drop (k + length sql_open + (i + j - k)) d)"
      unfolding e using blk by (simp add: block_at_def)
    then have "block_at d k (i + j - k)" using pre d by (simp add: block_at_def)
    moreover have "i + j - k < Suc (length d)" using len by simp
    ultimately have "list_ex (block_at d k) ns" unfolding ns_def by (rule list_ex_upt)
    then show False using mini k la by blast
  qed
  then have na: "\<not> sublist sql_open a"
    using no_occurrence_before [OF no_border_open, of a "q @ sql_close @ b"] by (simp add: sql_open_def)
  show ?r using d na nq by blast
qed


text \<open>
  C20 (error).  \<^verbatim>\<open>extractQuery\<close> returns \<^verbatim>\<open>null\<close> exactly when the
  answer has no opening fence followed, anywhere later, by a closing one.
\<close>

lemma extractQuery_None_iff:
  "extractQuery d = None \<longleftrightarrow> \<not> (\<exists>a q b. d = a @ sql_open @ q @ sql_close @ b)"
proof
  assume none: "extractQuery d = None"
  show "\<not> (\<exists>a q b. d = a @ sql_open @ q @ sql_close @ b)"
  proof
    assume "\<exists>a q b. d = a @ sql_open @ q @ sql_close @ b"
    then obtain a q b where d: "d = a @ sql_open @ q @ sql_close @ b" by blast
    define ns where "ns = [0..<Suc (length d)]"
    have "block_at d (length a) (length q)" using block_at_append [of a q b] by (simp add: d)
    then have "list_ex (block_at d (length a)) ns"
      unfolding ns_def by (rule list_ex_upt) (simp add: d)
    moreover have "length a < Suc (length d)" by (simp add: d)
    ultimately have "find (\<lambda>i. list_ex (block_at d i) ns) ns \<noteq> None"
      unfolding find_upt_None ns_def by blast
    then obtain i where outer: "find (\<lambda>i. list_ex (block_at d i) ns) ns = Some i" by blast
    then have "list_ex (block_at d i) ns" unfolding ns_def find_upt_Some by simp
    then obtain j where "find (block_at d i) ns = Some j"
      by (cases "find (block_at d i) ns") (auto simp: find_None_iff list_ex_iff)
    then have "extractQuery d \<noteq> None"
      unfolding extractQuery_ns ns_def [symmetric] using outer by simp
    then show False using none by simp
  qed
next
  assume nob: "\<not> (\<exists>a q b. d = a @ sql_open @ q @ sql_close @ b)"
  show "extractQuery d = None"
  proof (rule ccontr)
    define ns where "ns = [0..<Suc (length d)]"
    assume "extractQuery d \<noteq> None"
    then obtain i j where "find (block_at d i) ns = Some j"
      unfolding extractQuery_ns ns_def [symmetric] by (auto split: option.splits)
    then have "block_at d i j" unfolding ns_def find_upt_Some by simp
    from block_at_split(1) [OF this] nob show False by blast
  qed
qed

section \<open>Properties of generatePrompt and saveQuery\<close>

lemma extractQuery_Nil: "extractQuery [] = None"
  by code_simp

lemma describe_table_obj:
  "table_post srv (dm_table_endpoint env) t = Inr (JObj kvs) \<Longrightarrow> ''toString'' \<notin> set (map fst kvs) \<Longrightarrow>
   describe_table srv env t label =
     rbind (js_string t) (\<lambda>ts. Inr (s3_path env ts @ label ts @ ''[object Object]''))"
  by (simp add: describe_table_def js_string_def)

text \<open>
  C9 (functional).  On a connected database whose id sequence is not exhausted, for a body
  with a non-empty question and
  table name, a data manager whose answer converts to text (no object with
  an own \<^verbatim>\<open>toString\<close>), a model whose first choice holds a non-empty
  fenced SQL block, and UUIDs and texts the table accepts
  (\<open>insert_args_ok\<close>: at most 255 characters for the ids, no NUL): \<^verbatim>\<open>generatePrompt\<close> returns that
  block and appends exactly one row to the (created if absent) table, with
  the two next UUIDs as customer and prompt id, the block as query text and
  the full prompt -- preamble, S3 path, table description, question -- as
  prompt.
\<close>

lemma generatePrompt_saves_block:
  assumes conn: "conn_error (db w) = None" and nonempty: "q \<noteq> []" "t \<noteq> []"
    and dm: "table_post srv (dm_table_endpoint env) (JStr t) = Inr d" and conv: "js_convertible d"
    and llm: "chat srv (openai_key env) (chat_request env (prompt_preamble @ s3_path env t @ ''use this data set '' @ t @ '' :'' @
                        js_to_string d @ q)) = Inr (Some ans # cs)"
    and blk: "extractQuery ans = Some sql" "sql \<noteq> []"
    and seq: "serial (created_table (db w)) \<le> serial_max"
    and args: "insert_args_ok (uuid srv (uuid_count w)) (uuid srv (Suc (uuid_count w))) sql
                 (prompt_preamble @ s3_path env t @ ''use this data set '' @ t @ '' :'' @ js_to_string d @ q)"
  shows "generatePrompt srv env (JObj [(''query'', JStr q), (''tableName1'', JStr t)]) w =
     (Inr sql,
      w\<lparr>db := (db w)\<lparr>table := Some
          \<lparr>rows = rows (created_table (db w)) @
                  [\<lparr>row_id = serial (created_table (db w)), row_customer_id = uuid srv (uuid_count w),
                    row_prompt_id = uuid srv (Suc (uuid_count w)), row_query_text = sql,
                    row_prompt = prompt_preamble @ s3_path env t @ ''use this data set '' @ t @
                                 '' :'' @ js_to_string d @ q\<rparr>],
           serial = Suc (serial (created_table (db w)))\<rparr>\<rparr>,
        uuid_count := Suc (Suc (uuid_count w))\<rparr>)"
proof -
  have "ans \<noteq> []" using blk(1) extractQuery_Nil by auto
  then show ?thesis using assms
  by (simp add: generatePrompt_def createTable_ok generate_try_def js_simps build_filters_def
      describe_table_def completion_def save_answer_def randomUUID_def insertSavedQuery_ok)
qed

text \<open>
  C29 (functional).  When the model's first fenced block is empty, the extracted
  string is falsy and \<^verbatim>\<open>generatePrompt\<close> returns and saves the whole
  answer, prose and fences included.
\<close>

lemma save_answer_empty_block:
  assumes "extractQuery response = Some []" and "save_answer srv f response w = (Inr x, w')"
  shows "x = response \<and> (\<exists>t. table (db w') = Some t \<and> row_query_text (last (rows t)) = response)"
  using assms
  by (auto simp: save_answer_def randomUUID_def insertSavedQuery_def Let_def split: option.splits if_splits)

text \<open>
  C31 (error).  A body without a truthy \<^verbatim>\<open>query\<close> is answered with the
  string \<^verbatim>\<open>Please provide a query\<close> as a normal result, not an error:
  nothing is fetched, no UUID is drawn and nothing is saved (only the table
  is created).
\<close>

lemma generatePrompt_missing_query:
  assumes "conn_error (db w) = None" and "\<not> js_truthy_opt (map_of kvs ''query'')"
  shows "generatePrompt srv env (JObj kvs) w =
           (Inr ''Please provide a query'', w\<lparr>db := (db w)\<lparr>table := Some (created_table (db w))\<rparr>\<rparr>)"
  using assms
  by (cases "map_of kvs ''query''")
     (simp_all add: generatePrompt_def createTable_ok generate_try_def js_simps js_truthy_opt_def)

text \<open>
  C24 (error).  When the data manager's answer converts to text and the chat
  completion request fails, \<^verbatim>\<open>generatePrompt\<close>
  fails with \<^verbatim>\<open>CustomError(500, "Failed to get completion from OpenAI
  API")\<close>, saves nothing and draws no UUID.
\<close>

lemma generatePrompt_llm_failure:
  assumes conn: "conn_error (db w) = None" and nonempty: "q \<noteq> []" "t \<noteq> []"
    and dm: "table_post srv (dm_table_endpoint env) (JStr t) = Inr d" and conv: "js_convertible d"
    and llm: "chat srv (openai_key env) (chat_request env (prompt_preamble @ s3_path env t @ ''use this data set '' @ t @ '' :'' @
                        js_to_string d @ q)) = Inl ()"
  shows "generatePrompt srv env (JObj [(''query'', JStr q), (''tableName1'', JStr t)]) w =
     (Inl (CustomError 500 ''Failed to get completion from OpenAI API''),
      w\<lparr>db := (db w)\<lparr>table := Some (created_table (db w))\<rparr>\<rparr>)"
  using assms
  by (simp add: generatePrompt_def createTable_ok generate_try_def js_simps build_filters_def
      describe_table_def completion_def)

text \<open>
  C30 (functional).  If the data manager answers the table request with a JSON object
  (axios parses a JSON response into one) that has no own
  \<^verbatim>\<open>toString\<close> key, the prompt contains \<^verbatim>\<open>[object Object]\<close> instead of
  the description: two data managers answering with different such
  objects yield the same run of \<^verbatim>\<open>generatePrompt\<close>.
\<close>

lemma prompt_ignores_object_schema:
  assumes "\<And>u t. \<exists>kvs. table_post srv u t = Inr (JObj kvs) \<and> ''toString'' \<notin> set (map fst kvs)"
    and "\<And>u t. \<exists>kvs. tp u t = Inr (JObj kvs) \<and> ''toString'' \<notin> set (map fst kvs)"
  shows "generatePrompt (srv\<lparr>table_post := tp\<rparr>) env body w = generatePrompt srv env body w"
proof -
  have dt: "describe_table (srv\<lparr>table_post := tp\<rparr>) e t label = describe_table srv e t label" for e t label
  proof -
    obtain kvs1 where o1: "table_post srv (dm_table_endpoint e) t = Inr (JObj kvs1)"
      and k1: "''toString'' \<notin> set (map fst kvs1)" using assms(1) by blast
    obtain kvs2 where o2: "tp (dm_table_endpoint e) t = Inr (JObj kvs2)"
      and k2: "''toString'' \<notin> set (map fst kvs2)" using assms(2) by blast
    have o3: "table_post (srv\<lparr>table_post := tp\<rparr>) (dm_table_endpoint e) t = Inr (JObj kvs2)"
      using o2 by simp
    show ?thesis using describe_table_obj [OF o1 k1] describe_table_obj [OF o3 k2] by simp
  qed
  have bf: "build_filters (srv\<lparr>table_post := tp\<rparr>) = build_filters srv"
    unfolding build_filters_def dt ..
  have co: "completion (srv\<lparr>table_post := tp\<rparr>) = completion srv"
    by (simp add: completion_def fun_eq_iff)
  have sa: "save_answer (srv\<lparr>table_post := tp\<rparr>) = save_answer srv"
    by (simp add: save_answer_def randomUUID_def fun_eq_iff)
  have "generate_try (srv\<lparr>table_post := tp\<rparr>) = generate_try srv"
    unfolding generate_try_def bf co sa ..
  then show ?thesis unfolding generatePrompt_def by (simp only:)
qed

text \<open>
  C13 (error).  If the data manager answers the table request with a JSON
  object that has an own \<^verbatim>\<open>toString\<close> key, the conversion
  \<^verbatim>\<open>${res.data}\<close> (line 259) throws before the model is asked:
  \<^verbatim>\<open>generatePrompt\<close> fails with \<^verbatim>\<open>CustomError(500, "Cannot convert object
  to primitive value")\<close>, whatever the model would answer, and saves
  nothing.
\<close>

lemma generatePrompt_unconvertible_description:
  assumes conn: "conn_error (db w) = None" and nonempty: "q \<noteq> []" "t \<noteq> []"
    and dm: "table_post srv (dm_table_endpoint env) (JStr t) = Inr (JObj kvs)"
    and key: "''toString'' \<in> set (map fst kvs)"
  shows "generatePrompt srv env (JObj [(''query'', JStr q), (''tableName1'', JStr t)]) w =
     (Inl (CustomError 500 ''Cannot convert object to primitive value''),
      w\<lparr>db := (db w)\<lparr>table := Some (created_table (db w))\<rparr>\<rparr>)"
  using assms
  by (simp add: generatePrompt_def createTable_ok generate_try_def js_simps build_filters_def
      describe_table_def js_string_obj_toString convert_error_def)

text \<open>
  C25 (roundtrip).  After a successful \<^verbatim>\<open>saveQuery\<close> on an existing table, the
  query is read back by \<^verbatim>\<open>getSavedQueryById\<close> under the second UUID
  drawn (the prompt id), provided that id was not in use.
\<close>

lemma saveQuery_roundtrip:
  assumes "saveQuery srv q n w = (Inr (), w')" and "table (db w) = Some t"
    and "uuid srv (Suc (uuid_count w)) \<notin> dom (store_of t)"
  shows "getSavedQueryById (uuid srv (Suc (uuid_count w))) (db w') = Inr (Some q)"
proof -
  obtain r s where ins: "insertSavedQuery (uuid srv (uuid_count w)) (uuid srv (Suc (uuid_count w))) q n (db w) = (Inr r, s)"
    and w': "db w' = s"
    using assms(1) by (auto simp: saveQuery_def randomUUID_def split: prod.splits sum.splits)
  from insert_get_fresh [OF ins assms(2,3)] w' show ?thesis by simp
qed

section \<open>Witnesses\<close>

lemma extractQuery_Some_iff_witness:
  "extractQuery demo_answer = Some ''SELECT 1''"
proof -
  have "demo_answer = ''Here is the query:\<newline>'' @ sql_open @ ''SELECT 1'' @ sql_close @ ''\<newline>Done.''"
    by (simp add: demo_answer_def sql_open_def sql_close_def)
  moreover have "\<not> sublist sql_open ''Here is the query:\<newline>''" by code_simp
  moreover have "\<not> sublist sql_close ''SELECT 1''" by code_simp
  ultimately show ?thesis using extractQuery_Some_iff by blast
qed

lemma extractQuery_None_iff_witness:
  "extractQuery ''SELECT 1'' = None"
proof -
  have "\<not> (\<exists>a q b. ''SELECT 1'' = a @ sql_open @ q @ sql_close @ b)"
  proof
    assume "\<exists>a q b. ''SELECT 1'' = a @ sql_open @ q @ sql_close @ b"
    then obtain a q b where "''SELECT 1'' = a @ sql_open @ q @ sql_close @ b" by blast
    then have "length ''SELECT 1'' = length (a @ sql_open @ q @ sql_close @ b)" by simp
    then show False by (simp add: sql_open_def sql_close_def)
  qed
  then show ?thesis using extractQuery_None_iff by blast
qed

lemma demo_extract: "extractQuery demo_answer = Some ''SELECT 1''"
  unfolding demo_answer_def by code_simp

lemma generatePrompt_saves_block_witness:
  "\<exists>w'. generatePrompt demo_services example_env (JObj [(''query'', JStr ''total''), (''tableName1'', JStr ''sales'')]) demo_world
        = (Inr ''SELECT 1'', w') \<and>
     map row_query_text (rows (the (table (db w')))) = [''SELECT 1''] \<and> uuid_count w' = 2"
proof -
  have "generatePrompt demo_services example_env (JObj [(''query'', JStr ''total''), (''tableName1'', JStr ''sales'')]) demo_world =
     (Inr ''SELECT 1'',
      demo_world\<lparr>db := (db demo_world)\<lparr>table := Some
          \<lparr>rows = rows (created_table (db demo_world)) @
                  [\<lparr>row_id = serial (created_table (db demo_world)), row_customer_id = uuid demo_services (uuid_count demo_world),
                    row_prompt_id = uuid demo_services (Suc (uuid_count demo_world)), row_query_text = ''SELECT 1'',
                    row_prompt = prompt_preamble @ s3_path example_env ''sales'' @ ''use this data set '' @ ''sales'' @
                                 '' :'' @ js_to_string (JStr ''id INT, amount DOUBLE'') @ ''total''\<rparr>],
           serial = Suc (serial (created_table (db demo_world)))\<rparr>\<rparr>,
        uuid_count := Suc (Suc (uuid_count demo_world))\<rparr>)"
    using generatePrompt_saves_block [where w = demo_world and q = "''total''" and t = "''sales''"
        and srv = demo_services and env = example_env and d = "JStr ''id INT, amount DOUBLE''"
        and ans = demo_answer and cs = "[]" and sql = "''SELECT 1''"] demo_extract
    by (simp add: demo_world_def pg_init_def demo_services_def created_table_def serial_max_def
        pg_checks show_nat_small prompt_preamble_def s3_path_def example_env_def env_text_def)
  then show ?thesis by (simp add: demo_world_def pg_init_def created_table_def)
qed

lemma save_answer_empty_block_witness:
  "\<exists>w'. save_answer demo_services ''p'' ''```sql\<newline>\<newline>```'' demo_world_ready = (Inr ''```sql\<newline>\<newline>```'', w')"
proof -
  have ex: "extractQuery ''```sql\<newline>\<newline>```'' = Some []" by code_simp
  obtain x w' where eq: "save_answer demo_services ''p'' ''```sql\<newline>\<newline>```'' demo_world_ready = (Inr x, w')"
    by (simp add: save_answer_def randomUUID_def insertSavedQuery_ok demo_world_ready_def ex serial_max_def
        demo_services_def show_nat_small pg_checks)
  then have "x = ''```sql\<newline>\<newline>```''" using save_answer_empty_block [OF ex] by blast
  with eq show ?thesis by blast
qed

lemma generatePrompt_missing_query_witness:
  "fst (generatePrompt demo_services example_env (JObj [(''tableName1'', JStr ''sales'')]) demo_world)
     = Inr ''Please provide a query''"
  using generatePrompt_missing_query [of demo_world "[(''tableName1'', JStr ''sales'')]" demo_services example_env]
  by (simp add: demo_world_def pg_init_def js_truthy_opt_def)

lemma generatePrompt_llm_failure_witness:
  "fst (generatePrompt (demo_services\<lparr>chat := (\<lambda>k p. Inl ())\<rparr>) example_env
          (JObj [(''query'', JStr ''total''), (''tableName1'', JStr ''sales'')]) demo_world)
     = Inl (CustomError 500 ''Failed to get completion from OpenAI API'')"
  using generatePrompt_llm_failure [of demo_world "''total''" "''sales''" "demo_services\<lparr>chat := (\<lambda>k p. Inl ())\<rparr>"
      example_env "JStr ''id INT, amount DOUBLE''"]
  by (simp add: demo_world_def pg_init_def demo_services_def)

lemma prompt_ignores_object_schema_witness:
  "generatePrompt (demo_services\<lparr>table_post := (\<lambda>u t. Inr (JObj [(''id'', JStr ''INT'')]))\<rparr>) example_env
      (JObj [(''query'', JStr ''total''), (''tableName1'', JStr ''sales'')]) demo_world =
   generatePrompt (demo_services\<lparr>table_post := (\<lambda>u t. Inr (JObj []))\<rparr>) example_env
      (JObj [(''query'', JStr ''total''), (''tableName1'', JStr ''sales'')]) demo_world"
  using prompt_ignores_object_schema [of "demo_services\<lparr>table_post := (\<lambda>u t. Inr (JObj []))\<rparr>"
      "\<lambda>u t. Inr (JObj [(''id'', JStr ''INT'')])" example_env
      "JObj [(''query'', JStr ''total''), (''tableName1'', JStr ''sales'')]" demo_world]
  by simp

lemma generatePrompt_unconvertible_description_witness:
  "fst (generatePrompt (demo_services\<lparr>table_post := (\<lambda>u t. Inr (JObj [(''toString'', JNum 1)]))\<rparr>) example_env
          (JObj [(''query'', JStr ''total''), (''tableName1'', JStr ''sales'')]) demo_world)
     = Inl (CustomError 500 ''Cannot convert object to primitive value'')"
  using generatePrompt_unconvertible_description [of demo_world "''total''" "''sales''"
      "demo_services\<lparr>table_post := (\<lambda>u t. Inr (JObj [(''toString'', JNum 1)]))\<rparr>" example_env
      "[(''toString'', JNum 1)]"]
  by (simp add: demo_world_def pg_init_def)

lemma saveQuery_roundtrip_witness:
  "getSavedQueryById ''uuid-1'' (db (snd (saveQuery demo_services ''SELECT 1'' ''daily total'' demo_world_ready)))
     = Inr (Some ''SELECT 1'')"
proof -
  have eq: "saveQuery demo_services ''SELECT 1'' ''daily total'' demo_world_ready =
      (Inr (), snd (saveQuery demo_services ''SELECT 1'' ''daily total'' demo_world_ready))"
    by (simp add: saveQuery_def randomUUID_def insertSavedQuery_ok demo_world_ready_def serial_max_def
        demo_services_def show_nat_small pg_checks)
  have "uuid demo_services (Suc (uuid_count demo_world_ready)) = ''uuid-1''"
    by (simp add: demo_services_def demo_world_ready_def show_nat_small)
  moreover have "uuid demo_services (Suc (uuid_count demo_world_ready)) \<notin> dom (store_of \<lparr>rows = [], serial = 1\<rparr>)"
    by (simp add: store_of_def)
  ultimately show ?thesis
    using saveQuery_roundtrip [OF eq, of "\<lparr>rows = [], serial = 1\<rparr>"] by (simp add: demo_world_ready_def)
qed

end
