(* ===== verification/Http.thy ===== *)
theory Http
  imports Json
begin

text \<open>
  What the Express handlers send back, and the shared pieces of
  src/middleware/services/exception.service.ts and src/middleware/util/enum.ts.
  A response is \<^verbatim>\<open>res.status(c).json(v)\<close> (\<open>JsonResp c v\<close>; \<^verbatim>\<open>res.json\<close>
  alone is status 200), \<^verbatim>\<open>res.status(c).send(s)\<close> with a string
  (\<open>TextResp\<close>) or \<^verbatim>\<open>res.status(c).send()\<close> (\<open>EmptyResp\<close>).  A JSON body
  is the value after \<^verbatim>\<open>JSON.stringify\<close>: properties holding
  \<^verbatim>\<open>undefined\<close> are left out, and a thrown error serialises to its own
  enumerable properties only -- \<^verbatim>\<open>message\<close> is not one of them.
\<close>

datatype response = JsonResp nat jval | TextResp nat string | EmptyResp nat

text \<open>\<^verbatim>\<open>STATUS_MESSAGE\<close> (enum.ts lines 1--5).\<close>

datatype status_message = SUCCESS | FAIL | ERROR

fun status_text :: "status_message \<Rightarrow> string" where
  "status_text SUCCESS = ''success''"
| "status_text FAIL = ''fail''"
| "status_text ERROR = ''error''"

text \<open>\<^verbatim>\<open>STATUS_CODES\<close> (enum.ts lines 7--12), a numeric enum.  No
  source file imports it: the controllers write their status codes as
  literals or take them from axios' \<^verbatim>\<open>HttpStatusCode\<close>.\<close>

datatype status_codes = NOT_FOUND | INTERNAL_SERVER_ERROR | BAD_REQUEST | UNAUTHORIZED

fun status_code_value :: "status_codes \<Rightarrow> nat" where
  "status_code_value NOT_FOUND = 404"
| "status_code_value INTERNAL_SERVER_ERROR = 500"
| "status_code_value BAD_REQUEST = 400"
| "status_code_value UNAUTHORIZED = 401"

text \<open>
  \<^verbatim>\<open>JSON.stringify\<close> of a thrown value.  A \<^verbatim>\<open>CustomError\<close> carries the
  enumerable fields its constructor assigns, \<^verbatim>\<open>code\<close> and \<^verbatim>\<open>status\<close>
  (the latter \<^verbatim>\<open>undefined\<close> for every caller, hence dropped); a plain
  \<^verbatim>\<open>Error\<close> or \<^verbatim>\<open>TypeError\<close> has none.
\<close>

fun error_json :: "js_error \<Rightarrow> jval" where
  "error_json (CustomError c m) = JObj [(''code'', JNum (int c))]"
| "error_json (Error m) = JObj []"
| "error_json (TypeError m) = JObj []"

text \<open>
  \<^verbatim>\<open>${err}\<close> of a thrown error: \<^verbatim>\<open>Error.prototype.toString\<close>, the
  name, a colon and the message.  \<^verbatim>\<open>CustomError\<close> does not set a
  name of its own, so it renders as \<^verbatim>\<open>Error: ...\<close>.
\<close>

fun error_string :: "js_error \<Rightarrow> string" where
  "error_string (Error m) = ''Error: '' @ m"
| "error_string (TypeError m) = ''TypeError: '' @ m"
| "error_string (CustomError c m) = ''Error: '' @ m"

text \<open>
  \<^verbatim>\<open>globalErrorHandler\<close> (exception.service.ts lines 12--26): the status is
  \<^verbatim>\<open>err.code || 500\<close>, the body the status text (\<^verbatim>\<open>err.status ||
  "error"\<close>) and the message.
\<close>

fun error_code :: "js_error \<Rightarrow> nat" where
  "error_code (CustomError c m) = (if c = 0 then 500 else c)"
| "error_code _ = 500"

definition globalErrorHandler :: "js_error \<Rightarrow> response" where
  "globalErrorHandler err =
     JsonResp (error_code err)
       (JObj [(''status'', JStr (status_text ERROR)), (''message'', JStr (message_of err))])"

end
