(* ===== verification/Controllers.thy ===== *)
theory Controllers
  imports Prompt Http
begin

text \<open>
  The HTTP layer: the handlers of src/middleware/controller/queryController.ts
  and src/middleware/controller/response.controller.ts, the
  \<^verbatim>\<open>ResponseService\<close> they call (src/middleware/services/response.service.ts);
  the routes of src/middleware/index.ts are in Router.  A handler maps the request's
  parts to a \<open>response\<close> (and, for the handlers that write, a new
  \<open>world\<close>).  The query-controller handlers catch every error and answer
  500 with the error object serialised by \<^verbatim>\<open>res.json\<close>; the response
  controller passes errors to \<^verbatim>\<open>globalErrorHandler\<close>.

  Query-string parameters are \<open>string option\<close> (absent is \<open>None\<close>, which
  the services render as \<^verbatim>\<open>undefined\<close>); repeated parameters, which Express
  parses into arrays, are not modelled.  \<^verbatim>\<open>node-postgres\<close> converts a bound
  JavaScript value to text (\<open>pg_prepare\<close>); the data manager's execute
  endpoint is an oracle on the request text.
\<close>

section \<open>Responses of the query controller\<close>

definition success_json :: "jval \<Rightarrow> response" where
  "success_json data = JsonResp 200 (JObj [(''status'', JStr (status_text SUCCESS)), (''data'', data)])"

definition fail_json :: "js_error \<Rightarrow> response" where
  "fail_json err = JsonResp 500 (JObj [(''status'', JStr (status_text FAIL)), (''message'', error_json err)])"

text \<open>\<^verbatim>\<open>{status, data: {type, data}, chart: {}}\<close> of the report handlers.\<close>

definition typed_json :: "string \<Rightarrow> string \<Rightarrow> jval \<Rightarrow> response" where
  "typed_json chart_key tag data =
     JsonResp 200 (JObj [(''status'', JStr (status_text SUCCESS)),
                         (''data'', JObj [(''type'', JStr tag), (''data'', data)]),
                         (chart_key, JObj [])])"

text \<open>\<^verbatim>\<open>{status, data: {}, chart: {chartType, data}}\<close> of the chart handlers.\<close>

definition chart_json :: "string \<Rightarrow> jval \<Rightarrow> response" where
  "chart_json kind data =
     JsonResp 200 (JObj [(''status'', JStr (status_text SUCCESS)), (''data'', JObj []),
                         (''chart'', JObj [(''chartType'', JStr kind), (''data'', data)])])"

definition respond :: "(jval \<Rightarrow> response) \<Rightarrow> jval result \<Rightarrow> response" where
  "respond ok r = (case r of Inl e \<Rightarrow> fail_json e | Inr d \<Rightarrow> ok d)"

section \<open>queryController.ts\<close>

text \<open>Lines 11--32 (the handler is exported but not routed).\<close>

definition buildSQLQuery :: "env \<Rightarrow> http_post \<Rightarrow> jval \<Rightarrow> string option \<Rightarrow> response" where
  "buildSQLQuery env post body tableName =
     respond success_json (queryData env post body (env_text tableName))"

text \<open>Lines 34--270: the report handlers.\<close>

definition getUniqueCounts :: "env \<Rightarrow> http_post \<Rightarrow> response" where
  "getUniqueCounts env post = respond success_json (queryUniqueCounts env post)"

definition getSessionBrokeByMonth :: "env \<Rightarrow> http_post \<Rightarrow> response" where
  "getSessionBrokeByMonth env post =
     respond (typed_json ''chart'' ''sessionBrokenDownByMonth'') (querySessionBrokenDownByMonth env post)"

definition getSessionBrokeByDay :: "env \<Rightarrow> http_post \<Rightarrow> response" where
  "getSessionBrokeByDay env post =
     respond (typed_json ''chart'' ''sessionBrokenDownByDay'') (querySessionBrokenDownByDay env post)"

definition getAdStatsByTime :: "env \<Rightarrow> http_post \<Rightarrow> string option \<Rightarrow> string option \<Rightarrow> response" where
  "getAdStatsByTime env post startDate endDate =
     respond (typed_json ''chart'' ''adStats'')
       (queryGetAdStatsByTime env post (env_text startDate) (env_text endDate))"

definition getImpressionStatsByTime ::
  "env \<Rightarrow> http_post \<Rightarrow> string option \<Rightarrow> string option \<Rightarrow> string option \<Rightarrow> response" where
  "getImpressionStatsByTime env post tableName startDate endDate =
     respond (typed_json ''charts'' ''impression'')
       (queryGetImpressionStatsByTime env post (env_text tableName) (env_text startDate) (env_text endDate))"

definition getTotalRAO :: "env \<Rightarrow> http_post \<Rightarrow> string option \<Rightarrow> string option \<Rightarrow> response" where
  "getTotalRAO env post startDate endDate =
     respond (typed_json ''chart'' ''RAO'') (queryGetTotalRAO env post (env_text startDate) (env_text endDate))"

definition getCPC :: "env \<Rightarrow> http_post \<Rightarrow> string option \<Rightarrow> string option \<Rightarrow> response" where
  "getCPC env post startDate endDate =
     respond (typed_json ''chart'' ''CPC'') (queryGetCPC env post (env_text startDate) (env_text endDate))"

definition getDonutChart :: "env \<Rightarrow> http_post \<Rightarrow> response" where
  "getDonutChart env post = respond (chart_json ''donut'') (queryDonutChart env post)"

definition getPieChart :: "env \<Rightarrow> http_post \<Rightarrow> string option \<Rightarrow> string option \<Rightarrow> response" where
  "getPieChart env post startDate endDate =
     respond (chart_json ''pie'') (queryGetPieChart env post (env_text startDate) (env_text endDate))"

text \<open>
  Lines 272--288: \<^verbatim>\<open>createTable()\<close> (a second time inside the service),
  then the prompt; the answer string is the \<^verbatim>\<open>data\<close>.
\<close>

definition generatePrompt_handler :: "services \<Rightarrow> env \<Rightarrow> jval \<Rightarrow> world \<Rightarrow> response \<times> world" where
  "generatePrompt_handler srv env body w =
     (case createTable (db w) of
        (Inl e, s) \<Rightarrow> (fail_json e, w\<lparr>db := s\<rparr>)
      | (Inr u, s) \<Rightarrow>
          (case generatePrompt srv env body (w\<lparr>db := s\<rparr>) of
             (Inl e, w') \<Rightarrow> (fail_json e, w')
           | (Inr x, w') \<Rightarrow> (success_json (JStr x), w')))"

text \<open>
  The text \<^verbatim>\<open>node-postgres\<close> binds for a JavaScript value
  (\<^verbatim>\<open>prepareValue\<close>): \<^verbatim>\<open>null\<close> is SQL \<^verbatim>\<open>NULL\<close>, an object its JSON
  text, an array a Postgres array literal whose elements are double-quoted
  with backslash escapes, anything else its \<^verbatim>\<open>toString()\<close>.
\<close>

definition pg_escape_element :: "string \<Rightarrow> string" where
  "pg_escape_element s =
     dquote # concat (map (\<lambda>c. if c = bslash \<or> c = dquote then [bslash, c] else [c]) s) @ [dquote]"

fun pg_array_elem :: "jval \<Rightarrow> string" where
  "pg_array_elem JNull = ''NULL''"
| "pg_array_elem (JArr xs) = ''{'' @ join '','' (map pg_array_elem xs) @ ''}''"
| "pg_array_elem (JObj kvs) = pg_escape_element (json_stringify (JObj kvs))"
| "pg_array_elem (JStr s) = pg_escape_element s"
| "pg_array_elem (JNum n) = pg_escape_element (show_int n)"
| "pg_array_elem (JBool b) = pg_escape_element (if b then ''true'' else ''false'')"

fun pg_prepare :: "jval \<Rightarrow> string option" where
  "pg_prepare JNull = None"
| "pg_prepare (JArr xs) = Some (pg_array_elem (JArr xs))"
| "pg_prepare (JObj kvs) = Some (json_stringify (JObj kvs))"
| "pg_prepare (JStr s) = Some s"
| "pg_prepare (JNum n) = Some (show_int n)"
| "pg_prepare (JBool b) = Some (if b then ''true'' else ''false'')"

text \<open>
  \<^verbatim>\<open>QueryService.saveQuery\<close> (query.service.ts lines 315--323) on the
  values the controller passes: the log line \<^verbatim>\<open>`Saving query ${query}`\<close>
  (line 317) converts the query inside the \<^verbatim>\<open>try\<close>, whose
  \<^verbatim>\<open>catch\<close> turns the exception into \<^verbatim>\<open>CustomError(500,
  error.message)\<close>; then the insertion under two UUIDs (\<open>saveQuery\<close>),
  whose parameters node-postgres binds with \<open>pg_prepare\<close>.  The
  controller passes truthy values only, hence not \<^verbatim>\<open>null\<close>, so
  \<open>pg_prepare\<close> yields their text.
\<close>

definition saveQuery_service :: "services \<Rightarrow> jval \<Rightarrow> jval \<Rightarrow> world \<Rightarrow> unit result \<times> world" where
  "saveQuery_service srv query query_name w =
     (case js_string query of
        Inl e \<Rightarrow> (Inl (CustomError 500 (message_of e)), w)
      | Inr _ \<Rightarrow> saveQuery srv (the (pg_prepare query)) (the (pg_prepare query_name)) w)"

text \<open>
  Lines 290--316.  In the saving branch the controller first logs
  \<^verbatim>\<open>logger.info("Saving query", req.body.query)\<close> (line 293), which
  throws only through the logger's message rule (\<open>log_check\<close>), then
  creates the table and calls the service.  The service returns
  \<^verbatim>\<open>undefined\<close>, which \<^verbatim>\<open>res.json\<close> leaves out of the body.
\<close>

definition saveQuery_handler :: "services \<Rightarrow> jval \<Rightarrow> world \<Rightarrow> response \<times> world" where
  "saveQuery_handler srv body w =
     (case rbind (js_get body ''query'') (\<lambda>q. rbind (js_get body ''query_name'') (\<lambda>n. Inr (q, n))) of
        Inl e \<Rightarrow> (fail_json e, w)
      | Inr (q, n) \<Rightarrow>
          if js_truthy_opt q \<and> js_truthy_opt n then
            (case log_check ''Saving query'' [MetaValue (the q)] of
               Inl e \<Rightarrow> (fail_json e, w)
             | Inr _ \<Rightarrow>
                 (case createTable (db w) of
                    (Inl e, s) \<Rightarrow> (fail_json e, w\<lparr>db := s\<rparr>)
                  | (Inr u, s) \<Rightarrow>
                      (case saveQuery_service srv (the q) (the n) (w\<lparr>db := s\<rparr>) of
                         (Inl e, w') \<Rightarrow> (fail_json e, w')
                       | (Inr u', w') \<Rightarrow> (JsonResp 200 (JObj [(''status'', JStr (status_text SUCCESS))]), w'))))
          else (JsonResp 400 (JObj [(''status'', JStr (status_text FAIL)), (''message'', JStr ''No query provided'')]), w))"

section \<open>ResponseService and response.controller.ts\<close>

text \<open>
  \<^verbatim>\<open>axios.request\<close> to the execute endpoint with a request text; a
  rejection carries \<^verbatim>\<open>${error}\<close> of the axios error.
\<close>

type_synonym http_exec = "string option \<Rightarrow> string \<Rightarrow> string + jval"

text \<open>\<^verbatim>\<open>ResponseService.getAll\<close> (response.service.ts lines 9--19).\<close>

definition getAll :: "pg_state \<Rightarrow> (string \<times> string) list result" where
  "getAll s =
     (case getSavedQueries s of
        Inl e \<Rightarrow> Inl (CustomError 500 (''Error getting all data '' @ error_string e))
      | Inr d \<Rightarrow> Inr d)"

text \<open>
  \<^verbatim>\<open>ResponseService.executeById\<close> (lines 20--58): the saved text (or
  \<^verbatim>\<open>null\<close>) is posted as \<^verbatim>\<open>JSON.stringify({query})\<close>; the axios error
  becomes a \<^verbatim>\<open>CustomError\<close> that the outer \<^verbatim>\<open>catch\<close> wraps again, as
  it wraps a failing read.
\<close>

definition executeById :: "http_exec \<Rightarrow> env \<Rightarrow> string \<Rightarrow> pg_state \<Rightarrow> jval result" where
  "executeById exec env pid s =
     (let wrap = (\<lambda>err. CustomError 500 (''Error executing by id '' @ error_string err @ '' '')) in
      case getSavedQueryById pid s of
        Inl e \<Rightarrow> Inl (wrap e)
      | Inr resp \<Rightarrow>
          (let data = json_stringify (JObj [(''query'', case resp of None \<Rightarrow> JNull | Some q \<Rightarrow> JStr q)]) in
           case exec (dm_execute_endpoint env) data of
             Inl m \<Rightarrow> Inl (wrap (CustomError 500 (''Axios error '' @ m)))
           | Inr d \<Rightarrow> Inr d))"

text \<open>
  The handlers of response.controller.ts (lines 8--35): \<^verbatim>\<open>status\<close> is the
  number 200 here; errors go to \<^verbatim>\<open>globalErrorHandler\<close>.
\<close>

definition row_json :: "string \<times> string \<Rightarrow> jval" where
  "row_json r = JObj [(''prompt_id'', JStr (fst r)), (''prompt'', JStr (snd r))]"

definition getAllData :: "pg_state \<Rightarrow> response" where
  "getAllData s =
     (case getAll s of
        Inl e \<Rightarrow> globalErrorHandler e
      | Inr d \<Rightarrow> JsonResp 200 (JObj [(''status'', JNum 200), (''data'', JArr (map row_json d))]))"

definition executeById_handler :: "http_exec \<Rightarrow> env \<Rightarrow> string \<Rightarrow> pg_state \<Rightarrow> response" where
  "executeById_handler exec env pid s =
     (case executeById exec env pid s of
        Inl e \<Rightarrow> globalErrorHandler e
      | Inr d \<Rightarrow> JsonResp 200 (JObj [(''status'', JNum 200), (''data'', d)]))"

section \<open>Properties of the HTTP layer\<close>

text \<open>
  C23 (error).  When the data manager rejects a report query, the handler answers
  500 with the body \<^verbatim>\<open>{"status":"fail","message":{"code":500}}\<close>: the
  error's message is not an own enumerable property, so the client never
  sees it.
\<close>

lemma getUniqueCounts_error_body:
  assumes "post (dm_query_endpoint env) (JObj [(''query'', JStr (unique_counts_sql env))]) = Inl m"
  shows "getUniqueCounts env post =
           JsonResp 500 (JObj [(''status'', JStr ''fail''), (''message'', JObj [(''code'', JNum 500)])])"
  using assms
  by (simp add: getUniqueCounts_def queryUniqueCounts_def run_query_def respond_def fail_json_def)

text \<open>
  \<^verbatim>\<open>POST /save-query\<close> with a falsy or missing \<^verbatim>\<open>query\<close>
  answers 400 \<^verbatim>\<open>No query provided\<close> and changes nothing.
\<close>

lemma saveQuery_handler_missing:
  assumes "\<not> js_truthy_opt (map_of kvs ''query'')"
  shows "saveQuery_handler srv (JObj kvs) w =
           (JsonResp 400 (JObj [(''status'', JStr ''fail''), (''message'', JStr ''No query provided'')]), w)"
  using assms by (simp add: saveQuery_handler_def js_simps)

text \<open>
  C28 (functional).  For a prompt id with no saved query, \<^verbatim>\<open>executeById\<close> still
  posts \<^verbatim>\<open>{"query":null}\<close> to the execute endpoint instead of answering
  404; its failure is reported with the nested message \<^verbatim>\<open>Error executing by
  id Error: Axios error ...\<close>.
\<close>

lemma executeById_unknown_id:
  assumes "getSavedQueryById pid s = Inr None"
  shows "executeById exec env pid s =
     (case exec (dm_execute_endpoint env) (''{'' @ [dquote] @ ''query'' @ [dquote] @ '':null}'') of
        Inl m \<Rightarrow> Inl (CustomError 500 (''Error executing by id Error: Axios error '' @ m @ '' ''))
      | Inr d \<Rightarrow> Inr d)"
  using assms by (simp add: executeById_def json_quote_def json_escape_char_def split: sum.splits)

section \<open>Witnesses\<close>

lemma getUniqueCounts_error_body_witness:
  "getUniqueCounts example_env (\<lambda>u b. Inl ''connect ECONNREFUSED'') =
     JsonResp 500 (JObj [(''status'', JStr ''fail''), (''message'', JObj [(''code'', JNum 500)])])"
  using getUniqueCounts_error_body [of "\<lambda>u b. Inl ''connect ECONNREFUSED''" example_env] by simp

lemma saveQuery_handler_missing_witness:
  "saveQuery_handler demo_services (JObj [(''query_name'', JStr ''daily'')]) demo_world =
     (JsonResp 400 (JObj [(''status'', JStr ''fail''), (''message'', JStr ''No query provided'')]), demo_world)"
  using saveQuery_handler_missing [of "[(''query_name'', JStr ''daily'')]"] by (simp add: js_truthy_opt_def)

lemma executeById_unknown_id_witness:
  "executeById (\<lambda>u b. Inr (JStr b)) example_env ''nope'' \<lparr>table = Some \<lparr>rows = [], serial = 1\<rparr>, conn_error = None\<rparr> =
     Inr (JStr (''{'' @ [dquote] @ ''query'' @ [dquote] @ '':null}''))"
proof -
  have "getSavedQueryById ''nope'' \<lparr>table = Some \<lparr>rows = [], serial = 1\<rparr>, conn_error = None\<rparr> = Inr None"
    by (simp add: getSavedQueryById_def pg_checks)
  from executeById_unknown_id [OF this, of "\<lambda>u b. Inr (JStr b)" example_env] show ?thesis by simp
qed

end
