(* ===== verification/Router.thy ===== *)
theory Router
  imports Controllers
begin

text \<open>
  The server of src/middleware/index.ts: the routes registered with
  \<^verbatim>\<open>app.get\<close>/\<^verbatim>\<open>app.post\<close>, the switch on \<^verbatim>\<open>query.type\<close> of
  \<^verbatim>\<open>GET /\<close>, and the whole application \<open>app\<close> as a function from a
  request and the world to the response and the new world.  The runs of the
  server are the inductive \<open>app_reachable\<close>: any sequence of requests (each
  with any environment and any answers of the data manager), interleaved
  with the database going down and coming back.  The invariant
  \<open>world_inv\<close> says that the saved rows carry prompt ids drawn from the
  UUID supply in increasing order, all drawn before the current count.
\<close>

section \<open>Routes (index.ts)\<close>

datatype http_method = GET | POST

record http_req =
  req_method :: http_method
  req_path :: "string list"
  req_query :: "string \<Rightarrow> string option"
  req_body :: jval

text \<open>The handlers the two controllers export.\<close>

datatype endpoint =
    BuildSQLQuery | GetUniqueCounts | GetSessionBrokeByMonth | GetSessionBrokeByDay
  | GetAdStatsByTime | GetImpressionStatsByTime | GetTotalRAO | GetCPC | GetDonutChart
  | GetPieChart | GeneratePrompt | SaveQuery | GetAllData | ExecuteById | HelloWorld

text \<open>The \<^verbatim>\<open>switch (query.type)\<close> of the \<^verbatim>\<open>GET /\<close> handler (lines 32--55).\<close>

definition root_type :: "string option \<Rightarrow> endpoint" where
  "root_type t =
     (if t = Some ''unique-counts'' then GetUniqueCounts
      else if t = Some ''session-broken-down-by-month'' then GetSessionBrokeByMonth
      else if t = Some ''session-broken-down-by-day'' then GetSessionBrokeByDay
      else if t = Some ''ad-stats-by-time'' then GetAdStatsByTime
      else if t = Some ''impression-stats-by-time'' then GetImpressionStatsByTime
      else if t = Some ''total-RAO'' then GetTotalRAO
      else if t = Some ''cpc-rate'' then GetCPC
      else if t = Some ''donut-chart'' then GetDonutChart
      else if t = Some ''pie-chart'' then GetPieChart
      else HelloWorld)"

text \<open>
  The routes registered with \<^verbatim>\<open>app.get\<close> and \<^verbatim>\<open>app.post\<close> (lines
  29--60), on the decoded path segments; \<^verbatim>\<open>:id\<close> matches one non-empty
  segment.  No other request has a handler.
\<close>

definition route :: "http_req \<Rightarrow> endpoint option" where
  "route r =
     (let m = req_method r; p = req_path r in
      if m = GET \<and> p = [] then Some (root_type (req_query r ''type''))
      else if m = GET \<and> p = [''getPrompts''] then Some GetAllData
      else if m = GET \<and> length p = 2 \<and> hd p = ''execute'' \<and> p ! 1 \<noteq> [] then Some ExecuteById
      else if m = POST \<and> p = [''save-query''] then Some SaveQuery
      else if m = POST \<and> p = [''completion''] then Some GeneratePrompt
      else None)"

text \<open>Running the handler of an endpoint on a request.\<close>

definition dispatch ::
  "services \<Rightarrow> env \<Rightarrow> http_post \<Rightarrow> http_exec \<Rightarrow> http_req \<Rightarrow> world \<Rightarrow> endpoint \<Rightarrow> response \<times> world" where
  "dispatch srv env post exec r w ep =
     (let q = req_query r in
      case ep of
        BuildSQLQuery \<Rightarrow> (buildSQLQuery env post (req_body r) (q ''tableName''), w)
      | GetUniqueCounts \<Rightarrow> (getUniqueCounts env post, w)
      | GetSessionBrokeByMonth \<Rightarrow> (getSessionBrokeByMonth env post, w)
      | GetSessionBrokeByDay \<Rightarrow> (getSessionBrokeByDay env post, w)
      | GetAdStatsByTime \<Rightarrow> (getAdStatsByTime env post (q ''startDate'') (q ''endDate''), w)
      | GetImpressionStatsByTime \<Rightarrow>
          (getImpressionStatsByTime env post (q ''tableName'') (q ''startDate'') (q ''endDate''), w)
      | GetTotalRAO \<Rightarrow> (getTotalRAO env post (q ''startDate'') (q ''endDate''), w)
      | GetCPC \<Rightarrow> (getCPC env post (q ''startDate'') (q ''endDate''), w)
      | GetDonutChart \<Rightarrow> (getDonutChart env post, w)
      | GetPieChart \<Rightarrow> (getPieChart env post (q ''startDate'') (q ''endDate''), w)
      | GeneratePrompt \<Rightarrow> generatePrompt_handler srv env (req_body r) w
      | SaveQuery \<Rightarrow> saveQuery_handler srv (req_body r) w
      | GetAllData \<Rightarrow> (getAllData (db w), w)
      | ExecuteById \<Rightarrow> (executeById_handler exec env (req_path r ! 1) (db w), w)
      | HelloWorld \<Rightarrow> (TextResp 200 ''Hello, World!'', w))"

text \<open>The server: \<open>None\<close> for a request no route matches (Express's final handler).\<close>

definition app ::
  "services \<Rightarrow> env \<Rightarrow> http_post \<Rightarrow> http_exec \<Rightarrow> http_req \<Rightarrow> world \<Rightarrow> (response \<times> world) option" where
  "app srv env post exec r w = map_option (dispatch srv env post exec r w) (route r)"

section \<open>Runs of the server\<close>

text \<open>
  How a request may change the world: the table is created, or one row is
  inserted under the next two UUIDs (customer id first, prompt id second)
  and the count of drawn UUIDs advances by two.
\<close>

inductive world_step :: "(nat \<Rightarrow> string) \<Rightarrow> world \<Rightarrow> world \<Rightarrow> bool" for u where
  create: "world_step u w (w\<lparr>db := snd (createTable (db w))\<rparr>)"
| save: "insertSavedQuery (u (uuid_count w)) (u (Suc (uuid_count w))) q pr (db w) = (y, s) \<Longrightarrow>
         world_step u w (w\<lparr>db := s, uuid_count := Suc (Suc (uuid_count w))\<rparr>)"

text \<open>
  The runs: any request to the server (with any environment, data manager
  and chat model, and the fixed UUID supply \<open>u\<close>), and the database going
  down or coming back.
\<close>

inductive app_reachable :: "(nat \<Rightarrow> string) \<Rightarrow> world \<Rightarrow> bool" for u where
  init: "app_reachable u \<lparr>db = pg_init, uuid_count = 0\<rparr>"
| request: "app_reachable u w \<Longrightarrow> uuid srv = u \<Longrightarrow> app srv env post exec r w = Some (resp, w') \<Longrightarrow>
            app_reachable u w'"
| conn_down: "app_reachable u w \<Longrightarrow> app_reachable u (w\<lparr>db := (db w)\<lparr>conn_error := Some e\<rparr>\<rparr>)"
| conn_up: "app_reachable u w \<Longrightarrow> app_reachable u (w\<lparr>db := (db w)\<lparr>conn_error := None\<rparr>\<rparr>)"

definition uuid_inv :: "(nat \<Rightarrow> string) \<Rightarrow> nat \<Rightarrow> saved_row list \<Rightarrow> bool" where
  "uuid_inv u n rs \<longleftrightarrow>
     (\<exists>ks. map row_prompt_id rs = map u ks \<and> sorted_wrt (<) ks \<and> (\<forall>k \<in> set ks. k < n))"

definition world_inv :: "(nat \<Rightarrow> string) \<Rightarrow> world \<Rightarrow> bool" where
  "world_inv u w \<longleftrightarrow>
     pg_inv (db w) \<and> (case table (db w) of None \<Rightarrow> True | Some t \<Rightarrow> uuid_inv u (uuid_count w) (rows t))"

section \<open>Properties of the routes\<close>

lemma route_save: "route \<lparr>req_method = POST, req_path = [''save-query''], req_query = qp, req_body = b\<rparr> = Some SaveQuery"
  by (simp add: route_def)


lemma route_execute:
  "pid \<noteq> [] \<Longrightarrow> route \<lparr>req_method = GET, req_path = [''execute'', pid], req_query = qp, req_body = b\<rparr> = Some ExecuteById"
  by (simp add: route_def)


text \<open>
  C21 (safety).  No request reaches \<^verbatim>\<open>buildSQLQuery\<close>: the router of index.ts
  registers no route for it, so the filter compiler is unreachable over
  HTTP.
\<close>

lemma buildSQLQuery_not_routed: "route r \<noteq> Some BuildSQLQuery"
  by (simp add: route_def root_type_def Let_def)


section \<open>The invariant of the runs\<close>

lemma uuid_inv_mono: "uuid_inv u n rs \<Longrightarrow> n \<le> m \<Longrightarrow> uuid_inv u m rs"
  unfolding uuid_inv_def by force

lemma uuid_inv_snoc:
  assumes "uuid_inv u n rs" and "n \<le> k" and "k < m" and "row_prompt_id r = u k"
  shows "uuid_inv u m (rs @ [r])"
proof -
  from assms(1) obtain ks where ks: "map row_prompt_id rs = map u ks" "sorted_wrt (<) ks" "\<forall>k \<in> set ks. k < n"
    by (auto simp: uuid_inv_def)
  have "map row_prompt_id (rs @ [r]) = map u (ks @ [k])" using ks(1) assms(4) by simp
  moreover have "sorted_wrt (<) (ks @ [k])" using ks(2,3) assms(2) by (auto simp: sorted_wrt_append)
  moreover have "\<forall>k' \<in> set (ks @ [k]). k' < m" using ks(3) assms(2,3) by auto
  ultimately show ?thesis unfolding uuid_inv_def by blast
qed

lemma world_step_inv: "world_step u w w' \<Longrightarrow> world_inv u w \<Longrightarrow> world_inv u w'"
proof (induction rule: world_step.induct)
  case (create w)
  have "pg_inv (snd (createTable (db w)))"
    using create pg_step_inv [OF pg_step.create] by (simp add: world_inv_def)
  with create show ?case
    by (auto simp: world_inv_def createTable_def uuid_inv_def split: option.splits)
next
  case (save w q pr y s)
  have "pg_inv (snd (insertSavedQuery (u (uuid_count w)) (u (Suc (uuid_count w))) q pr (db w)))"
    using save.prems pg_step_inv [OF pg_step.insert] by (simp add: world_inv_def)
  then have pg: "pg_inv s" using save.hyps by simp
  from insertSavedQuery_cases [OF save.hyps] show ?case
  proof (elim disjE)
    assume "s = db w \<and> (\<exists>e. y = Inl e)"
    with save.prems show ?thesis
      by (auto simp: world_inv_def intro: uuid_inv_mono split: option.splits)
  next
    assume "\<exists>t. table (db w) = Some t \<and> serial t \<le> serial_max \<and> (\<exists>e. y = Inl e) \<and>
        s = (db w)\<lparr>table := Some (t\<lparr>serial := Suc (serial t)\<rparr>)\<rparr>"
    then obtain t where t: "table (db w) = Some t" and s: "table s = Some (t\<lparr>serial := Suc (serial t)\<rparr>)"
      by auto
    from save.prems t have "uuid_inv u (uuid_count w) (rows t)" by (simp add: world_inv_def)
    then have "uuid_inv u (Suc (Suc (uuid_count w))) (rows t)" by (rule uuid_inv_mono) simp
    with pg s show ?thesis by (simp add: world_inv_def)
  next
    assume "\<exists>t. conn_error (db w) = None \<and> table (db w) = Some t \<and> serial t \<le> serial_max \<and>
        insert_args_ok (u (uuid_count w)) (u (Suc (uuid_count w))) q pr \<and>
        y = Inr \<lparr>row_id = serial t, row_customer_id = u (uuid_count w), row_prompt_id = u (Suc (uuid_count w)),
                 row_query_text = q, row_prompt = pr\<rparr> \<and>
        s = (db w)\<lparr>table := Some \<lparr>rows = rows t @ [\<lparr>row_id = serial t, row_customer_id = u (uuid_count w),
                 row_prompt_id = u (Suc (uuid_count w)), row_query_text = q, row_prompt = pr\<rparr>],
                 serial = Suc (serial t)\<rparr>\<rparr>"
    then obtain t where t: "table (db w) = Some t"
      and s: "table s = Some \<lparr>rows = rows t @ [\<lparr>row_id = serial t, row_customer_id = u (uuid_count w),
                 row_prompt_id = u (Suc (uuid_count w)), row_query_text = q, row_prompt = pr\<rparr>],
                 serial = Suc (serial t)\<rparr>"
      by auto
    from save.prems t have "uuid_inv u (uuid_count w) (rows t)" by (simp add: world_inv_def)
    then have "uuid_inv u (Suc (Suc (uuid_count w))) (rows t @ [\<lparr>row_id = serial t, row_customer_id = u (uuid_count w),
                 row_prompt_id = u (Suc (uuid_count w)), row_query_text = q, row_prompt = pr\<rparr>])"
      by (rule uuid_inv_snoc) simp_all
    with pg s show ?thesis by (simp add: world_inv_def)
  qed
qed

lemma world_steps_inv: "(world_step u)\<^sup>*\<^sup>* w w' \<Longrightarrow> world_inv u w \<Longrightarrow> world_inv u w'"
  by (induction rule: rtranclp_induct) (auto intro: world_step_inv)

lemma createTable_step: "createTable (db w) = (x, s) \<Longrightarrow> world_step u w (w\<lparr>db := s\<rparr>)"
  using world_step.create [of u w] by simp

lemma world_step_saveI:
  "insertSavedQuery (u (uuid_count w)) (u (Suc (uuid_count w))) q pr (db w) = (y, s) \<Longrightarrow>
   w' = w\<lparr>db := s, uuid_count := Suc (Suc (uuid_count w))\<rparr> \<Longrightarrow> world_step u w w'"
  using world_step.save by blast

lemma save_answer_step:
  "save_answer srv f a w = (x, w') \<Longrightarrow> world_step (uuid srv) w w'"
  by (auto simp: save_answer_def randomUUID_def Let_def intro: world_step_saveI
      split: option.splits if_splits prod.splits sum.splits)

lemma saveQuery_step:
  "saveQuery srv q n w = (x, w') \<Longrightarrow> world_step (uuid srv) w w'"
  by (auto simp: saveQuery_def randomUUID_def intro: world_step_saveI split: prod.splits sum.splits)

lemma saveQuery_service_steps:
  "saveQuery_service srv q n w = (x, w') \<Longrightarrow> (world_step (uuid srv))\<^sup>*\<^sup>* w w'"
  by (auto simp: saveQuery_service_def split: sum.splits dest: saveQuery_step)

lemma generate_try_steps:
  "generate_try srv env body w = (x, w') \<Longrightarrow> (world_step (uuid srv))\<^sup>*\<^sup>* w w'"
  unfolding generate_try_def
  by (auto split: sum.splits option.splits prod.splits if_splits dest: save_answer_step)

lemma generatePrompt_steps:
  assumes "generatePrompt srv env body w = (x, w')"
  shows "(world_step (uuid srv))\<^sup>*\<^sup>* w w'"
proof (cases "createTable (db w)")
  case (Pair r s)
  then have step: "world_step (uuid srv) w (w\<lparr>db := s\<rparr>)" by (rule createTable_step)
  show ?thesis
  proof (cases r)
    case (Inl e)
    with assms Pair step show ?thesis by (auto simp: generatePrompt_def)
  next
    case (Inr u')
    obtain y w'' where gt: "generate_try srv env body (w\<lparr>db := s\<rparr>) = (y, w'')" by fastforce
    with assms Pair Inr have "w'' = w'" by (auto simp: generatePrompt_def split: sum.splits)
    with generate_try_steps [OF gt] step show ?thesis
      by (auto intro: converse_rtranclp_into_rtranclp)
  qed
qed

lemma generatePrompt_handler_steps:
  assumes "generatePrompt_handler srv env body w = (resp, w')"
  shows "(world_step (uuid srv))\<^sup>*\<^sup>* w w'"
proof (cases "createTable (db w)")
  case (Pair r s)
  then have step: "world_step (uuid srv) w (w\<lparr>db := s\<rparr>)" by (rule createTable_step)
  show ?thesis
  proof (cases r)
    case (Inl e)
    with assms Pair step show ?thesis by (auto simp: generatePrompt_handler_def)
  next
    case (Inr u')
    obtain y w'' where gp: "generatePrompt srv env body (w\<lparr>db := s\<rparr>) = (y, w'')" by fastforce
    with assms Pair Inr have "w'' = w'" by (auto simp: generatePrompt_handler_def split: sum.splits)
    with generatePrompt_steps [OF gp] step show ?thesis
      by (auto intro: converse_rtranclp_into_rtranclp)
  qed
qed

lemma saveQuery_handler_steps:
  assumes "saveQuery_handler srv body w = (resp, w')"
  shows "(world_step (uuid srv))\<^sup>*\<^sup>* w w'"
proof (cases "createTable (db w)")
  case (Pair r s)
  then have step: "world_step (uuid srv) w (w\<lparr>db := s\<rparr>)" by (rule createTable_step)
  have "(world_step (uuid srv))\<^sup>*\<^sup>* (w\<lparr>db := s\<rparr>) w'"
    if "saveQuery_service srv a b (w\<lparr>db := s\<rparr>) = (z, w')" for a b z
    using that by (rule saveQuery_service_steps)
  with assms Pair step show ?thesis
    by (auto simp: saveQuery_handler_def split: sum.splits prod.splits if_splits
        intro: converse_rtranclp_into_rtranclp)
qed

lemma app_steps:
  assumes "app srv env post exec r w = Some (resp, w')"
  shows "(world_step (uuid srv))\<^sup>*\<^sup>* w w'"
proof -
  from assms obtain ep where "dispatch srv env post exec r w ep = (resp, w')" by (auto simp: app_def)
  then show ?thesis
    by (cases ep) (auto simp: dispatch_def Let_def dest: generatePrompt_handler_steps saveQuery_handler_steps)
qed

lemma app_reachable_inv: "app_reachable u w \<Longrightarrow> world_inv u w"
proof (induction rule: app_reachable.induct)
  case init
  then show ?case by (simp add: world_inv_def pg_inv_def pg_init_def)
next
  case (request w srv env post exec r resp w')
  then show ?case using app_steps world_steps_inv by metis
qed (auto simp: world_inv_def pg_inv_def split: option.splits)

text \<open>
  C11 (invariant).  In every run of the server (any requests, any answers of
  the outside services, the database failing and recovering), the saved
  rows carry pairwise distinct prompt ids whenever the UUID supply never
  repeats a value: each insertion uses a UUID drawn after all earlier ones,
  so \<^verbatim>\<open>GET /execute/:id\<close> always names at most one saved query.
\<close>

theorem prompt_ids_unique:
  assumes "app_reachable u w" and "inj u" and "table (db w) = Some t"
  shows "distinct (map row_prompt_id (rows t))"
proof -
  from app_reachable_inv [OF assms(1)] assms(3) obtain ks where
    ks: "map row_prompt_id (rows t) = map u ks" "sorted_wrt (<) ks"
    by (auto simp: world_inv_def uuid_inv_def)
  from ks(2) have "distinct ks" by (simp add: strict_sorted_iff)
  with assms(2) ks(1) show ?thesis by (simp add: distinct_map inj_on_subset [OF assms(2)])
qed

lemma prompt_ids_unique_witness:
  "distinct (map row_prompt_id (rows \<lparr>rows = [\<lparr>row_id = 1, row_customer_id = ''x'', row_prompt_id = ''xx'',
     row_query_text = ''SELECT 1'', row_prompt = ''daily''\<rparr>], serial = 2\<rparr>))"
proof -
  define u where "u = (\<lambda>n::nat. replicate (Suc n) (CHR ''x''))"
  have inj: "inj u" unfolding u_def by (rule injI) (drule arg_cong [of _ _ length], simp)
  define w1 where "w1 = \<lparr>db = \<lparr>table = Some \<lparr>rows = [\<lparr>row_id = 1, row_customer_id = ''x'', row_prompt_id = ''xx'',
     row_query_text = ''SELECT 1'', row_prompt = ''daily''\<rparr>], serial = 2\<rparr>, conn_error = None\<rparr>, uuid_count = 2\<rparr>"
  have "app (demo_services\<lparr>uuid := u\<rparr>) example_env (\<lambda>a b. Inr JNull) (\<lambda>a b. Inr JNull)
          \<lparr>req_method = POST, req_path = [''save-query''], req_query = (\<lambda>k. None),
           req_body = JObj [(''query'', JStr ''SELECT 1''), (''query_name'', JStr ''daily'')]\<rparr>
          \<lparr>db = pg_init, uuid_count = 0\<rparr> = Some (JsonResp 200 (JObj [(''status'', JStr ''success'')]), w1)"
    by (simp add: app_def route_save dispatch_def saveQuery_handler_def js_simps js_truthy_opt_def
        createTable_def pg_init_def saveQuery_service_def saveQuery_def randomUUID_def insertSavedQuery_def
        serial_max_def Let_def log_check_def pg_checks u_def w1_def)
  then have "app_reachable u w1"
    by (intro app_reachable.request [OF app_reachable.init]) simp_all
  from prompt_ids_unique [OF this inj] show ?thesis by (simp add: w1_def)
qed

end
