(* ===== verification/ItemsApp.thy ===== *)
theory ItemsApp
  imports Http "HOL-Library.Multiset"
begin

text \<open>
  The item service of src/middleware/index.js: an Express app holding a
  module-level array \<^verbatim>\<open>items\<close> and five handlers (list, create, read,
  replace, delete), the last three looking an item up by
  \<^verbatim>\<open>i.id === parseInt(req.params.id)\<close>.

  The state is the array (a list of JSON values).  A request is a value of
  \<open>request\<close>; \<open>handle\<close> returns the response and the new array.  An
  exception inside a handler (a property read of \<^verbatim>\<open>null\<close>) is an \<open>Inl\<close>,
  which Express answers with status 500.  Request bodies come from
  \<^verbatim>\<open>express.json()\<close>, whose strict mode admits only objects and arrays as
  a body (and gives \<^verbatim>\<open>{}\<close> when there is none): \<open>is_container\<close>.

  \<open>parse_int\<close> is JavaScript's \<^verbatim>\<open>parseInt\<close> with no radix: leading
  white space, an optional sign, an optional \<^verbatim>\<open>0x\<close>/\<^verbatim>\<open>0X\<close> prefix
  selecting base 16, then the longest run of digits; no digit gives
  \<^verbatim>\<open>NaN\<close> (\<open>None\<close>), and the rest of the string is ignored.  White space
  is JavaScript's within the model's characters (tab, line feed, vertical
  tab, form feed, carriage return, space, no-break space U+00A0); numbers
  are unbounded integers (precision loss beyond 2^53 is not modelled).
\<close>

section \<open>parseInt\<close>

definition js_space :: "char \<Rightarrow> bool" where
  "js_space c \<longleftrightarrow> c \<in> set [CHR '' '', CHR 0x09, CHR 0x0A, CHR 0x0B, CHR 0x0C, CHR 0x0D, CHR 0xA0]"

definition digit_value :: "nat \<Rightarrow> char \<Rightarrow> nat option" where
  "digit_value radix c =
     (let n = of_char c :: nat in
      if 48 \<le> n \<and> n \<le> 57 then (if n - 48 < radix then Some (n - 48) else None)
      else if 97 \<le> n \<and> n \<le> 122 then (if n - 87 < radix then Some (n - 87) else None)
      else if 65 \<le> n \<and> n \<le> 90 then (if n - 55 < radix then Some (n - 55) else None)
      else None)"

fun digit_run :: "nat \<Rightarrow> string \<Rightarrow> nat list" where
  "digit_run radix [] = []"
| "digit_run radix (c # cs) =
     (case digit_value radix c of None \<Rightarrow> [] | Some d \<Rightarrow> d # digit_run radix cs)"

definition digits_to_nat :: "nat \<Rightarrow> nat list \<Rightarrow> nat" where
  "digits_to_nat radix ds = foldl (\<lambda>acc d. acc * radix + d) 0 ds"

text \<open>The optional sign after the white space.\<close>

definition parse_sign :: "string \<Rightarrow> int \<times> string" where
  "parse_sign s = (case s of
     c # r \<Rightarrow> if c = CHR ''-'' then (-1, r) else if c = CHR ''+'' then (1, r) else (1, s)
   | [] \<Rightarrow> (1, s))"

text \<open>The radix: 16 after a \<^verbatim>\<open>0x\<close> or \<^verbatim>\<open>0X\<close> prefix, else 10.\<close>

definition parse_radix :: "string \<Rightarrow> nat \<times> string" where
  "parse_radix s = (if take 2 s = ''0x'' \<or> take 2 s = ''0X'' then (16, drop 2 s) else (10, s))"

definition parse_int :: "string \<Rightarrow> int option" where
  "parse_int str =
     (let (sign, s2) = parse_sign (dropWhile js_space str);
          (radix, s3) = parse_radix s2;
          ds = digit_run radix s3
      in if ds = [] then None else Some (sign * int (digits_to_nat radix ds)))"

section \<open>The item store\<close>

fun is_container :: "jval \<Rightarrow> bool" where
  "is_container (JObj _) = True"
| "is_container (JArr _) = True"
| "is_container _ = False"

text \<open>\<^verbatim>\<open>i.id === n\<close> for \<open>n = parseInt(...)\<close>: only a number equal to it
  matches; \<^verbatim>\<open>NaN\<close> matches nothing.\<close>

definition id_matches :: "int option \<Rightarrow> jval \<Rightarrow> bool result" where
  "id_matches n i = rbind (js_get i ''id'') (\<lambda>v. Inr (case v of Some (JNum m) \<Rightarrow> n = Some m | _ \<Rightarrow> False))"

text \<open>\<^verbatim>\<open>items.findIndex(p)\<close> with a predicate that may throw.\<close>

fun find_index :: "(jval \<Rightarrow> bool result) \<Rightarrow> jval list \<Rightarrow> nat option result" where
  "find_index p [] = Inr None"
| "find_index p (x # xs) =
     rbind (p x) (\<lambda>b. if b then Inr (Some 0) else rbind (find_index p xs) (\<lambda>r. Inr (map_option Suc r)))"

datatype request =
    ListItems
  | CreateItem jval
  | ReadItem string
  | ReplaceItem string jval
  | DeleteItem string

definition not_found :: response where
  "not_found = TextResp 404 ''Item not found''"

text \<open>
  The five handlers (index.js lines 9--46).  \<^verbatim>\<open>GET /items/:id\<close> uses
  \<^verbatim>\<open>items.find\<close> and answers 404 also for a found item that is falsy.
\<close>

fun handle :: "request \<Rightarrow> jval list \<Rightarrow> response result \<times> jval list" where
  "handle ListItems items = (Inr (JsonResp 200 (JArr items)), items)"
| "handle (CreateItem item) items = (Inr (JsonResp 201 item), items @ [item])"
| "handle (ReadItem param) items =
     (case find_index (id_matches (parse_int param)) items of
        Inl e \<Rightarrow> (Inl e, items)
      | Inr None \<Rightarrow> (Inr not_found, items)
      | Inr (Some k) \<Rightarrow> (Inr (if js_truthy (items ! k) then JsonResp 200 (items ! k) else not_found), items))"
| "handle (ReplaceItem param body) items =
     (case find_index (id_matches (parse_int param)) items of
        Inl e \<Rightarrow> (Inl e, items)
      | Inr None \<Rightarrow> (Inr not_found, items)
      | Inr (Some k) \<Rightarrow> (Inr (JsonResp 200 body), items[k := body]))"
| "handle (DeleteItem param) items =
     (case find_index (id_matches (parse_int param)) items of
        Inl e \<Rightarrow> (Inl e, items)
      | Inr None \<Rightarrow> (Inr not_found, items)
      | Inr (Some k) \<Rightarrow> (Inr (EmptyResp 204), take k items @ drop (Suc k) items))"

text \<open>A request whose body \<^verbatim>\<open>express.json()\<close> can produce.\<close>

fun admissible :: "request \<Rightarrow> bool" where
  "admissible (CreateItem b) = is_container b"
| "admissible (ReplaceItem _ b) = is_container b"
| "admissible _ = True"

inductive items_reachable :: "jval list \<Rightarrow> bool" where
  start: "items_reachable []"
| step: "items_reachable items \<Longrightarrow> admissible r \<Longrightarrow> items_reachable (snd (handle r items))"

section \<open>Lemmas on parseInt and the lookups\<close>

lemma digit_value_digit_char [simp]: "d < 10 \<Longrightarrow> digit_value 10 (digit_char d) = Some d"
  by (simp add: digit_value_def digit_char_def)

lemma digit_run_append:
  "(\<forall>c \<in> set xs. digit_value r c \<noteq> None) \<Longrightarrow>
   digit_run r (xs @ ys) = map (\<lambda>c. the (digit_value r c)) xs @ digit_run r ys"
  by (induction xs) auto

lemma show_nat_decimal:
  "(\<forall>c \<in> set (show_nat m). digit_value 10 c \<noteq> None) \<and>
   digits_to_nat 10 (map (\<lambda>c. the (digit_value 10 c)) (show_nat m)) = m"
proof (induction m rule: show_nat.induct)
  case (1 n)
  show ?case
  proof (cases "n < 10")
    case True
    then show ?thesis by (simp add: show_nat_small digits_to_nat_def)
  next
    case False
    with "1.IH" show ?thesis
      by (simp add: show_nat_big digits_to_nat_def)
  qed
qed

lemma show_nat_hd_nonzero: "m \<noteq> 0 \<Longrightarrow> hd (show_nat m) \<noteq> CHR ''0''"
proof (induction m rule: show_nat.induct)
  case (1 n)
  show ?case
  proof (cases "n < 10")
    case True
    have "of_char (digit_char n) = (48 + n :: nat)" using True by (simp add: digit_char_def)
    then have "digit_char n \<noteq> CHR ''0''" using "1.prems" by auto
    with True show ?thesis by (simp add: show_nat_small)
  next
    case False
    with "1.IH" show ?thesis by (simp add: show_nat_big)
  qed
qed

lemma digit_run_show_nat:
  assumes "rest = [] \<or> digit_value 10 (hd rest) = None"
  shows "digit_run 10 (show_nat m @ rest) \<noteq> [] \<and> digits_to_nat 10 (digit_run 10 (show_nat m @ rest)) = m"
proof -
  have "digit_run 10 rest = []" using assms by (cases rest) auto
  with show_nat_decimal [of m] show ?thesis
    by (simp add: digit_run_append)
qed

lemma not_hex_prefix:
  assumes "rest = [] \<or> digit_value 10 (hd rest) = None" and "m = 0 \<longrightarrow> rest = [] \<or> hd rest \<notin> {CHR ''x'', CHR ''X''}"
  shows "take 2 (show_nat m @ rest) \<noteq> ''0x'' \<and> take 2 (show_nat m @ rest) \<noteq> ''0X''"
proof (cases "m = 0")
  case True
  then have "show_nat m = ''0''" by (simp add: show_nat_small)
  with True assms(2) show ?thesis by (cases rest) auto
next
  case False
  then have "hd (show_nat m) \<noteq> CHR ''0''" by (rule show_nat_hd_nonzero)
  then show ?thesis by (cases "show_nat m") auto
qed

lemma parse_int_plain:
  assumes "str = c # r" and "\<not> js_space c" and "c \<noteq> CHR ''-''" and "c \<noteq> CHR ''+''"
    and "take 2 str \<noteq> ''0x''" and "take 2 str \<noteq> ''0X''"
  shows "parse_int str =
           (if digit_run 10 str = [] then None else Some (int (digits_to_nat 10 (digit_run 10 str))))"
proof -
  have "dropWhile js_space str = str" using assms(1,2) by simp
  moreover have "parse_sign str = (1, str)" using assms(1,3,4) by (simp add: parse_sign_def)
  moreover have "parse_radix str = (10, str)" using assms(5,6) by (simp add: parse_radix_def)
  ultimately show ?thesis by (simp add: parse_int_def)
qed

lemma parse_int_minus:
  assumes "take 2 r \<noteq> ''0x''" and "take 2 r \<noteq> ''0X''"
  shows "parse_int (CHR ''-'' # r) =
           (if digit_run 10 r = [] then None else Some (- int (digits_to_nat 10 (digit_run 10 r))))"
proof -
  have "dropWhile js_space (CHR ''-'' # r) = CHR ''-'' # r" by (simp add: js_space_def)
  moreover have "parse_sign (CHR ''-'' # r) = (-1, r)" by (simp add: parse_sign_def)
  moreover have "parse_radix r = (10, r)" using assms by (simp add: parse_radix_def)
  ultimately show ?thesis by (simp add: parse_int_def)
qed

lemma parse_int_neg_show_nat:
  assumes "rest = [] \<or> digit_value 10 (hd rest) = None" and "m \<noteq> 0"
  shows "parse_int (CHR ''-'' # show_nat m @ rest) = Some (- int m)"
proof -
  have "m = 0 \<longrightarrow> rest = [] \<or> hd rest \<notin> {CHR ''x'', CHR ''X''}" using assms(2) by simp
  from not_hex_prefix [OF assms(1) this]
  have hx: "take 2 (show_nat m @ rest) \<noteq> ''0x'' \<and> take 2 (show_nat m @ rest) \<noteq> ''0X''" .
  have d: "digit_run 10 (show_nat m @ rest) \<noteq> []" "digits_to_nat 10 (digit_run 10 (show_nat m @ rest)) = m"
    using digit_run_show_nat [OF assms(1), of m] by auto
  have "parse_int (CHR ''-'' # (show_nat m @ rest)) =
         (if digit_run 10 (show_nat m @ rest) = [] then None
          else Some (- int (digits_to_nat 10 (digit_run 10 (show_nat m @ rest)))))"
    using hx by (intro parse_int_minus) auto
  with d show ?thesis by simp
qed

lemma parse_int_show_nat:
  assumes "rest = [] \<or> digit_value 10 (hd rest) = None"
    and "m = 0 \<longrightarrow> rest = [] \<or> hd rest \<notin> {CHR ''x'', CHR ''X''}"
  shows "parse_int (show_nat m @ rest) = Some (int m)"
proof -
  obtain c r where cr: "show_nat m @ rest = c # r"
    using show_nat_not_Nil [of m] by (cases "show_nat m") auto
  have "is_digit c" using show_nat_digits [of m] cr by (cases "show_nat m") auto
  then have c: "\<not> js_space c" "c \<noteq> CHR ''-''" "c \<noteq> CHR ''+''"
    by (auto simp: is_digit_def js_space_def)
  have hx: "take 2 (show_nat m @ rest) \<noteq> ''0x''" "take 2 (show_nat m @ rest) \<noteq> ''0X''"
    using not_hex_prefix [OF assms] by auto
  have d: "digit_run 10 (show_nat m @ rest) \<noteq> []" "digits_to_nat 10 (digit_run 10 (show_nat m @ rest)) = m"
    using digit_run_show_nat [OF assms(1), of m] by auto
  have "parse_int (show_nat m @ rest) =
         (if digit_run 10 (show_nat m @ rest) = [] then None
          else Some (int (digits_to_nat 10 (digit_run 10 (show_nat m @ rest)))))"
    by (rule parse_int_plain [OF cr c hx])
  with d show ?thesis by simp
qed

lemma parse_int_show_int:
  assumes "rest = [] \<or> digit_value 10 (hd rest) = None"
    and "n = 0 \<longrightarrow> rest = [] \<or> hd rest \<notin> {CHR ''x'', CHR ''X''}"
  shows "parse_int (show_int n @ rest) = Some n"
proof (cases "n < 0")
  case True
  then have "nat (- n) \<noteq> 0" by simp
  from parse_int_neg_show_nat [OF assms(1) this] True show ?thesis
    by (simp add: show_int_def)
next
  case False
  with assms(2) have "nat n = 0 \<longrightarrow> rest = [] \<or> hd rest \<notin> {CHR ''x'', CHR ''X''}" by simp
  from parse_int_show_nat [OF assms(1) this] False show ?thesis
    by (simp add: show_int_def)
qed

lemma find_index_Some:
  "find_index p xs = Inr (Some k) \<Longrightarrow>
     k < length xs \<and> p (xs ! k) = Inr True \<and> (\<forall>j < k. p (xs ! j) = Inr False)"
proof (induction xs arbitrary: k)
  case (Cons x xs)
  show ?case
  proof (cases "p x")
    case (Inr b)
    with Cons show ?thesis
      by (cases b) (auto simp: nth_Cons' rbind_eq_Inr split: if_splits)
  qed (use Cons.prems in simp)
qed simp

lemma find_index_None:
  "find_index p xs = Inr None \<Longrightarrow> \<forall>x \<in> set xs. p x = Inr False"
proof (induction xs)
  case (Cons x xs)
  then show ?case
    by (cases "p x") (auto simp: rbind_eq_Inr split: if_splits)
qed simp

lemma find_index_total:
  "\<forall>x \<in> set xs. \<exists>b. p x = Inr b \<Longrightarrow> \<exists>r. find_index p xs = Inr r"
  by (induction xs) auto

lemma find_index_first:
  "\<forall>y \<in> set ys. p y = Inr False \<Longrightarrow> p x = Inr True \<Longrightarrow> find_index p (ys @ x # zs) = Inr (Some (length ys))"
  by (induction ys) auto

lemma id_matches_container:
  "is_container i \<Longrightarrow> \<exists>b. id_matches n i = Inr b"
  by (cases i) (auto simp: id_matches_def js_get_def)

lemma handle_containers:
  "\<forall>i \<in> set items. is_container i \<Longrightarrow> admissible r \<Longrightarrow> \<forall>i \<in> set (snd (handle r items)). is_container i"
proof (cases r)
  case (ReplaceItem p b)
  assume "\<forall>i \<in> set items. is_container i" "admissible r"
  with ReplaceItem show ?thesis
    by (auto split: sum.splits option.splits dest!: set_update_subset_insert [THEN subsetD])
next
  case (DeleteItem p)
  assume "\<forall>i \<in> set items. is_container i"
  with DeleteItem show ?thesis
    by (auto split: sum.splits option.splits dest: in_set_takeD in_set_dropD)
qed (auto split: sum.splits option.splits)

lemma items_reachable_containers: "items_reachable items \<Longrightarrow> \<forall>i \<in> set items. is_container i"
  by (induction rule: items_reachable.induct) (auto dest: handle_containers)

section \<open>Properties of the item store\<close>

text \<open>
  C3 (safety).  In every reachable state of the item store (any sequence of requests
  with bodies \<^verbatim>\<open>express.json()\<close> can produce), every handler returns a
  response: the \<^verbatim>\<open>i.id\<close> reads of the lookups never throw.
\<close>

theorem items_handle_total:
  assumes "items_reachable items"
  shows "\<exists>resp. fst (handle r items) = Inr resp"
proof -
  have "\<forall>i \<in> set items. \<exists>b. id_matches (parse_int p) i = Inr b" for p
    using items_reachable_containers [OF assms] id_matches_container by blast
  then have F: "\<exists>x. find_index (id_matches (parse_int p)) items = Inr x" for p
    by (blast intro: find_index_total)
  show ?thesis
  proof (cases r)
    case (ReadItem p)
    from F [of p] obtain x where "find_index (id_matches (parse_int p)) items = Inr x" ..
    with ReadItem show ?thesis by (cases x) auto
  next
    case (ReplaceItem p b)
    from F [of p] obtain x where "find_index (id_matches (parse_int p)) items = Inr x" ..
    with ReplaceItem show ?thesis by (cases x) auto
  next
    case (DeleteItem p)
    from F [of p] obtain x where "find_index (id_matches (parse_int p)) items = Inr x" ..
    with DeleteItem show ?thesis by (cases x) auto
  qed auto
qed

text \<open>
  C17 (roundtrip).  An item created with the numeric id \<open>n\<close>, when no earlier item has
  that id, is returned by \<^verbatim>\<open>GET /items/n\<close> (\<open>n\<close> in decimal).
\<close>

theorem create_read_roundtrip:
  assumes "\<forall>i \<in> set items. id_matches (Some n) i = Inr False"
    and "map_of kvs ''id'' = Some (JNum n)"
  shows "fst (handle (ReadItem (show_int n)) (items @ [JObj kvs])) = Inr (JsonResp 200 (JObj kvs))"
proof -
  have p: "parse_int (show_int n) = Some n"
    using parse_int_show_int [of "[]" n] by simp
  have m: "id_matches (Some n) (JObj kvs) = Inr True"
    using assms(2) by (simp add: id_matches_def js_get_def)
  have "find_index (id_matches (Some n)) (items @ [JObj kvs]) = Inr (Some (length items))"
    using find_index_first [OF assms(1) m, of "[]"] by simp
  with p show ?thesis by simp
qed

text \<open>
  A successful \<^verbatim>\<open>DELETE\<close> removes exactly one occurrence of one stored
  item and keeps all others (as a multiset).
\<close>

theorem delete_removes_one:
  assumes "handle (DeleteItem p) items = (Inr (EmptyResp 204), items')"
  shows "\<exists>x \<in> set items. mset items' = mset items - {#x#}"
proof -
  from assms obtain k where k: "find_index (id_matches (parse_int p)) items = Inr (Some k)"
    and items': "items' = take k items @ drop (Suc k) items"
    by (auto simp: not_found_def split: sum.splits option.splits)
  from find_index_Some [OF k] have "k < length items" by simp
  then have "items = take k items @ items ! k # drop (Suc k) items"
    by (rule id_take_nth_drop)
  then have "mset items = add_mset (items ! k) (mset items')"
    using items' by (metis mset.simps(2) mset_append union_mset_add_mset_right)
  then have "mset items' = mset items - {#items ! k#}" by simp
  with \<open>k < length items\<close> show ?thesis by auto
qed

text \<open>
  C38 (functional).  Items whose \<^verbatim>\<open>id\<close> is a string are never found by
  \<^verbatim>\<open>GET /items/:id\<close>: the strict comparison with the number
  \<^verbatim>\<open>parseInt\<close> returns always fails.
\<close>

theorem string_ids_not_found:
  assumes "\<forall>i \<in> set items. \<exists>kvs s. i = JObj kvs \<and> map_of kvs ''id'' = Some (JStr s)"
  shows "fst (handle (ReadItem p) items) = Inr not_found"
proof -
  have "\<forall>i \<in> set items. id_matches (parse_int p) i = Inr False"
    using assms by (fastforce simp: id_matches_def js_get_def)
  then have "find_index (id_matches (parse_int p)) items = Inr None"
    by (induction items) auto
  then show ?thesis by simp
qed

text \<open>
  C26 (functional).  \<^verbatim>\<open>GET /items/:id\<close> returns the first stored item whose id matches;
  ids are not unique (\<^verbatim>\<open>POST\<close> never checks), so later duplicates are
  shadowed.
\<close>

theorem read_returns_first:
  assumes "handle (ReadItem p) items = (Inr (JsonResp 200 x), items')"
  shows "\<exists>ys zs. items = ys @ x # zs \<and> id_matches (parse_int p) x = Inr True \<and>
                 (\<forall>y \<in> set ys. id_matches (parse_int p) y = Inr False)"
proof -
  from assms obtain k where k: "find_index (id_matches (parse_int p)) items = Inr (Some k)"
    and x: "x = items ! k"
    by (auto simp: not_found_def split: sum.splits option.splits if_splits)
  from find_index_Some [OF k] have "k < length items" and m: "id_matches (parse_int p) x = Inr True"
    and before: "\<forall>j < k. id_matches (parse_int p) (items ! j) = Inr False"
    using x by auto
  have "items = take k items @ x # drop (Suc k) items"
    using \<open>k < length items\<close> x by (simp add: Cons_nth_drop_Suc)
  moreover have "\<forall>y \<in> set (take k items). id_matches (parse_int p) y = Inr False"
    using before \<open>k < length items\<close> by (auto simp: in_set_conv_nth)
  ultimately show ?thesis using m by blast
qed

text \<open>
  C39 (functional).  \<^verbatim>\<open>PUT /items/:id\<close> stores the request body as it is:
  a body without an \<^verbatim>\<open>id\<close> replaces the item, which can no longer be
  read back by that id.
\<close>

theorem replace_loses_id:
  assumes "map_of kvs ''id'' = Some (JNum n)" and "map_of bkvs ''id'' = None"
  shows "handle (ReplaceItem (show_int n) (JObj bkvs)) [JObj kvs] = (Inr (JsonResp 200 (JObj bkvs)), [JObj bkvs]) \<and>
         fst (handle (ReadItem (show_int n)) [JObj bkvs]) = Inr not_found"
proof -
  have p: "parse_int (show_int n) = Some n"
    using parse_int_show_int [of "[]" n] by simp
  with assms show ?thesis by (simp add: id_matches_def js_get_def)
qed

text \<open>
  C40 (functional).  The id in the path is read by \<^verbatim>\<open>parseInt\<close>, which
  stops at the first character that is not a digit: \<^verbatim>\<open>/items/5abc\<close>
  addresses the same item as \<^verbatim>\<open>/items/5\<close>.
\<close>

theorem read_ignores_suffix:
  assumes "rest = [] \<or> digit_value 10 (hd rest) = None"
    and "n = 0 \<longrightarrow> rest = [] \<or> hd rest \<notin> {CHR ''x'', CHR ''X''}"
  shows "handle (ReadItem (show_int n @ rest)) items = handle (ReadItem (show_int n)) items"
proof -
  have "parse_int (show_int n @ rest) = Some n" by (rule parse_int_show_int [OF assms])
  moreover have "parse_int (show_int n) = Some n" using parse_int_show_int [of "[]" n] by simp
  ultimately show ?thesis by simp
qed

section \<open>Witnesses\<close>

lemma items_handle_total_witness:
  "\<exists>resp. fst (handle (ReadItem ''1'') [JObj [(''id'', JNum 1)]]) = Inr resp"
proof -
  have "items_reachable (snd (handle (CreateItem (JObj [(''id'', JNum 1)])) []))"
    by (rule items_reachable.step [OF items_reachable.start]) simp
  then have "items_reachable [JObj [(''id'', JNum 1)]]" by simp
  from items_handle_total [OF this] show ?thesis .
qed

lemma create_read_roundtrip_witness:
  "fst (handle (ReadItem ''7'') [JObj [(''id'', JNum 7)]]) = Inr (JsonResp 200 (JObj [(''id'', JNum 7)]))"
  using create_read_roundtrip [of "[]" 7 "[(''id'', JNum 7)]"] by (simp add: show_int_def js_simps)

lemma delete_removes_one_witness:
  "\<exists>x \<in> set [JObj [(''id'', JNum 1)], JObj []]. mset [JObj []] = mset [JObj [(''id'', JNum 1)], JObj []] - {#x#}"
proof -
  have "handle (DeleteItem ''1'') [JObj [(''id'', JNum 1)], JObj []] = (Inr (EmptyResp 204), [JObj []])"
    by (simp add: parse_int_def parse_sign_def parse_radix_def js_space_def digit_value_def
        digits_to_nat_def id_matches_def js_get_def)
  from delete_removes_one [OF this] show ?thesis .
qed

lemma read_returns_first_witness:
  "\<exists>ys zs. [JObj [(''id'', JNum 1), (''v'', JNum 1)], JObj [(''id'', JNum 1), (''v'', JNum 2)]] = ys @ JObj [(''id'', JNum 1), (''v'', JNum 1)] # zs \<and>
     id_matches (parse_int ''1'') (JObj [(''id'', JNum 1), (''v'', JNum 1)]) = Inr True \<and>
     (\<forall>y \<in> set ys. id_matches (parse_int ''1'') y = Inr False)"
proof -
  have "handle (ReadItem ''1'') [JObj [(''id'', JNum 1), (''v'', JNum 1)], JObj [(''id'', JNum 1), (''v'', JNum 2)]] =
        (Inr (JsonResp 200 (JObj [(''id'', JNum 1), (''v'', JNum 1)])),
         [JObj [(''id'', JNum 1), (''v'', JNum 1)], JObj [(''id'', JNum 1), (''v'', JNum 2)]])"
    by (simp add: parse_int_def parse_sign_def parse_radix_def js_space_def digit_value_def
        digits_to_nat_def id_matches_def js_get_def)
  from read_returns_first [OF this] show ?thesis .
qed

lemma string_ids_not_found_witness:
  "fst (handle (ReadItem ''5'') [JObj [(''id'', JStr ''5'')]]) = Inr not_found"
  using string_ids_not_found [of "[JObj [(''id'', JStr ''5'')]]" "''5''"] by simp

lemma replace_loses_id_witness:
  "handle (ReplaceItem ''5'' (JObj [])) [JObj [(''id'', JNum 5)]] = (Inr (JsonResp 200 (JObj [])), [JObj []]) \<and>
   fst (handle (ReadItem ''5'') [JObj []]) = Inr not_found"
  using replace_loses_id [of "[(''id'', JNum 5)]" 5 "[]"] by (simp add: show_int_def js_simps)

lemma read_ignores_suffix_witness:
  "handle (ReadItem ''5abc'') [JObj [(''id'', JNum 5)]] = handle (ReadItem ''5'') [JObj [(''id'', JNum 5)]]"
  using read_ignores_suffix [of "''abc''" 5 "[JObj [(''id'', JNum 5)]]"]
  by (simp add: show_int_def js_simps digit_value_def)

end
