(* ===== verification/Spec2Isabelle.thy ===== *)
theory Spec2Isabelle
  imports Router ItemsApp Logger
begin

text \<open>
  Verification development of Webservices-cw (src/middleware).  The main
  program is an Express server (index.ts): HTTP handlers
  (controller/queryController.ts, controller/response.controller.ts) call
  two services (services/query.service.ts, services/response.service.ts),
  which build SQL text and post it to an external query engine (the data
  manager), ask a language model for a query (services/openai.service.ts)
  and keep generated queries in Postgres (util/databasePg.ts).  Errors are
  \<^verbatim>\<open>CustomError\<close> values (services/exception.service.ts) that the query
  controller serialises into 500 responses and the response controller
  passes to \<^verbatim>\<open>globalErrorHandler\<close>.  A second, independent Express app
  (index.js) keeps an in-memory list of items.  Both servers log through
  a winston logger (logger.ts).

  \<^bold>\<open>Theories\<close>, each importing the ones it calls:
  \<^item> Prelude: JavaScript errors as values (\<open>js_error\<close>, \<open>'a result\<close>),
    \<open>rbind\<close> for sequencing throwing steps, \<open>sequence\<close> for
    \<^verbatim>\<open>Array.prototype.map\<close> of a throwing function, \<open>join\<close>, decimal
    rendering of integers, and the search lemmas on lists (least index of
    \<open>find\<close>, first occurrence of a border-free pattern).
  \<^item> Json: the JSON values handlers receive (\<open>jval\<close>) and the runtime
    operations the code applies to them (\<open>js_get\<close>, \<open>js_in\<close>,
    \<open>js_keys\<close>, \<open>js_iter\<close>, \<open>js_destructure\<close>, \<open>js_truthy\<close>,
    \<open>json_stringify\<close>), and the conversion to a string (\<open>js_string\<close>,
    \<open>js_template\<close>, \<open>js_toString\<close>), which throws on an object with an
    own \<^verbatim>\<open>toString\<close> key (\<open>js_convertible\<close>).
  \<^item> Http: Express responses, \<^verbatim>\<open>STATUS_MESSAGE\<close> and
    \<^verbatim>\<open>STATUS_CODES\<close>, the serialisation of a
    thrown error (\<open>error_json\<close>, \<open>error_string\<close>) and
    \<open>globalErrorHandler\<close>.
  \<^item> FilterCompiler: \<^verbatim>\<open>QueryService.buildQuery\<close> (query.service.ts lines
    13--62) as the terminating function \<open>buildQuery\<close> (measure: size of the
    JSON value), its helpers, and the specification's typed filters
    (\<open>filter\<close>, \<open>compile\<close>, \<open>encode\<close>) with the refinement
    \<open>buildQuery (encode f) = Inr (compile f)\<close> and every error branch;
    the declared input type of types.ts (\<open>is_query_operation\<close>) and the
    type-safety theorem that well-typed input never raises a \<^verbatim>\<open>TypeError\<close>.
  \<^item> QueryService: the environment variables (\<open>env\<close>), \<open>run_query\<close>
    (the post to the data manager, an oracle \<open>http_post\<close>), \<open>queryData\<close>
    and the eight report queries, their SQL text copied from the source.
  \<^item> SavedQueries: the Postgres table as a state \<open>pg_state\<close> (table or
    none, rows, \<^verbatim>\<open>SERIAL\<close> counter, connection state) with
    \<open>insertSavedQuery\<close> (with the server's checks: relation, NUL,
    sequence, \<^verbatim>\<open>VARCHAR(255)\<close>), \<open>getSavedQueryById\<close>,
    \<open>getSavedQueries\<close>, \<open>createTable\<close>; runs as the inductive \<open>pg_step\<close>/\<open>pg_reachable\<close>,
    the invariant \<open>table_inv\<close> (ids increasing, below the counter, the
    counter within the 32-bit \<^verbatim>\<open>SERIAL\<close> range \<open>serial_max\<close>), the
    abstract store \<open>store_of\<close> and its refinement.
  \<^item> Prompt: \<open>completion\<close> with the request it sends
    (\<open>chat_request\<close>: the model from \<^verbatim>\<open>MODEL_NAME\<close> or the default,
    one system message, token limit and temperature; the API key from
    \<^verbatim>\<open>OPENAI_KEY\<close>), \<open>extractQuery\<close> (the fenced-SQL regular
    expression by its backtracking semantics), \<open>generatePrompt\<close> (split
    as \<open>build_filters\<close>, \<open>save_answer\<close>, \<open>generate_try\<close>) and
    \<open>saveQuery\<close>, over a \<open>world\<close> (database, UUIDs drawn) and oracles
    \<open>services\<close> (table endpoint, chat model, \<^verbatim>\<open>randomUUID\<close>).
  \<^item> Controllers: every handler of both controllers, the service entry
    \<open>saveQuery_service\<close> on the raw request values, \<open>getAll\<close> and
    \<open>executeById\<close> of ResponseService, and \<open>pg_prepare\<close> (how
    node-postgres binds a value).
  \<^item> Router: the routes of index.ts (\<open>route\<close>, \<open>root_type\<close>), the
    whole server \<open>app\<close>, its runs \<open>app_reachable\<close> (any requests with
    any answers of the outside services, interleaved with database failures)
    and their invariant \<open>world_inv\<close>, proved through the effect relation
    \<open>world_step\<close> every handler's state change is a sequence of.
  \<^item> ItemsApp: index.js as the step function \<open>handle\<close> on the item list,
    JavaScript's \<^verbatim>\<open>parseInt\<close> (\<open>parse_int\<close>), the lookup
    \<^verbatim>\<open>find\<close>/\<^verbatim>\<open>findIndex\<close> with a throwing predicate
    (\<open>find_index\<close>), and the reachable states \<open>items_reachable\<close>.
  \<^item> Logger: logger.ts as the winston semantics it configures: levels,
    the timestamp and \<^verbatim>\<open>printf\<close> format (\<open>format_line\<close>), how a call
    with extra arguments builds its message (\<open>log_message\<close>) and when
    doing so throws (\<open>log_check\<close>), the four
    transports with their level filters (\<open>log_write\<close>), and the output
    files under any sequence of calls (\<open>log_reachable\<close>).

  \<^bold>\<open>What the lemmas show.\<close>  The filter compiler implements the specified
  compilation of every well-typed filter and reports each malformed one
  with the first error of a left-to-right traversal, and input of the
  declared TypeScript type never makes it throw a runtime type error, while
  unconvertible operands outside it do.  The store keeps unique ids in
  every reachable state, refines a map from prompt ids to texts,
  round-trips insert/read, and rejects an over-long id after consuming a
  sequence value.  In every run of the
  whole server, saved prompt ids are pairwise distinct for an injective
  UUID supply.  \<^verbatim>\<open>extractQuery\<close> is characterised
  exactly (first opening fence, first closing fence after it), and
  \<^verbatim>\<open>generatePrompt\<close> saves what it returns under fresh UUIDs.  The item
  store never throws in a reachable state and its lookups return the first
  match.  \<^verbatim>\<open>error.log\<close> only ever holds error lines.  The last
  property below composes the router, the save handler,
  the store and the execute handler.  Findings (behaviours the code has
  that its names, comments or the specification do not) are stated as
  lemmas too: unquoted range bounds, the constant month/day queries, the
  ignored table name, error messages lost in 500 bodies, the unrouted
  filter endpoint, the \<^verbatim>\<open>{"query":null}\<close> execution, an empty fenced
  block saving the whole answer, the object table description that
  reaches the model as \<^verbatim>\<open>[object Object]\<close> or aborts the request when
  it has an own \<^verbatim>\<open>toString\<close>, and the values that never reach the
  log because they are passed as extra arguments.

  \<^bold>\<open>Modelling choices.\<close>  JSON numbers are integers rendered in decimal.
  An object is the list of its own properties in enumeration order, as
  \<^verbatim>\<open>JSON.parse\<close> builds it; parsing itself (body-parser) is not
  modelled.  Strings are lists of characters, one per UTF-16 unit.  A
  \<^verbatim>\<open>SELECT\<close> without \<^verbatim>\<open>ORDER BY\<close> returns rows in insertion order.
  Asynchrony is not modelled: each handler runs to completion before the
  next request (Node's single thread interleaves only at \<^verbatim>\<open>await\<close>s, and
  the model's properties are stated per request).  No fuel or bounds are
  needed: every function terminates structurally or by a size measure,
  and \<^verbatim>\<open>extractQuery\<close> searches bounded index ranges.  The bounds of
  the program are the database's: the 32-bit \<^verbatim>\<open>SERIAL\<close> id column
  (2147483647) and the two \<^verbatim>\<open>VARCHAR(255)\<close> id columns, with
  Postgres's rejection of NUL in text, checked in the order the server
  runs them (a too-long id fails after the id default has drawn its
  sequence value).  \<^verbatim>\<open>randomUUID\<close> is an arbitrary supply \<open>nat \<Rightarrow> string\<close>; the
  uniqueness of prompt ids assumes it injective, as UUIDs are meant to be.

  \<^bold>\<open>Not modelled.\<close>  The log calls inside the handlers are not threaded
  through their models (logging changes no result; the Logger theory
  models a call on its own); the clock is an input; the OpenAI client, the
  data manager, Postgres and \<^verbatim>\<open>randomUUID\<close> themselves (their answers
  are oracle inputs); Express's path matching beyond exact segments (case
  folding, trailing slashes), CORS and body parsing; query parameters are
  strings (the nested objects and arrays Express's extended query parser
  can build from brackets and repeated keys are not modelled); precision
  of non-integral numbers.
\<close>

section \<open>Properties across components\<close>

text \<open>
  C10 (roundtrip).  Saving through the server and executing by the prompt id
  (on a connected database whose id sequence is not exhausted, with UUIDs
  that fit the \<^verbatim>\<open>VARCHAR(255)\<close> columns and no NUL in the texts):
  \<^verbatim>\<open>POST /save-query\<close> with a query and a name answers
  \<^verbatim>\<open>{"status":"success"}\<close>, and a following
  \<^verbatim>\<open>GET /execute/<id>\<close> with the prompt id drawn for it sends exactly
  \<^verbatim>\<open>JSON.stringify({query})\<close> of the saved text to the execute endpoint
  and answers with what that endpoint returns.
\<close>

theorem save_then_execute:
  assumes conn: "conn_error (db w) = None" and ne: "q \<noteq> []" "n \<noteq> []" "uuid srv (Suc (uuid_count w)) \<noteq> []"
    and fresh: "uuid srv (Suc (uuid_count w)) \<notin> dom (store_of (created_table (db w)))"
    and seq: "serial (created_table (db w)) \<le> serial_max"
    and args: "insert_args_ok (uuid srv (uuid_count w)) (uuid srv (Suc (uuid_count w))) q n"
    and save: "app srv env post exec \<lparr>req_method = POST, req_path = [''save-query''], req_query = qp,
                 req_body = JObj [(''query'', JStr q), (''query_name'', JStr n)]\<rparr> w = Some (resp, w')"
  shows "resp = JsonResp 200 (JObj [(''status'', JStr ''success'')]) \<and>
     app srv env post exec \<lparr>req_method = GET, req_path = [''execute'', uuid srv (Suc (uuid_count w))],
                            req_query = qp', req_body = b\<rparr> w' =
     Some (case exec (dm_execute_endpoint env) (json_stringify (JObj [(''query'', JStr q)])) of
             Inl m \<Rightarrow> globalErrorHandler (CustomError 500 (''Error executing by id Error: Axios error '' @ m @ '' ''))
           | Inr d \<Rightarrow> JsonResp 200 (JObj [(''status'', JNum 200), (''data'', d)]), w')"
proof -
  let ?t = "created_table (db w)"
  let ?p = "uuid srv (Suc (uuid_count w))"
  let ?r = "\<lparr>row_id = serial ?t, row_customer_id = uuid srv (uuid_count w), row_prompt_id = ?p,
             row_query_text = q, row_prompt = n\<rparr>"
  have sv: "saveQuery_handler srv (JObj [(''query'', JStr q), (''query_name'', JStr n)]) w =
     (JsonResp 200 (JObj [(''status'', JStr ''success'')]),
      w\<lparr>db := (db w)\<lparr>table := Some \<lparr>rows = rows ?t @ [?r], serial = Suc (serial ?t)\<rparr>\<rparr>,
        uuid_count := Suc (Suc (uuid_count w))\<rparr>)"
    using conn ne seq args by (simp add: saveQuery_handler_def js_simps js_truthy_opt_def createTable_ok
        log_check_def saveQuery_service_def saveQuery_def randomUUID_def insertSavedQuery_ok)
  then have resp: "resp = JsonResp 200 (JObj [(''status'', JStr ''success'')])"
    and w': "w' = w\<lparr>db := (db w)\<lparr>table := Some \<lparr>rows = rows ?t @ [?r], serial = Suc (serial ?t)\<rparr>\<rparr>,
        uuid_count := Suc (Suc (uuid_count w))\<rparr>"
    using save by (simp_all add: app_def route_save dispatch_def)
  have "store_of \<lparr>rows = rows ?t @ [?r], serial = Suc (serial ?t)\<rparr> ?p = Some q"
    using store_of_snoc [of "rows ?t" ?r "Suc (serial ?t)" "serial ?t"] fresh
    by (simp add: store_insert_def store_of_def)
  then have "getSavedQueryById ?p (db w') = Inr (Some q)"
    using conn args by (simp add: w' getSavedQueryById_store insert_args_ok_def)
  then show ?thesis
    using resp ne(3)
    by (simp add: app_def route_execute dispatch_def executeById_handler_def executeById_def
        split: sum.splits)
qed

lemma save_then_execute_witness:
  "\<exists>w'. app demo_services example_env (\<lambda>u b. Inr JNull) (\<lambda>u b. Inr (JStr b))
          \<lparr>req_method = POST, req_path = [''save-query''], req_query = (\<lambda>k. None),
           req_body = JObj [(''query'', JStr ''SELECT 1''), (''query_name'', JStr ''daily'')]\<rparr> demo_world_ready
          = Some (JsonResp 200 (JObj [(''status'', JStr ''success'')]), w') \<and>
        app demo_services example_env (\<lambda>u b. Inr JNull) (\<lambda>u b. Inr (JStr b))
          \<lparr>req_method = GET, req_path = [''execute'', ''uuid-1''], req_query = (\<lambda>k. None), req_body = JObj []\<rparr> w'
          = Some (JsonResp 200 (JObj [(''status'', JNum 200),
                    (''data'', JStr (json_stringify (JObj [(''query'', JStr ''SELECT 1'')])))]), w')"
proof -
  obtain resp w' where run: "app demo_services example_env (\<lambda>u b. Inr JNull) (\<lambda>u b. Inr (JStr b))
          \<lparr>req_method = POST, req_path = [''save-query''], req_query = (\<lambda>k. None),
           req_body = JObj [(''query'', JStr ''SELECT 1''), (''query_name'', JStr ''daily'')]\<rparr> demo_world_ready
          = Some (resp, w')"
    by (simp add: app_def route_save) (metis surj_pair)
  have u: "uuid demo_services (Suc (uuid_count demo_world_ready)) = ''uuid-1''"
    by (simp add: demo_services_def demo_world_ready_def show_nat_small)
  have "conn_error (db demo_world_ready) = None" "uuid demo_services (Suc (uuid_count demo_world_ready)) \<noteq> []"
    "uuid demo_services (Suc (uuid_count demo_world_ready)) \<notin> dom (store_of (created_table (db demo_world_ready)))"
    "serial (created_table (db demo_world_ready)) \<le> serial_max"
    "insert_args_ok (uuid demo_services (uuid_count demo_world_ready))
       (uuid demo_services (Suc (uuid_count demo_world_ready))) ''SELECT 1'' ''daily''"
    by (simp_all add: demo_world_ready_def demo_services_def created_table_def store_of_def serial_max_def
        show_nat_small pg_checks)
  from save_then_execute [OF this(1) _ _ this(2) this(3) this(4) this(5) run, of "\<lambda>k. None" "JObj []"] u run
  show ?thesis by simp
qed

end
